(* ===== verification/Prelude.thy ===== *)
theory Prelude
  imports Main "HOL-Library.Sublist"
begin

text \<open>
  Shared vocabulary of the development: the JavaScript string operations the
  sources call (\<open>String.prototype.trim\<close>, \<open>toLowerCase\<close>, \<open>includes\<close>,
  \<open>Array.prototype.join\<close>, truthiness of a string), a result type for the
  fallible asynchronous calls, and the lemmas on them that the component
  theories share. Strings are \<open>char list\<close>; a JavaScript string is a sequence
  of UTF-16 code units, of which this model covers the ASCII range (the
  whitespace and case tables below are the ASCII parts of ECMAScript's).
\<close>

named_theorems js_string_simps "characteristic equations of the JavaScript string model"

section \<open>Characters and literals\<close>

definition nl :: string where
  "nl = [CHR 0x0A]"

definition apos :: string where
  "apos = [CHR 0x27]"

text \<open>ECMAScript WhiteSpace and LineTerminator, restricted to ASCII.\<close>

definition is_js_space :: "char \<Rightarrow> bool" where
  "is_js_space c \<longleftrightarrow> c = CHR 0x20 \<or> c = CHR 0x09 \<or> c = CHR 0x0A \<or> c = CHR 0x0B
     \<or> c = CHR 0x0C \<or> c = CHR 0x0D"

text \<open>\<open>toLowerCase\<close> on one ASCII character.\<close>

definition lower_char :: "char \<Rightarrow> char" where
  "lower_char c = (let n = (of_char c :: nat) in if 65 \<le> n \<and> n \<le> 90 then char_of (n + 32) else c)"

section \<open>String operations\<close>

definition js_trim :: "string \<Rightarrow> string" where
  "js_trim s = rev (dropWhile is_js_space (rev (dropWhile is_js_space s)))"

definition to_lower :: "string \<Rightarrow> string" where
  "to_lower s = map lower_char s"

text \<open>\<open>s.includes(t)\<close>: does \<open>t\<close> occur in \<open>s\<close> at some position.\<close>

fun js_includes :: "string \<Rightarrow> string \<Rightarrow> bool" where
  "js_includes [] t \<longleftrightarrow> t = []"
| "js_includes (c # s) t \<longleftrightarrow> prefix t (c # s) \<or> js_includes s t"

text \<open>A trimmed string: empty, or no whitespace at either end.\<close>

definition js_trimmed :: "string \<Rightarrow> bool" where
  "js_trimmed s \<longleftrightarrow> s = [] \<or> \<not> is_js_space (hd s) \<and> \<not> is_js_space (last s)"

text \<open>\<open>xs.join(sep)\<close>.\<close>

fun js_join :: "string \<Rightarrow> string list \<Rightarrow> string" where
  "js_join sep [] = []"
| "js_join sep [x] = x"
| "js_join sep (x # y # xs) = x @ sep @ js_join sep (y # xs)"

text \<open>The pieces joined by a doubled separator, as joined by the single one.\<close>

fun blank_between :: "string list \<Rightarrow> string list" where
  "blank_between [] = []"
| "blank_between [x] = [x]"
| "blank_between (x # y # xs) = x # [] # blank_between (y # xs)"

text \<open>Removing the \<open>i\<close>-th pending continuation once it has run.\<close>

definition remove_nth :: "nat \<Rightarrow> 'a list \<Rightarrow> 'a list" where
  "remove_nth i xs = take i xs @ drop (Suc i) xs"

text \<open>\<open>s.split(c)\<close> for a one-character separator: used to read joined text back.\<close>

fun split_on :: "char \<Rightarrow> string \<Rightarrow> string list" where
  "split_on c [] = [[]]"
| "split_on c (d # s) =
     (if d = c then [] # split_on c s
      else (case split_on c s of l # ls \<Rightarrow> (d # l) # ls | [] \<Rightarrow> [[d]]))"

text \<open>A JavaScript string is truthy iff it is not empty.\<close>

abbreviation js_truthy :: "string \<Rightarrow> bool" where
  "js_truthy s \<equiv> s \<noteq> []"

section \<open>Results of asynchronous calls\<close>

text \<open>
  A promise that settles is a value of \<open>'e + 'a\<close>: \<open>Inl\<close> the rejection,
  \<open>Inr\<close> the fulfilled value. \<open>res_bind\<close> is \<open>await\<close> inside a
  \<open>try\<close> block: a rejection skips the rest.
\<close>

text \<open>The reason a promise was rejected, as the caught error's message.\<close>

type_synonym failure = string

definition res_bind :: "'e + 'a \<Rightarrow> ('a \<Rightarrow> 'e + 'b) \<Rightarrow> 'e + 'b" where
  "res_bind m f = (case m of Inl e \<Rightarrow> Inl e | Inr a \<Rightarrow> f a)"

section \<open>Lemmas\<close>

lemma res_bind_simps [simp]:
  "res_bind (Inl e) f = Inl e"
  "res_bind (Inr a) f = f a"
  by (simp_all add: res_bind_def)

lemma js_includes_sublist [js_string_simps]: "js_includes s t \<longleftrightarrow> sublist t s"
  by (induction s) (auto simp: sublist_Cons_right)

lemma js_includes_append_mid [simp]: "js_includes (xs @ t @ ys) t"
  by (simp add: js_includes_sublist)

lemma js_includes_appendI1: "js_includes xs t \<Longrightarrow> js_includes (xs @ ys) t"
  by (auto simp: js_includes_sublist intro: sublist_order.order_trans)

lemma js_includes_appendI2: "js_includes ys t \<Longrightarrow> js_includes (xs @ ys) t"
  by (auto simp: js_includes_sublist intro: sublist_order.order_trans)

lemma js_includes_prefix_app: "js_includes (t @ ys) t"
  by (simp add: js_includes_sublist)

lemma js_includes_prefix_app2: "js_includes (t1 @ t2 @ ys) (t1 @ t2)"
  by (simp add: js_includes_sublist)

lemma js_includes_prefix_app3: "js_includes (t1 @ t2 @ t3 @ ys) (t1 @ t2 @ t3)"
  by (simp add: js_includes_sublist)

lemma js_includes_prefixI: "prefix t s \<Longrightarrow> js_includes s t"
  by (simp add: js_includes_sublist prefix_imp_sublist)

lemma js_includes_skip: "js_includes ys t \<Longrightarrow> js_includes (xs @ ys) t \<equiv> True"
  by (simp add: js_includes_appendI2)

text \<open>
  \<open>simp only: js_includes_search\<close> finds an occurrence of \<open>t\<close> among the
  pieces of a right-nested concatenation without unfolding string literals.
\<close>

lemmas js_includes_search = js_includes_prefix_app [THEN eqTrueI] js_includes_prefix_app2 [THEN eqTrueI]
  js_includes_prefix_app3 [THEN eqTrueI] js_includes_skip

lemma to_lower_append [simp]: "to_lower (xs @ ys) = to_lower xs @ to_lower ys"
  by (simp add: to_lower_def)

lemma to_lower_Cons [simp]: "to_lower (c # s) = lower_char c # to_lower s"
  by (simp add: to_lower_def)

lemma to_lower_Nil [simp]: "to_lower [] = []"
  by (simp add: to_lower_def)

lemma to_lower_length [simp]: "length (to_lower s) = length s"
  by (simp add: to_lower_def)

lemma js_trim_Nil [simp]: "js_trim [] = []"
  by (simp add: js_trim_def)

lemma all_set_dropWhile: "(\<forall>x \<in> set (dropWhile P xs). P x) \<longleftrightarrow> (\<forall>x \<in> set xs. P x)"
  by (induction xs) auto

lemma js_trim_empty_iff: "js_trim s = [] \<longleftrightarrow> (\<forall>c \<in> set s. is_js_space c)"
  by (simp add: js_trim_def all_set_dropWhile)

lemma dropWhile_hd_not: "dropWhile P xs \<noteq> [] \<Longrightarrow> \<not> P (hd (dropWhile P xs))"
  by (induction xs) auto

lemma hd_rev_dropWhile_rev: "xs \<noteq> [] \<Longrightarrow> \<not> P (hd xs) \<Longrightarrow> hd (rev (dropWhile P (rev xs))) = hd xs"
  by (cases xs) (auto simp: dropWhile_append)

lemma js_trim_hd: "js_trim s \<noteq> [] \<Longrightarrow> \<not> is_js_space (hd (js_trim s))"
proof -
  assume ne: "js_trim s \<noteq> []"
  let ?l = "dropWhile is_js_space s"
  from ne have l: "?l \<noteq> []" by (auto simp: js_trim_def dest: set_dropWhileD)
  then have nsp: "\<not> is_js_space (hd ?l)" by (rule dropWhile_hd_not)
  with l have "hd (js_trim s) = hd ?l" by (simp add: js_trim_def hd_rev_dropWhile_rev)
  with nsp show ?thesis by simp
qed

lemma js_trim_last: "js_trim s \<noteq> [] \<Longrightarrow> \<not> is_js_space (last (js_trim s))"
proof -
  assume ne: "js_trim s \<noteq> []"
  let ?r = "dropWhile is_js_space (rev (dropWhile is_js_space s))"
  from ne have "?r \<noteq> []" by (simp add: js_trim_def)
  then have "\<not> is_js_space (hd ?r)" by (rule dropWhile_hd_not)
  with \<open>?r \<noteq> []\<close> show ?thesis by (simp add: js_trim_def last_rev)
qed

lemmas js_trim_ends = js_trim_hd js_trim_last

lemma js_trimmed_Nil [simp]: "js_trimmed []"
  by (simp add: js_trimmed_def)

lemma js_trimmed_js_trim: "js_trimmed (js_trim s)"
  by (auto simp: js_trimmed_def dest: js_trim_ends)

lemma js_trim_id: "js_trimmed s \<Longrightarrow> js_trim s = s"
proof (cases s rule: rev_cases)
  case (snoc ys y)
  assume "js_trimmed s"
  with snoc have h: "\<not> is_js_space (hd (ys @ [y]))" and l: "\<not> is_js_space y"
    by (auto simp: js_trimmed_def)
  from h have "dropWhile is_js_space (ys @ [y]) = ys @ [y]"
    by (cases ys) simp_all
  with l snoc show ?thesis by (simp add: js_trim_def)
qed simp

lemma js_trim_idem [simp]: "js_trim (js_trim s) = js_trim s"
  by (rule js_trim_id [OF js_trimmed_js_trim])

lemma js_trim_append_prefix:
  assumes "js_trimmed t" and "t \<noteq> []"
  shows "prefix t (js_trim (t @ u))"
proof -
  from assms have h: "\<not> is_js_space (hd t)" and l: "\<not> is_js_space (last t)"
    by (auto simp: js_trimmed_def)
  from h \<open>t \<noteq> []\<close> have d: "dropWhile is_js_space (t @ u) = t @ u"
    by (cases t) simp_all
  from l \<open>t \<noteq> []\<close> have "dropWhile is_js_space (rev t) = rev t"
    by (cases t rule: rev_cases) simp_all
  then have "\<exists>x. dropWhile is_js_space (rev u @ rev t) = x @ rev t"
    by (simp add: dropWhile_append)
  then obtain x where "dropWhile is_js_space (rev u @ rev t) = x @ rev t" ..
  with d show ?thesis by (simp add: js_trim_def)
qed

lemma split_on_ne: "split_on c s \<noteq> []"
  by (induction s) (auto split: list.splits)

lemma split_on_free:
  "c \<notin> set x \<Longrightarrow> split_on c (x @ y) = (case split_on c y of l # ls \<Rightarrow> (x @ l) # ls | [] \<Rightarrow> [x])"
  by (induction x) (auto split: list.splits simp: split_on_ne)

lemma split_on_single: "c \<notin> set x \<Longrightarrow> split_on c x = [x]"
  using split_on_free [of c x "[]"] by simp

lemma split_on_join:
  "xs \<noteq> [] \<Longrightarrow> \<forall>x \<in> set xs. c \<notin> set x \<Longrightarrow> split_on c (js_join [c] xs) = xs"
proof (induction xs rule: induct_list012)
  case (3 x y zs)
  then have "split_on c (js_join [c] (y # zs)) = y # zs" by simp
  with 3 show ?case by (simp add: split_on_free)
qed (simp_all add: split_on_single)

lemma js_join_free: "\<forall>x \<in> set xs. c \<notin> set x \<Longrightarrow> c \<notin> set sep \<Longrightarrow> c \<notin> set (js_join sep xs)"
  by (induction sep xs rule: js_join.induct) simp_all

lemma blank_between_ne: "xs \<noteq> [] \<Longrightarrow> blank_between xs \<noteq> []"
  by (cases xs rule: blank_between.cases) simp_all

lemma js_join_Cons_ne: "ys \<noteq> [] \<Longrightarrow> js_join sep (x # ys) = x @ sep @ js_join sep ys"
  by (cases ys) simp_all

lemma js_join_double: "js_join (sep @ sep) xs = js_join sep (blank_between xs)"
  by (induction xs rule: blank_between.induct) (simp_all add: js_join_Cons_ne blank_between_ne)

lemma blank_between_free: "\<forall>x \<in> set xs. c \<notin> set x \<Longrightarrow> \<forall>x \<in> set (blank_between xs). c \<notin> set x"
  by (induction xs rule: blank_between.induct) auto

lemma filter_blank_between: "[] \<notin> set xs \<Longrightarrow> filter (\<lambda>x. x \<noteq> []) (blank_between xs) = xs"
  by (induction xs rule: blank_between.induct) auto

lemma res_bind_isl [simp]: "isl r \<Longrightarrow> isl (res_bind r f)"
  by (cases r) simp_all

lemma set_remove_nth: "set (remove_nth i xs) \<subseteq> set xs"
  by (auto simp: remove_nth_def dest: in_set_takeD in_set_dropD)

lemma length_remove_nth [simp]: "i < length xs \<Longrightarrow> length (remove_nth i xs) = length xs - 1"
  by (simp add: remove_nth_def)

lemma filter_remove_nth:
  "i < length xs \<Longrightarrow> filter P xs = filter P (take i xs) @ (if P (xs ! i) then [xs ! i] else []) @ filter P (drop (Suc i) xs)"
  by (subst id_take_nth_drop [of i xs]) simp_all

lemma length_filter_remove_nth:
  "i < length xs \<Longrightarrow> length (filter P (remove_nth i xs)) + (if P (xs ! i) then 1 else 0) = length (filter P xs)"
  using filter_remove_nth [of i xs P] by (simp add: remove_nth_def)

lemma js_join_split: "js_join sep (xs @ (x @ sep @ y) # ys) = js_join sep (xs @ x # y # ys)"
proof (induction xs)
  case Nil
  show ?case by (cases ys) (simp_all add: js_join_Cons_ne)
next
  case (Cons z zs)
  then show ?case by (simp add: js_join_Cons_ne)
qed

lemma remove_nth_append_left [simp]: "i < length xs \<Longrightarrow> remove_nth i (xs @ ys) = remove_nth i xs @ ys"
  by (simp add: remove_nth_def)

lemma remove_nth_at_length [simp]:
  "remove_nth (length xs) (xs @ y # ys) = xs @ ys"
  "remove_nth (Suc (length xs)) (xs @ y # z # ys) = xs @ y # ys"
  by (simp_all add: remove_nth_def)

end
