(* ===== verification/Types.thy ===== *)
theory Types
  imports Prelude
begin

text \<open>
  The data model of \<open>src/types/index.ts\<close>: the interfaces the gateway returns
  and the interview flow stores. A TypeScript interface is a record; the
  string-literal union \<open>'interviewer' | 'candidate'\<close> is a datatype; an
  optional property (\<open>score?: number\<close>) is an \<open>option\<close> field. JavaScript
  numbers are modelled as \<open>int\<close>: the sources only compare and display them.
  Field names that the interfaces share (\<open>summary\<close>, \<open>strengths\<close>,
  \<open>score\<close>, \<open>title\<close>) are prefixed with their interface, since record fields
  of one theory are constants of one name space.
\<close>

record quiz_question =
  question :: string
  options :: "string list"
  answer :: string
  explanation :: string

record roadmap_step =
  step :: int
  step_title :: string
  description :: string
  resources :: "string list"

record roadmap =
  roadmap_title :: string
  steps :: "roadmap_step list"

text \<open>
  \<open>AtsScanResult.keywords\<close> as the run-time object \<open>JSON.parse\<close> returns:
  the declared type says both lists are present, but nothing checks the
  parsed reply against it, so a list the reply omits is \<open>None\<close>
  (\<open>undefined\<close>).
\<close>

record keyword_lists =
  missing :: "string list option"
  found :: "string list option"

record ats_scan_result =
  score :: "int option"
  matchRate :: "string option"
  ats_keywords :: "keyword_lists option"
  summary :: string
  suggestions :: string
  strengths :: "string option"
  weaknesses :: "string option"

datatype speaker = Interviewer | Candidate

record interview_turn =
  turn_speaker :: speaker
  turn_text :: string

record competency =
  comp_name :: string
  comp_score :: int
  comp_feedback :: string

record interview_report =
  overallScore :: int
  report_summary :: string
  competencies :: "competency list"
  report_strengths :: "string list"
  areasForImprovement :: "string list"
  recommendation :: string

text \<open>The literal a speaker is written as in a transcript (\<open>turn.speaker\<close>).\<close>

fun speaker_str :: "speaker \<Rightarrow> string" where
  "speaker_str Interviewer = ''interviewer''"
| "speaker_str Candidate = ''candidate''"

abbreviation interviewer_turn :: "string \<Rightarrow> interview_turn" where
  "interviewer_turn t \<equiv> \<lparr>turn_speaker = Interviewer, turn_text = t\<rparr>"

abbreviation candidate_turn :: "string \<Rightarrow> interview_turn" where
  "candidate_turn t \<equiv> \<lparr>turn_speaker = Candidate, turn_text = t\<rparr>"

lemma speaker_str_inj: "speaker_str a = speaker_str b \<longleftrightarrow> a = b"
  by (cases a; cases b) simp_all

end
