(* ===== verification/SpeechRecognition.thy ===== *)
theory SpeechRecognition
  imports Prelude
begin

text \<open>
  The hook \<open>useSpeechRecognition\<close> (\<open>src/hooks/useSpeechRecognition.ts\<close>).
  Its React state (\<open>isListening\<close>, \<open>transcript\<close>, \<open>error\<close>) and the
  reference to the browser's recognition object are one record. Each
  function the hook exposes (\<open>startListening\<close>, \<open>stopListening\<close>,
  \<open>setTranscript\<close>) and each handler it installs on the engine
  (\<open>onresult\<close>, \<open>onerror\<close>, \<open>onend\<close>) is a function on that record; the
  engine's callbacks arrive in any order, so a run is any list of events.
  The invariant: a reported error and an active capture never coexist, and
  capture is only active when a recognition object exists.
\<close>

section \<open>State and operations\<close>

record recognition_state =
  isListening :: bool
  transcript :: string
  rec_error :: "string option"
  recognition :: bool \<comment> \<open>\<open>recognitionRef.current !== null\<close>\<close>
  onend_attached :: bool \<comment> \<open>\<open>recognition.onend\<close> still installed\<close>

text \<open>One entry of \<open>event.results\<close>: its \<open>isFinal\<close> flag and its first alternative.\<close>

record speech_result =
  isFinal :: bool
  alt_transcript :: string

definition unsupported_msg :: string where
  "unsupported_msg = ''Speech recognition is not supported in this browser.''"

text \<open>The initial \<open>useState\<close> values followed by the mount effect.\<close>

definition rec_init :: "bool \<Rightarrow> recognition_state" where
  "rec_init isSupported =
     (if \<not> isSupported
      then \<lparr>isListening = False, transcript = [], rec_error = Some unsupported_msg,
            recognition = False, onend_attached = False\<rparr>
      else \<lparr>isListening = False, transcript = [], rec_error = None,
            recognition = True, onend_attached = True\<rparr>)"

text \<open>The \<open>for\<close> loop of \<open>onresult\<close>: the finalised results from \<open>resultIndex\<close> on.\<close>

fun final_transcript :: "speech_result list \<Rightarrow> string" where
  "final_transcript [] = []"
| "final_transcript (r # rs) = (if isFinal r then alt_transcript r else []) @ final_transcript rs"

definition rec_on_result :: "recognition_state \<Rightarrow> nat \<Rightarrow> speech_result list \<Rightarrow> recognition_state" where
  "rec_on_result s resultIndex results =
     (let f = final_transcript (drop resultIndex results) in
      if js_truthy f
      then s\<lparr>transcript := (if js_truthy (transcript s)
                            then js_trim (transcript s @ '' '' @ f) else js_trim f)\<rparr>
      else s)"

definition rec_on_error :: "recognition_state \<Rightarrow> string \<Rightarrow> recognition_state" where
  "rec_on_error s e = s\<lparr>rec_error := Some e, isListening := False\<rparr>"

definition rec_on_end :: "recognition_state \<Rightarrow> recognition_state" where
  "rec_on_end s = (if onend_attached s then s\<lparr>isListening := False\<rparr> else s)"

definition startListening :: "recognition_state \<Rightarrow> recognition_state" where
  "startListening s =
     (if recognition s \<and> \<not> isListening s
      then s\<lparr>transcript := [], rec_error := None, isListening := True\<rparr>
      else s)"

definition stopListening :: "recognition_state \<Rightarrow> recognition_state" where
  "stopListening s = (if recognition s \<and> isListening s then s\<lparr>isListening := False\<rparr> else s)"

definition setTranscript :: "recognition_state \<Rightarrow> string \<Rightarrow> recognition_state" where
  "setTranscript s t = s\<lparr>transcript := t\<rparr>"

text \<open>The effect's cleanup on unmount: detach \<open>onend\<close>, then stop the engine.\<close>

definition rec_teardown :: "recognition_state \<Rightarrow> recognition_state" where
  "rec_teardown s = (if recognition s then s\<lparr>onend_attached := False\<rparr> else s)"

datatype rec_event =
    Start | Stop | SetText string | Teardown
  | Result nat "speech_result list" | Error string | End

text \<open>Engine callbacks exist only once the recognition object was created.\<close>

fun rec_step :: "recognition_state \<Rightarrow> rec_event \<Rightarrow> recognition_state" where
  "rec_step s Start = startListening s"
| "rec_step s Stop = stopListening s"
| "rec_step s (SetText t) = setTranscript s t"
| "rec_step s Teardown = rec_teardown s"
| "rec_step s (Result i rs) = (if recognition s then rec_on_result s i rs else s)"
| "rec_step s (Error e) = (if recognition s then rec_on_error s e else s)"
| "rec_step s End = (if recognition s then rec_on_end s else s)"

definition rec_run :: "recognition_state \<Rightarrow> rec_event list \<Rightarrow> recognition_state" where
  "rec_run s es = fold (\<lambda>e s. rec_step s e) es s"

section \<open>Invariant\<close>

definition rec_inv :: "recognition_state \<Rightarrow> bool" where
  "rec_inv s \<longleftrightarrow> (isListening s \<longrightarrow> recognition s \<and> rec_error s = None)"

text \<open>Runs in which every transcript set from outside is itself trimmed.\<close>

definition trims_only :: "rec_event list \<Rightarrow> bool" where
  "trims_only es \<longleftrightarrow> (\<forall>e \<in> set es. case e of SetText t \<Rightarrow> js_trimmed t | _ \<Rightarrow> True)"

named_theorems rec_defs "unfolding set of the recognition hook"
declare startListening_def [rec_defs] stopListening_def [rec_defs] setTranscript_def [rec_defs]
  rec_teardown_def [rec_defs] rec_on_result_def [rec_defs] rec_on_error_def [rec_defs]
  rec_on_end_def [rec_defs]

lemma rec_inv_init: "rec_inv (rec_init b)"
  by (simp add: rec_inv_def rec_init_def)

lemma rec_step_inv: "rec_inv s \<Longrightarrow> rec_inv (rec_step s e)"
  by (cases e) (auto simp: rec_inv_def rec_defs Let_def)

lemma rec_run_inv: "rec_inv s \<Longrightarrow> rec_inv (rec_run s es)"
  by (induction es arbitrary: s) (simp_all add: rec_run_def rec_step_inv)

lemma rec_run_append: "rec_run s (es @ fs) = rec_run (rec_run s es) fs"
  by (simp add: rec_run_def)

section \<open>Properties\<close>

lemma final_transcript_filter: "final_transcript rs = concat (map alt_transcript (filter isFinal rs))"
  by (induction rs) simp_all

lemma rec_on_result_trimmed:
  "js_trimmed (transcript s) \<Longrightarrow> js_trimmed (transcript (rec_on_result s i rs))"
  by (simp add: rec_on_result_def Let_def js_trimmed_js_trim)

lemma rec_step_trimmed:
  "js_trimmed (transcript s) \<Longrightarrow> (case e of SetText t \<Rightarrow> js_trimmed t | _ \<Rightarrow> True)
   \<Longrightarrow> js_trimmed (transcript (rec_step s e))"
  by (cases e) (simp_all add: startListening_def stopListening_def setTranscript_def
      rec_teardown_def rec_on_error_def rec_on_end_def rec_on_result_trimmed)

lemma rec_run_trimmed:
  "js_trimmed (transcript s) \<Longrightarrow> trims_only es \<Longrightarrow> js_trimmed (transcript (rec_run s es))"
  by (induction es arbitrary: s) (simp_all add: rec_run_def trims_only_def rec_step_trimmed)

text \<open>
  C37: starting capture while it is already active changes nothing: the
  transcript is not reset and the engine is not started twice.
\<close>

theorem rec_start_idempotent: "isListening s \<Longrightarrow> startListening s = s"
  by (simp add: startListening_def)

theorem rec_start_idempotent_witness:
  "isListening (startListening (rec_init True))
   \<and> startListening (startListening (rec_init True)) = startListening (rec_init True)"
proof -
  have l: "isListening (startListening (rec_init True))"
    by (simp add: startListening_def rec_init_def)
  show ?thesis using l rec_start_idempotent [OF l] by simp
qed

text \<open>Stopping capture that is not active changes nothing.\<close>

theorem rec_stop_noop: "\<not> isListening s \<Longrightarrow> stopListening s = s"
  by (simp add: stopListening_def)

theorem rec_stop_noop_witness:
  "\<not> isListening (rec_init True) \<and> stopListening (rec_init True) = rec_init True"
proof -
  have l: "\<not> isListening (rec_init True)" by (simp add: rec_init_def)
  show ?thesis using l rec_stop_noop [OF l] by simp
qed

text \<open>
  A recognition event whose results from \<open>resultIndex\<close> on are all interim
  leaves the hook's state unchanged.
\<close>

theorem rec_interim_ignored:
  "\<forall>r \<in> set (drop i rs). \<not> isFinal r \<Longrightarrow> rec_on_result s i rs = s"
proof -
  assume "\<forall>r \<in> set (drop i rs). \<not> isFinal r"
  then have "filter isFinal (drop i rs) = []" by (simp add: filter_empty_conv)
  then show ?thesis by (simp add: rec_on_result_def final_transcript_filter)
qed

theorem rec_interim_ignored_witness:
  "rec_on_result (rec_init True) 0 [\<lparr>isFinal = False, alt_transcript = ''hel''\<rparr>] = rec_init True"
  by (rule rec_interim_ignored) simp

text \<open>
  Recognised speech accumulates: a finalised result never removes text
  already in a trimmed transcript, and the transcript stays trimmed.
\<close>

theorem rec_result_accumulates:
  "js_trimmed (transcript s) \<Longrightarrow>
   prefix (transcript s) (transcript (rec_on_result s i rs))
   \<and> js_trimmed (transcript (rec_on_result s i rs))"
proof -
  assume t: "js_trimmed (transcript s)"
  have "prefix (transcript s) (transcript (rec_on_result s i rs))"
  proof (cases "transcript s = []")
    case False
    with t show ?thesis by (simp add: rec_on_result_def Let_def js_trim_append_prefix)
  qed (simp)
  with t show ?thesis by (simp add: rec_on_result_trimmed)
qed

theorem rec_result_accumulates_witness:
  "transcript (rec_on_result (rec_init True\<lparr>transcript := ''hello''\<rparr>) 0
      [\<lparr>isFinal = True, alt_transcript = ''world''\<rparr>]) = ''hello world''
   \<and> prefix ''hello'' (transcript (rec_on_result (rec_init True\<lparr>transcript := ''hello''\<rparr>) 0
      [\<lparr>isFinal = True, alt_transcript = ''world''\<rparr>]))"
proof -
  have t: "js_trimmed (transcript (rec_init True\<lparr>transcript := ''hello''\<rparr>))"
    by (simp add: js_trimmed_def is_js_space_def)
  have e: "transcript (rec_on_result (rec_init True\<lparr>transcript := ''hello''\<rparr>) 0
      [\<lparr>isFinal = True, alt_transcript = ''world''\<rparr>]) = ''hello world''"
    by (simp add: rec_on_result_def js_trim_def is_js_space_def)
  show ?thesis using rec_result_accumulates [OF t, of 0 "[\<lparr>isFinal = True, alt_transcript = ''world''\<rparr>]"] e
    by simp
qed

text \<open>
  C36: after any sequence of user actions and engine callbacks from mount, an
  active capture implies a recognition object exists and no error is shown.
\<close>

theorem rec_reachable_inv: "rec_inv (rec_run (rec_init supported) es)"
  by (rule rec_run_inv [OF rec_inv_init])

theorem rec_reachable_inv_witness:
  "rec_inv (rec_run (rec_init True) [Start, Error ''no-speech'', Start])
   \<and> isListening (rec_run (rec_init True) [Start, Error ''no-speech'', Start])"
proof -
  have i: "rec_inv (rec_run (rec_init True) [Start, Error ''no-speech'', Start])"
    by (rule rec_reachable_inv)
  have l: "isListening (rec_run (rec_init True) [Start, Error ''no-speech'', Start])"
    by code_simp
  show ?thesis using i l by simp
qed

end
