(* ===== verification/SpeechSynthesis.thy ===== *)
theory SpeechSynthesis
  imports Prelude
begin

text \<open>
  The hook \<open>useSpeechSynthesis\<close> (\<open>src/hooks/useSpeechSynthesis.ts\<close>) and
  the part of the browser's \<open>window.speechSynthesis\<close> it drives. The hook's
  state is the flag \<open>isSpeaking\<close>; the engine holds a queue of utterances,
  whether the head of the queue has started, and the number of \<open>error\<close>
  callbacks still due for utterances that \<open>cancel()\<close> removed (the Web
  Speech API fires them asynchronously). \<open>speak\<close> is the hook's function;
  the engine's callbacks \<open>onstart\<close>, \<open>onend\<close> and \<open>onerror\<close> are events that
  arrive in any order the engine allows.
\<close>

section \<open>State and operations\<close>

record voice =
  voice_name :: string
  voice_lang :: string

record utterance =
  utt_text :: string
  utt_voice :: "voice option"
  pitch :: int
  rate :: int
  volume :: int

record synthesis_state =
  isSpeaking :: bool
  syn_supported :: bool
  queue :: "utterance list"
  playing :: bool \<comment> \<open>the head of \<open>queue\<close> has fired \<open>onstart\<close>\<close>
  cancelled_cbs :: nat \<comment> \<open>\<open>onerror\<close> callbacks due for cancelled utterances\<close>
  engine_voices :: "voice list" \<comment> \<open>what \<open>getVoices()\<close> returns\<close>

definition syn_init :: "bool \<Rightarrow> voice list \<Rightarrow> synthesis_state" where
  "syn_init isSupported vs = \<lparr>isSpeaking = False, syn_supported = isSupported, queue = [],
     playing = False, cancelled_cbs = 0, engine_voices = vs\<rparr>"

text \<open>The voice preference of \<open>speak\<close>: \<open>find(...) || find(...) || voices[0]\<close>.\<close>

definition google_en :: "voice \<Rightarrow> bool" where
  "google_en v \<longleftrightarrow> js_includes (voice_name v) ''Google'' \<and> prefix ''en'' (voice_lang v)"

definition en_us :: "voice \<Rightarrow> bool" where
  "en_us v \<longleftrightarrow> prefix ''en-US'' (voice_lang v)"

definition select_voice :: "voice list \<Rightarrow> voice option" where
  "select_voice voices =
     (case find google_en voices of
        Some v \<Rightarrow> Some v
      | None \<Rightarrow> (case find en_us voices of
                   Some v \<Rightarrow> Some v
                 | None \<Rightarrow> (case voices of [] \<Rightarrow> None | v # _ \<Rightarrow> Some v)))"

definition make_utterance :: "voice list \<Rightarrow> string \<Rightarrow> utterance" where
  "make_utterance voices text =
     \<lparr>utt_text = text, utt_voice = select_voice voices, pitch = 1, rate = 1, volume = 1\<rparr>"

text \<open>\<open>window.speechSynthesis.cancel()\<close>: every queued utterance is removed and owes an \<open>error\<close> callback.\<close>

definition synth_cancel :: "synthesis_state \<Rightarrow> synthesis_state" where
  "synth_cancel s = s\<lparr>queue := [], playing := False, cancelled_cbs := cancelled_cbs s + length (queue s)\<rparr>"

text \<open>
  \<open>speak\<close> is a \<open>useCallback\<close> closure over \<open>isSpeaking\<close>: the closure a
  render created tests the flag as it was in that render. \<open>speak_as b\<close> is
  the closure created when the flag was \<open>b\<close>; \<open>speak\<close> the current one.
\<close>

definition speak_as :: "bool \<Rightarrow> synthesis_state \<Rightarrow> string \<Rightarrow> synthesis_state" where
  "speak_as speaking s text =
     (if \<not> syn_supported s \<or> speaking then s
      else let s1 = synth_cancel s in s1\<lparr>queue := queue s1 @ [make_utterance (engine_voices s1) text]\<rparr>)"

abbreviation speak :: "synthesis_state \<Rightarrow> string \<Rightarrow> synthesis_state" where
  "speak s text \<equiv> speak_as (isSpeaking s) s text"

text \<open>Engine callbacks, each guarded by what the engine must hold to fire it.\<close>

definition syn_on_start :: "synthesis_state \<Rightarrow> synthesis_state" where
  "syn_on_start s = (if queue s \<noteq> [] \<and> \<not> playing s then s\<lparr>playing := True, isSpeaking := True\<rparr> else s)"

definition syn_on_end :: "synthesis_state \<Rightarrow> synthesis_state" where
  "syn_on_end s =
     (if queue s \<noteq> [] \<and> playing s then s\<lparr>queue := tl (queue s), playing := False, isSpeaking := False\<rparr>
      else s)"

definition syn_on_error :: "synthesis_state \<Rightarrow> synthesis_state" where
  "syn_on_error s =
     (if queue s \<noteq> [] then s\<lparr>queue := tl (queue s), playing := False, isSpeaking := False\<rparr>
      else s)"

definition syn_on_cancelled :: "synthesis_state \<Rightarrow> synthesis_state" where
  "syn_on_cancelled s =
     (if 0 < cancelled_cbs s then s\<lparr>cancelled_cbs := cancelled_cbs s - 1, isSpeaking := False\<rparr> else s)"

datatype syn_event =
    Speak string | Cancel
  | Started | Ended | Failed | CancelledError

fun syn_step :: "synthesis_state \<Rightarrow> syn_event \<Rightarrow> synthesis_state" where
  "syn_step s (Speak t) = speak s t"
| "syn_step s Cancel = (if syn_supported s then synth_cancel s else s)"
| "syn_step s Started = syn_on_start s"
| "syn_step s Ended = syn_on_end s"
| "syn_step s Failed = syn_on_error s"
| "syn_step s CancelledError = syn_on_cancelled s"

definition syn_run :: "synthesis_state \<Rightarrow> syn_event list \<Rightarrow> synthesis_state" where
  "syn_run s es = fold (\<lambda>e s. syn_step s e) es s"

section \<open>Invariant\<close>

text \<open>The engine never holds more than one utterance of this hook, and only a queued one plays.\<close>

definition syn_inv :: "synthesis_state \<Rightarrow> bool" where
  "syn_inv s \<longleftrightarrow> length (queue s) \<le> 1 \<and> (playing s \<longrightarrow> queue s \<noteq> [])"

named_theorems syn_defs "unfolding set of the synthesis hook"
declare speak_as_def [syn_defs] synth_cancel_def [syn_defs] syn_on_start_def [syn_defs]
  syn_on_end_def [syn_defs] syn_on_error_def [syn_defs] syn_on_cancelled_def [syn_defs]

lemma syn_inv_init: "syn_inv (syn_init b vs)"
  by (simp add: syn_inv_def syn_init_def)

lemma syn_inv_cancel: "syn_inv (synth_cancel s)"
  by (simp add: syn_inv_def synth_cancel_def)

lemma syn_inv_speak: "syn_inv s \<Longrightarrow> syn_inv (speak_as b s t)"
  by (simp add: syn_inv_def syn_defs Let_def)

lemma syn_step_inv: "syn_inv s \<Longrightarrow> syn_inv (syn_step s e)"
  by (cases e) (auto simp: syn_inv_def syn_defs Let_def)

lemma syn_run_inv: "syn_inv s \<Longrightarrow> syn_inv (syn_run s es)"
  by (induction es arbitrary: s) (simp_all add: syn_run_def syn_step_inv)

lemma speak_queue:
  "syn_supported s \<Longrightarrow> \<not> b \<Longrightarrow> queue (speak_as b s t) = [make_utterance (engine_voices s) t]"
  by (simp add: speak_as_def synth_cancel_def Let_def)

lemma speak_as_frame [simp]: "syn_supported (speak_as b s t) = syn_supported s"
  "engine_voices (speak_as b s t) = engine_voices s"
  by (simp_all add: speak_as_def synth_cancel_def Let_def)

lemma syn_run_frame:
  "syn_supported (syn_run s es) = syn_supported s \<and> engine_voices (syn_run s es) = engine_voices s"
proof (induction es arbitrary: s)
  case (Cons e es)
  have "syn_supported (syn_step s e) = syn_supported s \<and> engine_voices (syn_step s e) = engine_voices s"
    by (cases e) (simp_all add: syn_defs Let_def)
  with Cons.IH [of "syn_step s e"] show ?case by (simp add: syn_run_def)
qed (simp add: syn_run_def)

section \<open>Voice selection\<close>

lemma select_voice_None_iff: "select_voice vs = None \<longleftrightarrow> vs = []"
  by (auto simp: select_voice_def split: option.splits list.splits)

lemma select_voice_in_set: "select_voice vs = Some v \<Longrightarrow> v \<in> set vs"
  by (auto simp: select_voice_def split: option.splits list.splits dest: find_Some_iff [THEN iffD1])

lemma find_Some_prop: "find P xs = Some x \<Longrightarrow> P x"
  by (auto simp: find_Some_iff)

lemma find_None_prop: "find P xs = None \<Longrightarrow> \<not> (\<exists>x \<in> set xs. P x)"
  by (simp add: find_None_iff)

section \<open>Properties\<close>

text \<open>
  \<open>speak\<close> does nothing when the browser has no synthesis engine or
  when the hook already reports an utterance in progress.
\<close>

theorem speak_noop: "\<not> syn_supported s \<or> isSpeaking s \<Longrightarrow> speak s t = s"
  by (auto simp: speak_as_def)

theorem speak_noop_witness:
  "speak (syn_init False []) ''Hello'' = syn_init False []"
  by (rule speak_noop) (simp add: syn_init_def)

text \<open>
  C38: whatever the order of \<open>speak\<close> calls, external cancels and engine
  callbacks after mount, the engine holds at most one utterance of this
  hook, and only a queued utterance is playing: speech never overlaps.
\<close>

theorem syn_reachable_single: "syn_inv (syn_run (syn_init supported vs) es)"
  by (rule syn_run_inv [OF syn_inv_init])

theorem syn_reachable_single_witness:
  "syn_inv (syn_run (syn_init True []) [Speak ''a'', Started, Speak ''b''])
   \<and> length (queue (syn_run (syn_init True []) [Speak ''a'', Started, Speak ''b''])) = 1"
proof -
  have i: "syn_inv (syn_run (syn_init True []) [Speak ''a'', Started, Speak ''b''])"
    by (rule syn_reachable_single)
  have l: "length (queue (syn_run (syn_init True []) [Speak ''a'', Started, Speak ''b''])) = 1"
    by code_simp
  show ?thesis using i l by simp
qed

text \<open>
  The voice \<open>speak\<close> selects is one of the available voices, and it is a
  Google English voice whenever one is available.
\<close>

theorem select_voice_pref:
  "select_voice vs = Some v \<Longrightarrow> v \<in> set vs \<and> (google_en v \<or> \<not> (\<exists>w \<in> set vs. google_en w))"
proof -
  assume s: "select_voice vs = Some v"
  have "google_en v \<or> \<not> (\<exists>w \<in> set vs. google_en w)"
  proof (cases "find google_en vs")
    case None
    then show ?thesis by (simp add: find_None_iff)
  next
    case (Some u)
    with s have "u = v" by (simp add: select_voice_def)
    with Some show ?thesis by (simp add: find_Some_prop)
  qed
  with s show ?thesis by (simp add: select_voice_in_set)
qed

theorem select_voice_pref_witness:
  "select_voice [\<lparr>voice_name = ''Alex'', voice_lang = ''en-US''\<rparr>,
                 \<lparr>voice_name = ''Google UK English'', voice_lang = ''en-GB''\<rparr>]
     = Some \<lparr>voice_name = ''Google UK English'', voice_lang = ''en-GB''\<rparr>
   \<and> google_en \<lparr>voice_name = ''Google UK English'', voice_lang = ''en-GB''\<rparr>"
proof -
  have s: "select_voice [\<lparr>voice_name = ''Alex'', voice_lang = ''en-US''\<rparr>,
                 \<lparr>voice_name = ''Google UK English'', voice_lang = ''en-GB''\<rparr>]
     = Some \<lparr>voice_name = ''Google UK English'', voice_lang = ''en-GB''\<rparr>"
    by (simp add: select_voice_def google_en_def)
  have g: "google_en \<lparr>voice_name = ''Google UK English'', voice_lang = ''en-GB''\<rparr>"
    by (simp add: google_en_def)
  show ?thesis using select_voice_pref [OF s] s g by simp
qed

text \<open>
  C39: after any sequence of calls and engine callbacks since mount, while
  an utterance of the hook is queued and the hook's \<open>isSpeaking\<close> is
  false (the engine has not fired \<open>onstart\<close> for it yet), a new
  \<open>speak\<close> does not wait: it cancels the queued utterance, which now owes
  an \<open>error\<close> callback, and the engine holds only the new text.
\<close>

theorem speak_before_start_replaces:
  assumes queued: "queue (syn_run (syn_init True vs) es) \<noteq> []"
    and not_started: "\<not> isSpeaking (syn_run (syn_init True vs) es)"
  shows "queue (speak (syn_run (syn_init True vs) es) t) = [make_utterance vs t]
    \<and> cancelled_cbs (speak (syn_run (syn_init True vs) es) t)
        = Suc (cancelled_cbs (syn_run (syn_init True vs) es))"
proof -
  let ?s = "syn_run (syn_init True vs) es"
  have f: "syn_supported ?s" "engine_voices ?s = vs"
    using syn_run_frame [of "syn_init True vs" es] by (simp_all add: syn_init_def)
  have "length (queue ?s) = 1"
    using syn_run_inv [OF syn_inv_init, of True vs es] queued by (auto simp: syn_inv_def le_Suc_eq)
  then show ?thesis using f not_started by (simp add: speak_as_def synth_cancel_def Let_def)
qed

theorem speak_before_start_replaces_witness:
  "queue (speak (syn_run (syn_init True []) [Speak ''first'']) ''second'') = [make_utterance [] ''second'']
   \<and> cancelled_cbs (speak (syn_run (syn_init True []) [Speak ''first'']) ''second'') = 1"
proof -
  have q: "queue (syn_run (syn_init True []) [Speak ''first'']) \<noteq> []" by code_simp
  have n: "\<not> isSpeaking (syn_run (syn_init True []) [Speak ''first''])" by code_simp
  have c: "cancelled_cbs (syn_run (syn_init True []) [Speak ''first'']) = 0" by code_simp
  show ?thesis using speak_before_start_replaces [OF q n, of "''second''"] c by simp
qed

end
