(* ===== verification/Interview.thy ===== *)
theory Interview
  imports Types SpeechRecognition SpeechSynthesis
begin

text \<open>
  The mock-interview flow, \<open>InterviewMode\<close> in
  \<open>src/components/InterviewMode.tsx\<close>. Its React state, the chat handle
  \<open>chatRef\<close>, the two speech hooks it uses and the asynchronous work it has
  started form one record, \<open>session\<close>. Every \<open>await\<close> splits a handler
  in two: the part before it is a function on the session that records a
  pending continuation, and the part after it runs when the environment
  delivers the promise's outcome (an event naming which pending
  continuation settles). A continuation keeps what its closure captured
  when the handler started: the history, the form values, the flags read by
  the \<open>speak\<close> and \<open>stopListening\<close> closures of that render. The effects on
  \<open>speechError\<close> and \<open>isListening\<close> run after each event, in source order.
\<close>

section \<open>Data\<close>

datatype interview_type = Technical | Behavioral | Mixed

datatype interview_duration = D5 | D15 | D30

datatype interview_state = Setup | Running | GeneratingReport | Finished

fun type_str :: "interview_type \<Rightarrow> string" where
  "type_str Technical = ''Technical''"
| "type_str Behavioral = ''Behavioral''"
| "type_str Mixed = ''Mixed''"

fun duration_str :: "interview_duration \<Rightarrow> string" where
  "duration_str D5 = ''5''"
| "duration_str D15 = ''15''"
| "duration_str D30 = ''30''"

text \<open>The remote multi-turn conversation: its system instruction and the messages sent on it.\<close>

record chat =
  system_instruction :: string
  sent :: "string list"

text \<open>The \<open>context\<close> object \<open>generateAndSetReport\<close> passes to the gateway.\<close>

record report_context =
  ctx_type :: interview_type
  ctx_duration :: interview_duration
  ctx_role :: string
  ctx_resume :: string
  ctx_jd :: string

text \<open>What the \<open>generateAndSetReport\<close> closure of one render captured.\<close>

record report_closure =
  rc_history :: "interview_turn list"
  rc_context :: report_context
  rc_listening :: bool

datatype pending =
    AwaitStart bool \<comment> \<open>\<open>chat.sendMessage\<close> in \<open>handleStartInterview\<close>; the \<open>isSpeaking\<close> its \<open>speak\<close> saw\<close>
  | AwaitReply "interview_turn list" bool report_closure
      \<comment> \<open>\<open>handleSendResponse\<close>: \<open>newHistory\<close>, \<open>isSpeaking\<close>, the report closure\<close>
  | AwaitTimer report_closure \<comment> \<open>the 2000 ms \<open>setTimeout\<close> before the report\<close>
  | AwaitReport "interview_turn list" report_context \<comment> \<open>\<open>generateInterviewReport\<close>\<close>
  | AwaitFile \<comment> \<open>\<open>readFileAsText\<close> in \<open>onDrop\<close>\<close>

record session =
  roleContext :: string
  resumeText :: string
  jobDescription :: string
  interviewType :: interview_type
  interviewDuration :: interview_duration
  interviewState :: interview_state
  isLoading :: bool
  error :: "string option"
  history :: "interview_turn list"
  report :: "interview_report option"
  chatRef :: "chat option"
  rec :: recognition_state
  syn :: synthesis_state
  pending :: "pending list"

definition speech_error_msg :: "string \<Rightarrow> string" where
  "speech_error_msg e = ''Speech recognition error: '' @ e"

text \<open>
  The state after mount: the recognition hook's effect reports a missing
  engine, and the \<open>speechError\<close> effect copies that into \<open>error\<close>.
\<close>

definition session_init :: "bool \<Rightarrow> bool \<Rightarrow> voice list \<Rightarrow> session" where
  "session_init recSupported synSupported voices =
     \<lparr>roleContext = [], resumeText = [], jobDescription = [], interviewType = Mixed,
      interviewDuration = D15, interviewState = Setup, isLoading = False,
      error = (if recSupported then None else Some (speech_error_msg unsupported_msg)),
      history = [], report = None, chatRef = None, rec = rec_init recSupported,
      syn = syn_init synSupported voices, pending = []\<rparr>"

section \<open>The system instruction\<close>

text \<open>A line break of the template literal followed by its 16 columns of indentation.\<close>

definition brk :: string where
  "brk = nl @ replicate 16 (CHR '' '')"

definition resume_part :: "string \<Rightarrow> string" where
  "resume_part resume =
     (if js_truthy resume
      then ''The candidate'' @ apos @ ''s resume is as follows:'' @ nl @ ''---'' @ nl @ resume @ nl @ ''---''
           @ nl @ ''Tailor your questions based on the experience and skills listed in this resume.''
      else [])"

definition jd_part :: "string \<Rightarrow> string" where
  "jd_part jd =
     (if js_truthy jd
      then ''You are hiring for the role described in the job description below:'' @ nl @ ''---'' @ nl
           @ jd @ nl @ ''---'' @ nl @ ''Assess the candidate'' @ apos @ ''s fitness for this specific role.''
      else [])"

definition general_part :: "string \<Rightarrow> string \<Rightarrow> string \<Rightarrow> string" where
  "general_part role resume jd =
     (if \<not> js_truthy resume \<and> \<not> js_truthy jd \<and> js_truthy role
      then ''You are conducting a general interview about '' @ [CHR 0x22] @ role @ [CHR 0x22] @ ''.''
      else [])"

definition context_part :: "string \<Rightarrow> string \<Rightarrow> string \<Rightarrow> string" where
  "context_part role resume jd =
     (if (js_truthy resume \<or> js_truthy jd) \<and> js_truthy role
      then ''The context for this interview is the '' @ [CHR 0x22] @ role @ [CHR 0x22] @ '' role.''
      else [])"

definition closing_rules :: "interview_duration \<Rightarrow> string" where
  "closing_rules d =
     ''Start with a simple, brief introduction like '' @ [CHR 0x22] @ ''Hello, thanks for coming in today,''
     @ [CHR 0x22] @ '' and then immediately ask the first question. Do not introduce yourself with a name.''
     @ '' Keep your questions and responses concise. Wait for the user to respond before asking the next''
     @ '' question. When you feel the interview has reached its natural conclusion or is near the end of the ''
     @ duration_str d @ '' minute duration, conclude the session by saying '' @ [CHR 0x22]
     @ ''Thank you, this concludes our interview.'' @ [CHR 0x22]
     @ '' Do not ask if the candidate has questions for you. Do not reveal that you are an AI.''"

definition make_system_instruction ::
  "interview_type \<Rightarrow> interview_duration \<Rightarrow> string \<Rightarrow> string \<Rightarrow> string \<Rightarrow> string" where
  "make_system_instruction t d role resume jd =
     ''You are a friendly but professional interviewer. Your goal is to conduct a '' @ type_str t
     @ '' interview that lasts approximately '' @ duration_str d @ '' minutes.''
     @ brk @ resume_part resume @ brk @ jd_part jd @ brk @ general_part role resume jd
     @ brk @ context_part role resume jd @ brk @ closing_rules d"

definition opening_message :: string where
  "opening_message = ''Hello, let'' @ apos @ ''s begin.''"

definition closing_phrase :: string where
  "closing_phrase = ''concludes our interview''"

section \<open>Messages\<close>

definition msg_missing_context :: string where
  "msg_missing_context = ''Please provide a role/topic or upload a resume to start.''"

definition msg_start_failed :: string where
  "msg_start_failed = ''Failed to start interview. Please try again.''"

definition msg_report_failed :: string where
  "msg_report_failed = ''Failed to generate the interview report.''"

definition msg_send_failed :: string where
  "msg_send_failed = ''There was an error with the interview. Please try again.''"

definition msg_file_failed :: string where
  "msg_file_failed = ''Error reading file. Please try again.''"

section \<open>Handlers\<close>

definition current_context :: "session \<Rightarrow> report_context" where
  "current_context s = \<lparr>ctx_type = interviewType s, ctx_duration = interviewDuration s,
     ctx_role = roleContext s, ctx_resume = resumeText s, ctx_jd = jobDescription s\<rparr>"

text \<open>The \<open>generateAndSetReport\<close> closure of the current render.\<close>

definition current_closure :: "session \<Rightarrow> report_closure" where
  "current_closure s = \<lparr>rc_history = history s, rc_context = current_context s,
     rc_listening = isListening (rec s)\<rparr>"

definition handleStartInterview :: "session \<Rightarrow> session" where
  "handleStartInterview s =
     (if \<not> js_truthy (roleContext s) \<and> \<not> js_truthy (resumeText s)
      then s\<lparr>error := Some msg_missing_context\<rparr>
      else s\<lparr>isLoading := True, error := None, history := [],
             chatRef := Some \<lparr>system_instruction = make_system_instruction (interviewType s)
                                 (interviewDuration s) (roleContext s) (resumeText s) (jobDescription s),
                               sent = [opening_message]\<rparr>,
             pending := pending s @ [AwaitStart (isSpeaking (syn s))]\<rparr>)"

definition start_settled :: "session \<Rightarrow> bool \<Rightarrow> failure + string \<Rightarrow> session" where
  "start_settled s speaking r =
     (case r of
        Inr initialMessage \<Rightarrow>
          s\<lparr>history := [interviewer_turn initialMessage],
            syn := speak_as speaking (syn s) initialMessage,
            interviewState := Running, isLoading := False\<rparr>
      | Inl _ \<Rightarrow> s\<lparr>error := Some msg_start_failed, isLoading := False\<rparr>)"

text \<open>
  \<open>generateAndSetReport\<close> as the closure \<open>c\<close> captured it: its
  \<open>stopListening\<close> tests the captured \<open>isListening\<close>;
  \<open>window.speechSynthesis.cancel()\<close> goes to the engine directly. In a
  browser without \<open>speechSynthesis\<close> that call throws a \<open>TypeError\<close>
  outside the \<open>try\<close>: the function's promise rejects (no caller handles
  it) after the first two statements, and the rest of the body is skipped.
\<close>

definition generateAndSetReport :: "report_closure \<Rightarrow> session \<Rightarrow> session" where
  "generateAndSetReport c s =
     (let s1 = s\<lparr>isLoading := False,
                 rec := (if recognition (rec s) \<and> rc_listening c then (rec s)\<lparr>isListening := False\<rparr>
                         else rec s)\<rparr>
      in if \<not> syn_supported (syn s1) then s1
         else s1\<lparr>syn := synth_cancel (syn s1), interviewState := GeneratingReport, error := None,
                  pending := pending s1 @ [AwaitReport (rc_history c) (rc_context c)]\<rparr>)"

definition report_settled :: "session \<Rightarrow> failure + interview_report \<Rightarrow> session" where
  "report_settled s r =
     (case r of
        Inr generatedReport \<Rightarrow> s\<lparr>report := Some generatedReport, interviewState := Finished\<rparr>
      | Inl _ \<Rightarrow> s\<lparr>error := Some msg_report_failed, interviewState := Setup\<rparr>)"

definition handleSendResponse :: "session \<Rightarrow> string \<Rightarrow> session" where
  "handleSendResponse s userMessage =
     (case chatRef s of
        None \<Rightarrow> s
      | Some c \<Rightarrow>
          if \<not> js_truthy userMessage then s
          else let newHistory = history s @ [candidate_turn userMessage] in
            s\<lparr>isLoading := True, history := newHistory, rec := setTranscript (rec s) [],
              chatRef := Some (c\<lparr>sent := sent c @ [userMessage]\<rparr>),
              pending := pending s @ [AwaitReply newHistory (isSpeaking (syn s)) (current_closure s)]\<rparr>)"

definition concludes :: "string \<Rightarrow> bool" where
  "concludes reply \<longleftrightarrow> js_includes (to_lower reply) closing_phrase"

definition reply_settled ::
  "session \<Rightarrow> interview_turn list \<Rightarrow> bool \<Rightarrow> report_closure \<Rightarrow> failure + string \<Rightarrow> session" where
  "reply_settled s newHistory speaking c r =
     (case r of
        Inr interviewerResponse \<Rightarrow>
          let s1 = s\<lparr>history := newHistory @ [interviewer_turn interviewerResponse]\<rparr> in
          (if concludes interviewerResponse
           then s1\<lparr>pending := pending s1 @ [AwaitTimer c], isLoading := False\<rparr>
           else s1\<lparr>syn := speak_as speaking (syn s1) interviewerResponse, isLoading := False\<rparr>)
      | Inl _ \<Rightarrow> s\<lparr>error := Some msg_send_failed, isLoading := False\<rparr>)"

definition handleStopInterview :: "session \<Rightarrow> session" where
  "handleStopInterview s = generateAndSetReport (current_closure s) s"

definition handleNewInterview :: "session \<Rightarrow> session" where
  "handleNewInterview s =
     s\<lparr>interviewState := Setup, roleContext := [], resumeText := [], jobDescription := [],
       history := [], report := None, chatRef := None\<rparr>"

definition onDrop :: "session \<Rightarrow> session" where
  "onDrop s = s\<lparr>pending := pending s @ [AwaitFile]\<rparr>"

definition file_settled :: "session \<Rightarrow> failure + string \<Rightarrow> session" where
  "file_settled s r =
     (case r of
        Inr text \<Rightarrow> s\<lparr>resumeText := text, error := None\<rparr>
      | Inl _ \<Rightarrow> s\<lparr>error := Some msg_file_failed\<rparr>)"

definition toggleMic :: "session \<Rightarrow> session" where
  "toggleMic s = s\<lparr>rec := (if isListening (rec s) then stopListening (rec s) else startListening (rec s))\<rparr>"

section \<open>Events and the step function\<close>

text \<open>
  Events are the controls the rendered view offers in its current state,
  the settling of a pending promise or timer (by its position in
  \<open>pending\<close>), and the callbacks of the two speech engines. A control the
  view does not render, or a disabled one, leaves the session unchanged.
\<close>

datatype interview_event =
    SetRole string | SetJD string | SetType interview_type | SetDuration interview_duration
  | DropFile | ClickStart | ClickEnd | ClickNew | ClickMic
  | ChatSettles nat "failure + string" | ReportSettles nat "failure + interview_report"
  | TimerFires nat | FileSettles nat "failure + string"
  | RecResult nat "speech_result list" | RecError string | RecEnd
  | SynStarted | SynEnded | SynFailed | SynCancelledError

definition settle :: "session \<Rightarrow> nat \<Rightarrow> session" where
  "settle s i = s\<lparr>pending := remove_nth i (pending s)\<rparr>"

definition chat_settles :: "session \<Rightarrow> nat \<Rightarrow> failure + string \<Rightarrow> session" where
  "chat_settles s i r =
     (if i < length (pending s) then
        (case pending s ! i of
           AwaitStart speaking \<Rightarrow> start_settled (settle s i) speaking r
         | AwaitReply newHistory speaking c \<Rightarrow> reply_settled (settle s i) newHistory speaking c r
         | _ \<Rightarrow> s)
      else s)"

definition report_settles :: "session \<Rightarrow> nat \<Rightarrow> failure + interview_report \<Rightarrow> session" where
  "report_settles s i r =
     (if i < length (pending s) then
        (case pending s ! i of AwaitReport _ _ \<Rightarrow> report_settled (settle s i) r | _ \<Rightarrow> s)
      else s)"

definition timer_fires :: "session \<Rightarrow> nat \<Rightarrow> session" where
  "timer_fires s i =
     (if i < length (pending s) then
        (case pending s ! i of AwaitTimer c \<Rightarrow> generateAndSetReport c (settle s i) | _ \<Rightarrow> s)
      else s)"

definition file_settles :: "session \<Rightarrow> nat \<Rightarrow> failure + string \<Rightarrow> session" where
  "file_settles s i r =
     (if i < length (pending s) then
        (case pending s ! i of AwaitFile \<Rightarrow> file_settled (settle s i) r | _ \<Rightarrow> s)
      else s)"

definition in_setup :: "session \<Rightarrow> (session \<Rightarrow> session) \<Rightarrow> session" where
  "in_setup s f = (if interviewState s = Setup then f s else s)"

fun handle :: "session \<Rightarrow> interview_event \<Rightarrow> session" where
  "handle s (SetRole v) = in_setup s (\<lambda>s. s\<lparr>roleContext := v\<rparr>)"
| "handle s (SetJD v) = in_setup s (\<lambda>s. s\<lparr>jobDescription := v\<rparr>)"
| "handle s (SetType v) = in_setup s (\<lambda>s. s\<lparr>interviewType := v\<rparr>)"
| "handle s (SetDuration v) = in_setup s (\<lambda>s. s\<lparr>interviewDuration := v\<rparr>)"
| "handle s DropFile = in_setup s onDrop"
| "handle s ClickStart = (if interviewState s = Setup \<and> \<not> isLoading s then handleStartInterview s else s)"
| "handle s ClickEnd = (if interviewState s = Running then handleStopInterview s else s)"
| "handle s ClickNew = (if interviewState s = Finished \<and> report s \<noteq> None then handleNewInterview s else s)"
| "handle s ClickMic = (if interviewState s = Running then toggleMic s else s)"
| "handle s (ChatSettles i r) = chat_settles s i r"
| "handle s (ReportSettles i r) = report_settles s i r"
| "handle s (TimerFires i) = timer_fires s i"
| "handle s (FileSettles i r) = file_settles s i r"
| "handle s (RecResult i rs) = s\<lparr>rec := rec_step (rec s) (Result i rs)\<rparr>"
| "handle s (RecError e) = s\<lparr>rec := rec_step (rec s) (Error e)\<rparr>"
| "handle s RecEnd = s\<lparr>rec := rec_step (rec s) End\<rparr>"
| "handle s SynStarted = s\<lparr>syn := syn_on_start (syn s)\<rparr>"
| "handle s SynEnded = s\<lparr>syn := syn_on_end (syn s)\<rparr>"
| "handle s SynFailed = s\<lparr>syn := syn_on_error (syn s)\<rparr>"
| "handle s SynCancelledError = s\<lparr>syn := syn_on_cancelled (syn s)\<rparr>"

text \<open>
  The effects that run after the render an event causes, in source order:
  \<open>speechError\<close> (line 66) copies a new recognition error into \<open>error\<close>;
  \<open>isListening\<close> (line 166) sends the transcript when capture has just
  stopped and the transcript is not empty.
\<close>

definition speech_error_effect :: "session \<Rightarrow> session \<Rightarrow> session" where
  "speech_error_effect s0 s =
     (case rec_error (rec s) of
        Some e \<Rightarrow> if rec_error (rec s) \<noteq> rec_error (rec s0) \<and> js_truthy e
                  then s\<lparr>error := Some (speech_error_msg e)\<rparr> else s
      | None \<Rightarrow> s)"

definition listening_effect :: "session \<Rightarrow> session \<Rightarrow> session" where
  "listening_effect s0 s =
     (if isListening (rec s0) \<and> \<not> isListening (rec s) \<and> js_truthy (transcript (rec s))
      then handleSendResponse s (transcript (rec s)) else s)"

definition interview_step :: "session \<Rightarrow> interview_event \<Rightarrow> session" where
  "interview_step s e = (let s1 = handle s e in listening_effect s (speech_error_effect s s1))"

definition interview_run :: "session \<Rightarrow> interview_event list \<Rightarrow> session" where
  "interview_run s es = fold (\<lambda>e s. interview_step s e) es s"

inductive reachable :: "session \<Rightarrow> bool" where
  init: "reachable (session_init recSupported synSupported voices)"
| step: "reachable s \<Longrightarrow> reachable (interview_step s e)"

end
