(* ===== verification/InterviewProperties.thy ===== *)
theory InterviewProperties
  imports Interview
begin

text \<open>
  Properties of the mock-interview flow: the transcript invariant over every
  interleaving of user actions, promise settlements and engine callbacks;
  the behaviour of each handler on each of its branches; and the handler
  sequences, from any state in which they are enabled, that show where the
  code departs from what its specification promises.
\<close>

section \<open>Alternation\<close>

fun other :: "speaker \<Rightarrow> speaker" where
  "other Interviewer = Candidate"
| "other Candidate = Interviewer"

fun alternates_from :: "speaker \<Rightarrow> interview_turn list \<Rightarrow> bool" where
  "alternates_from sp [] \<longleftrightarrow> True"
| "alternates_from sp (t # ts) \<longleftrightarrow> turn_speaker t = sp \<and> alternates_from (other sp) ts"

abbreviation alternating :: "interview_turn list \<Rightarrow> bool" where
  "alternating h \<equiv> alternates_from Interviewer h"

section \<open>Sample inputs\<close>

definition closing_reply :: string where
  "closing_reply = ''Thank you, this Concludes our interview.''"

text \<open>Answer by voice: open the microphone, receive one final result, close it.\<close>

definition answer_by_voice :: "string \<Rightarrow> interview_event list" where
  "answer_by_voice a = [ClickMic, RecResult 0 [\<lparr>isFinal = True, alt_transcript = a\<rparr>], ClickMic]"

definition start_arrays :: "interview_event list" where
  "start_arrays = [SetRole ''Arrays'', SetType Technical, SetDuration D5, ClickStart,
     ChatSettles 0 (Inr ''Hello. First question?'')]"

definition sample_report :: interview_report where
  "sample_report = \<lparr>overallScore = 70, report_summary = [], competencies = [], report_strengths = [],
     areasForImprovement = [], recommendation = []\<rparr>"

section \<open>The transcript invariant\<close>

fun no_repeat_interviewer :: "interview_turn list \<Rightarrow> bool" where
  "no_repeat_interviewer (a # b # r) \<longleftrightarrow>
     \<not> (turn_speaker a = Interviewer \<and> turn_speaker b = Interviewer) \<and> no_repeat_interviewer (b # r)"
| "no_repeat_interviewer _ \<longleftrightarrow> True"

definition pending_ok :: "pending \<Rightarrow> bool" where
  "pending_ok p =
     (case p of
        AwaitReply newHistory _ _ \<Rightarrow>
          newHistory \<noteq> [] \<and> turn_speaker (last newHistory) = Candidate \<and> no_repeat_interviewer newHistory
      | _ \<Rightarrow> True)"

definition interview_inv :: "session \<Rightarrow> bool" where
  "interview_inv s \<longleftrightarrow> no_repeat_interviewer (history s) \<and> (\<forall>p \<in> set (pending s). pending_ok p)"

lemma no_repeat_interviewer_snoc:
  "no_repeat_interviewer (xs @ [y]) \<longleftrightarrow>
     no_repeat_interviewer xs \<and> (xs \<noteq> [] \<longrightarrow> \<not> (turn_speaker (last xs) = Interviewer \<and> turn_speaker y = Interviewer))"
  by (induction xs rule: no_repeat_interviewer.induct) auto

lemma pending_ok_simps [simp]:
  "pending_ok (AwaitStart b)" "pending_ok (AwaitTimer c)" "pending_ok (AwaitReport h x)"
  "pending_ok AwaitFile"
  "pending_ok (AwaitReply nh b c) \<longleftrightarrow>
     nh \<noteq> [] \<and> turn_speaker (last nh) = Candidate \<and> no_repeat_interviewer nh"
  by (simp_all add: pending_ok_def)


lemma inv_frame_update:
  "history s' = history s \<Longrightarrow> set (pending s') \<subseteq> set (pending s) \<union> Collect pending_ok
   \<Longrightarrow> interview_inv s \<Longrightarrow> interview_inv s'"
  by (auto simp: interview_inv_def)

lemma inv_settle: "interview_inv s \<Longrightarrow> interview_inv (settle s i)"
  by (rule inv_frame_update) (auto simp: settle_def dest: set_remove_nth [THEN subsetD])

lemma inv_start: "interview_inv s \<Longrightarrow> interview_inv (handleStartInterview s)"
  by (auto simp: interview_inv_def handleStartInterview_def)

lemma inv_start_settled: "interview_inv s \<Longrightarrow> interview_inv (start_settled s b r)"
  by (auto simp: interview_inv_def start_settled_def split: sum.splits)

lemma inv_report: "interview_inv s \<Longrightarrow> interview_inv (generateAndSetReport c s)"
  by (auto simp: interview_inv_def generateAndSetReport_def Let_def)

lemma inv_report_settled: "interview_inv s \<Longrightarrow> interview_inv (report_settled s r)"
  by (auto simp: interview_inv_def report_settled_def split: sum.splits)

lemma inv_send: "interview_inv s \<Longrightarrow> interview_inv (handleSendResponse s m)"
  by (auto simp: interview_inv_def handleSendResponse_def Let_def no_repeat_interviewer_snoc
      split: option.splits)

lemma inv_reply_settled:
  "interview_inv s \<Longrightarrow> pending_ok (AwaitReply nh b c) \<Longrightarrow> interview_inv (reply_settled s nh b c r)"
  by (auto simp: interview_inv_def reply_settled_def Let_def no_repeat_interviewer_snoc
      split: sum.splits)

lemma inv_chat_settles: "interview_inv s \<Longrightarrow> interview_inv (chat_settles s i r)"
proof -
  assume inv: "interview_inv s"
  show ?thesis
  proof (cases "i < length (pending s)")
    case True
    then have ok: "pending_ok (pending s ! i)"
      using inv by (auto simp: interview_inv_def)
    from inv have inv': "interview_inv (settle s i)" by (rule inv_settle)
    show ?thesis
      using True ok inv inv' by (auto simp: chat_settles_def inv_start_settled inv_reply_settled
          split: pending.splits)
  qed (simp add: chat_settles_def inv)
qed

lemma inv_report_settles: "interview_inv s \<Longrightarrow> interview_inv (report_settles s i r)"
  by (auto simp: report_settles_def inv_settle inv_report_settled split: pending.splits)

lemma inv_timer_fires: "interview_inv s \<Longrightarrow> interview_inv (timer_fires s i)"
  by (auto simp: timer_fires_def inv_settle inv_report split: pending.splits)

lemma inv_file_settled: "interview_inv s \<Longrightarrow> interview_inv (file_settled s r)"
  by (auto simp: interview_inv_def file_settled_def split: sum.splits)

lemma inv_file_settles: "interview_inv s \<Longrightarrow> interview_inv (file_settles s i r)"
  by (auto simp: file_settles_def inv_settle inv_file_settled split: pending.splits)

lemma inv_handle: "interview_inv s \<Longrightarrow> interview_inv (handle s e)"
  by (cases e) (auto simp: in_setup_def onDrop_def toggleMic_def handleStopInterview_def
      handleNewInterview_def inv_start inv_report inv_chat_settles inv_report_settles
      inv_timer_fires inv_file_settles, auto simp: interview_inv_def)

lemma inv_speech_error_effect: "interview_inv s \<Longrightarrow> interview_inv (speech_error_effect s0 s)"
  by (auto simp: speech_error_effect_def interview_inv_def split: option.splits)

lemma inv_listening_effect: "interview_inv s \<Longrightarrow> interview_inv (listening_effect s0 s)"
  by (simp add: listening_effect_def inv_send)

lemmas inv_effects = inv_listening_effect [OF inv_speech_error_effect]

lemma inv_step: "interview_inv s \<Longrightarrow> interview_inv (interview_step s e)"
  by (simp add: interview_step_def Let_def inv_effects inv_handle)

lemma inv_init: "interview_inv (session_init a b vs)"
  by (simp add: interview_inv_def session_init_def)

lemma reachable_inv: "reachable s \<Longrightarrow> interview_inv s"
  by (induction rule: reachable.induct) (simp_all add: inv_init inv_step)

lemma reachable_run: "reachable s \<Longrightarrow> reachable (interview_run s es)"
proof (induction es arbitrary: s)
  case (Cons e es)
  from Cons.prems have "reachable (interview_step s e)" by (rule reachable.step)
  then have "reachable (interview_run (interview_step s e) es)" by (rule Cons.IH)
  then show ?case by (simp add: interview_run_def)
qed (simp add: interview_run_def)

lemma reachable_init_run: "reachable (interview_run (session_init a b vs) es)"
  by (rule reachable_run [OF reachable.init])

lemma alternates_from_snoc:
  "alternates_from sp (xs @ [y]) \<longleftrightarrow>
     alternates_from sp xs \<and> turn_speaker y = (if even (length xs) then sp else other sp)"
proof (induction xs arbitrary: sp)
  case (Cons x xs)
  have o: "other (other sp) = sp" by (cases sp) simp_all
  from Cons show ?case by (simp add: o)
qed simp

section \<open>Claims\<close>

text \<open>
  C1: in every state the flow can reach, under any interleaving of user
  actions, settling promises, timers and speech-engine callbacks, the
  transcript never holds two interviewer turns in a row.
\<close>

theorem transcript_no_double_interviewer:
  "reachable s \<Longrightarrow> no_repeat_interviewer (history s)"
  using reachable_inv by (simp add: interview_inv_def)

theorem transcript_no_double_interviewer_witness:
  "reachable (interview_run (session_init True True []) (start_arrays @ answer_by_voice ''a1''))
   \<and> no_repeat_interviewer (history (interview_run (session_init True True []) (start_arrays @ answer_by_voice ''a1'')))"
proof -
  have r: "reachable (interview_run (session_init True True []) (start_arrays @ answer_by_voice ''a1''))"
    by (rule reachable_init_run)
  show ?thesis using r transcript_no_double_interviewer [OF r] by simp
qed

text \<open>
  C5: starting an interview with neither a role nor a resume only reports
  the validation error: no conversation is opened and nothing is sent.
\<close>

theorem start_requires_context:
  "\<not> js_truthy (roleContext s) \<and> \<not> js_truthy (resumeText s) \<Longrightarrow>
   handleStartInterview s = s\<lparr>error := Some msg_missing_context\<rparr>"
  by (simp add: handleStartInterview_def)

theorem start_requires_context_witness:
  "handleStartInterview (session_init True True []) = (session_init True True [])\<lparr>error := Some msg_missing_context\<rparr>"
  by (rule start_requires_context) (simp add: session_init_def)

text \<open>
  C6: a valid start clears the transcript and the error, opens exactly one
  conversation seeded with the system instruction built from the form,
  sends it the fixed opening line, and awaits one reply.
\<close>

theorem start_opens_conversation:
  "js_truthy (roleContext s) \<or> js_truthy (resumeText s) \<Longrightarrow>
   chatRef (handleStartInterview s) =
     Some \<lparr>system_instruction = make_system_instruction (interviewType s) (interviewDuration s)
              (roleContext s) (resumeText s) (jobDescription s), sent = [opening_message]\<rparr>
   \<and> history (handleStartInterview s) = [] \<and> error (handleStartInterview s) = None
   \<and> isLoading (handleStartInterview s)
   \<and> pending (handleStartInterview s) = pending s @ [AwaitStart (isSpeaking (syn s))]"
  by (auto simp: handleStartInterview_def)

theorem start_opens_conversation_witness:
  "chatRef (handleStartInterview ((session_init True True [])\<lparr>roleContext := ''Arrays''\<rparr>)) =
     Some \<lparr>system_instruction = make_system_instruction Mixed D15 ''Arrays'' [] [], sent = [opening_message]\<rparr>"
proof -
  have h: "js_truthy (roleContext ((session_init True True [])\<lparr>roleContext := ''Arrays''\<rparr>))
     \<or> js_truthy (resumeText ((session_init True True [])\<lparr>roleContext := ''Arrays''\<rparr>))"
    by simp
  show ?thesis using start_opens_conversation [OF h] by (simp add: session_init_def)
qed

text \<open>
  The system instruction always names the interview type and asks for an
  interview of the selected duration in minutes.
\<close>

theorem instruction_type_duration:
  "js_includes (make_system_instruction t d role resume jd)
     (''conduct a '' @ type_str t @ '' interview that lasts approximately '' @ duration_str d @ '' minutes.'')"
proof -
  have "make_system_instruction t d role resume jd =
     ''You are a friendly but professional interviewer. Your goal is to ''
     @ (''conduct a '' @ type_str t @ '' interview that lasts approximately '' @ duration_str d @ '' minutes.'')
     @ (brk @ resume_part resume @ brk @ jd_part jd @ brk @ general_part role resume jd
        @ brk @ context_part role resume jd @ brk @ closing_rules d)"
    by (simp add: make_system_instruction_def)
  then show ?thesis by (simp only: js_includes_append_mid)
qed

text \<open>
  A non-empty role is quoted as the subject of a general interview when
  neither a resume nor a job description is given, and otherwise as the
  context of the interview.
\<close>

theorem instruction_role_placement:
  "js_truthy role \<Longrightarrow>
   (if js_truthy resume \<or> js_truthy jd
    then js_includes (make_system_instruction t d role resume jd)
           (''The context for this interview is the '' @ [CHR 0x22] @ role @ [CHR 0x22] @ '' role.'')
    else js_includes (make_system_instruction t d role resume jd)
           (''You are conducting a general interview about '' @ [CHR 0x22] @ role @ [CHR 0x22] @ ''.''))"
proof -
  assume r: "js_truthy role"
  let ?pre = "''You are a friendly but professional interviewer. Your goal is to conduct a '' @ type_str t
     @ '' interview that lasts approximately '' @ duration_str d @ '' minutes.''
     @ brk @ resume_part resume @ brk @ jd_part jd @ brk"
  have eq: "make_system_instruction t d role resume jd =
     ?pre @ general_part role resume jd @ (brk @ context_part role resume jd @ brk @ closing_rules d)"
    by (simp add: make_system_instruction_def)
  have eq': "make_system_instruction t d role resume jd =
     (?pre @ general_part role resume jd @ brk) @ context_part role resume jd @ (brk @ closing_rules d)"
    by (simp add: make_system_instruction_def)
  show ?thesis
  proof (cases "js_truthy resume \<or> js_truthy jd")
    case True
    have i: "js_includes (make_system_instruction t d role resume jd) (context_part role resume jd)"
      by (simp only: eq' js_includes_append_mid)
    have c: "context_part role resume jd =
       ''The context for this interview is the '' @ [CHR 0x22] @ role @ [CHR 0x22] @ '' role.''"
      using True r by (simp only: context_part_def if_True simp_thms)
    show ?thesis unfolding if_P [OF True] c [symmetric] by (rule i)
  next
    case False
    have i: "js_includes (make_system_instruction t d role resume jd) (general_part role resume jd)"
      by (simp only: eq js_includes_append_mid)
    have g: "general_part role resume jd =
       ''You are conducting a general interview about '' @ [CHR 0x22] @ role @ [CHR 0x22] @ ''.''"
      using False r by (simp only: general_part_def de_Morgan_disj if_True simp_thms)
    show ?thesis unfolding if_not_P [OF False] g [symmetric] by (rule i)
  qed
qed

theorem instruction_role_placement_witness:
  "js_includes (make_system_instruction Technical D5 ''Arrays'' [] [])
     (''You are conducting a general interview about '' @ [CHR 0x22] @ ''Arrays'' @ [CHR 0x22] @ ''.'')"
  using instruction_role_placement [of "''Arrays''" "[]" "[]" Technical D5] by simp

text \<open>
  C7: a reply that contains the closing phrase, in any letter case, is
  appended to the transcript and schedules the report; the closing line is
  not handed to speech output at all.
\<close>

theorem closing_reply_not_spoken:
  "concludes t \<Longrightarrow>
   history (reply_settled s nh b c (Inr t)) = nh @ [interviewer_turn t]
   \<and> syn (reply_settled s nh b c (Inr t)) = syn s
   \<and> pending (reply_settled s nh b c (Inr t)) = pending s @ [AwaitTimer c]"
  by (simp add: reply_settled_def Let_def)

theorem closing_reply_not_spoken_witness:
  "concludes closing_reply
   \<and> syn (reply_settled (session_init True True []) [] False
        (current_closure (session_init True True [])) (Inr closing_reply)) = syn (session_init True True [])"
proof -
  have c: "concludes closing_reply" by code_simp
  show ?thesis using c closing_reply_not_spoken [OF c] by simp
qed

text \<open>
  Any other reply is appended to the transcript and spoken: when speech
  output is available and the \<open>speak\<close> closure saw no utterance in progress,
  the engine's queue holds exactly that reply, and no report is scheduled.
\<close>

theorem reply_spoken:
  "\<not> concludes t \<Longrightarrow> syn_supported (syn s) \<Longrightarrow> \<not> b \<Longrightarrow>
   history (reply_settled s nh b c (Inr t)) = nh @ [interviewer_turn t]
   \<and> queue (syn (reply_settled s nh b c (Inr t))) = [make_utterance (engine_voices (syn s)) t]
   \<and> pending (reply_settled s nh b c (Inr t)) = pending s"
  by (simp add: reply_settled_def Let_def speak_queue)

theorem reply_spoken_witness:
  "queue (syn (reply_settled (session_init True True []) [] False
      (current_closure (session_init True True [])) (Inr ''Next question?'')))
   = [make_utterance [] ''Next question?'']"
proof -
  have c: "\<not> concludes ''Next question?''" by code_simp
  have u: "syn_supported (syn (session_init True True []))" by (simp add: session_init_def syn_init_def)
  show ?thesis using reply_spoken [OF c u, of False] by (simp add: session_init_def syn_init_def)
qed

text \<open>
  C13: when report generation fails, the flow returns to setup with the
  report error; the transcript and the conversation handle are left as they
  were (they are dropped only by the next start or by a new interview).
\<close>

theorem report_failure_to_setup:
  "interviewState (report_settled s (Inl f)) = Setup
   \<and> error (report_settled s (Inl f)) = Some msg_report_failed
   \<and> history (report_settled s (Inl f)) = history s
   \<and> chatRef (report_settled s (Inl f)) = chatRef s
   \<and> report (report_settled s (Inl f)) = report s"
  by (simp add: report_settled_def)

text \<open>
  In a browser with speech synthesis, ending the interview stops an active
  capture, empties the speech queue, moves to report generation and
  requests one report over the whole current transcript and the current
  form values.
\<close>

theorem end_interview:
  "rec_inv (rec s) \<Longrightarrow> syn_supported (syn s) \<Longrightarrow>
   \<not> isListening (rec (handleStopInterview s))
   \<and> queue (syn (handleStopInterview s)) = []
   \<and> interviewState (handleStopInterview s) = GeneratingReport
   \<and> pending (handleStopInterview s) = pending s @ [AwaitReport (history s) (current_context s)]"
  by (auto simp: handleStopInterview_def generateAndSetReport_def current_closure_def
      synth_cancel_def rec_inv_def Let_def)

theorem end_interview_witness:
  "interviewState (handleStopInterview (session_init True True [])) = GeneratingReport"
proof -
  have i: "rec_inv (rec (session_init True True []))"
    by (simp add: session_init_def rec_inv_init)
  have u: "syn_supported (syn (session_init True True []))"
    by (simp add: session_init_def syn_init_def)
  show ?thesis using end_interview [OF i u] by simp
qed

text \<open>
  C8: with one request at a time and every reply arriving, the transcript
  strictly alternates: from an alternating transcript that ends with the
  interviewer, sending an answer and receiving its reply keeps it
  alternating and ending with the interviewer.
\<close>

theorem sequential_alternation:
  assumes alt: "alternating (history s)" and last_i: "history s \<noteq> []"
    "turn_speaker (last (history s)) = Interviewer"
    and open_chat: "chatRef s \<noteq> None" and nonempty: "js_truthy m"
  shows "alternating (history (chat_settles (handleSendResponse s m) (length (pending s)) (Inr t)))
     \<and> turn_speaker (last (history (chat_settles (handleSendResponse s m) (length (pending s)) (Inr t))))
         = Interviewer"
proof -
  let ?h = "history s"
  have odd_len: "odd (length ?h)"
  proof (rule ccontr)
    assume "\<not> odd (length ?h)"
    then have "odd (length (butlast ?h))" using last_i(1) by simp
    moreover have "alternates_from Interviewer (butlast ?h @ [last ?h])"
      using alt last_i(1) by simp
    ultimately show False using last_i(2) by (simp only: alternates_from_snoc) simp
  qed
  from open_chat obtain c where c: "chatRef s = Some c" by blast
  have "history (chat_settles (handleSendResponse s m) (length (pending s)) (Inr t))
        = ?h @ [candidate_turn m] @ [interviewer_turn t]"
    using c nonempty by (simp add: handleSendResponse_def chat_settles_def settle_def remove_nth_def
        reply_settled_def Let_def nth_append)
  with alt odd_len show ?thesis
    by (simp only: append_assoc [symmetric] alternates_from_snoc) simp
qed

theorem sequential_alternation_witness:
  "alternating (history (chat_settles (handleSendResponse
     ((session_init True True [])\<lparr>history := [interviewer_turn ''Q1''],
        chatRef := Some \<lparr>system_instruction = [], sent = []\<rparr>\<rparr>) ''A1'') 0 (Inr ''Q2'')))"
proof -
  let ?s = "(session_init True True [])\<lparr>history := [interviewer_turn ''Q1''],
        chatRef := Some \<lparr>system_instruction = [], sent = []\<rparr>\<rparr>"
  have p: "length (pending ?s) = 0" by (simp add: session_init_def)
  have "alternating (history ?s)" "history ?s \<noteq> []"
    "turn_speaker (last (history ?s)) = Interviewer" "chatRef ?s \<noteq> None" "js_truthy ''A1''"
    by simp_all
  from sequential_alternation [OF this, of "''Q2''"] p show ?thesis by simp
qed

section \<open>Handler sequences\<close>

text \<open>
  The facts the properties below share: each handler on the branch that
  does its work, and a continuation settling at a given position.
\<close>

lemma send_answer:
  "chatRef s = Some ch \<Longrightarrow> js_truthy m \<Longrightarrow>
   handleSendResponse s m =
     s\<lparr>isLoading := True, history := history s @ [candidate_turn m], rec := setTranscript (rec s) [],
       chatRef := Some (ch\<lparr>sent := sent ch @ [m]\<rparr>),
       pending := pending s @ [AwaitReply (history s @ [candidate_turn m]) (isSpeaking (syn s)) (current_closure s)]\<rparr>"
  by (simp add: handleSendResponse_def Let_def)

lemma chat_settles_reply:
  "i < length (pending s) \<Longrightarrow> pending s ! i = AwaitReply nh b c \<Longrightarrow>
   chat_settles s i r = reply_settled (settle s i) nh b c r"
  by (simp add: chat_settles_def)

lemma timer_fires_at:
  "j < length (pending s) \<Longrightarrow> pending s ! j = AwaitTimer c \<Longrightarrow>
   timer_fires s j = generateAndSetReport c (settle s j)"
  by (simp add: timer_fires_def)

lemma report_with_synthesis:
  "syn_supported (syn s) \<Longrightarrow>
   interviewState (generateAndSetReport c s) = GeneratingReport
   \<and> pending (generateAndSetReport c s) = pending s @ [AwaitReport (rc_history c) (rc_context c)]
   \<and> history (generateAndSetReport c s) = history s
   \<and> syn_supported (syn (generateAndSetReport c s))"
  by (simp add: generateAndSetReport_def synth_cancel_def Let_def)

lemma not_alternating_two_candidates:
  "\<not> alternates_from sp (xs @ [candidate_turn a, candidate_turn b])"
proof -
  have "xs @ [candidate_turn a, candidate_turn b] = (xs @ [candidate_turn a]) @ [candidate_turn b]" by simp
  moreover have "other sp' \<noteq> sp'" for sp' by (cases sp') simp_all
  ultimately show ?thesis by (simp only: alternates_from_snoc) auto
qed

section \<open>Where the code departs from its specification\<close>

text \<open>
  C9: the transcript does not always alternate: from any state with an
  open conversation, when the reply to an answer fails and the candidate
  answers again, the two answers follow each other in the transcript.
\<close>

theorem failed_reply_breaks_alternation:
  "chatRef s = Some ch \<Longrightarrow> js_truthy m1 \<Longrightarrow> js_truthy m2 \<Longrightarrow>
   history (handleSendResponse (chat_settles (handleSendResponse s m1) (length (pending s)) (Inl f)) m2)
     = history s @ [candidate_turn m1, candidate_turn m2]
   \<and> \<not> alternating (history (handleSendResponse
        (chat_settles (handleSendResponse s m1) (length (pending s)) (Inl f)) m2))"
  by (simp add: send_answer chat_settles_reply settle_def reply_settled_def not_alternating_two_candidates)

theorem failed_reply_breaks_alternation_witness:
  "history (handleSendResponse (chat_settles (handleSendResponse
      ((session_init True True [])\<lparr>chatRef := Some \<lparr>system_instruction = [], sent = []\<rparr>\<rparr>) ''a1'')
      0 (Inl ''network error'')) ''a2'')
   = [candidate_turn ''a1'', candidate_turn ''a2'']"
proof -
  let ?s = "(session_init True True [])\<lparr>chatRef := Some \<lparr>system_instruction = [], sent = []\<rparr>\<rparr>"
  have "chatRef ?s = Some \<lparr>system_instruction = [], sent = []\<rparr>" "js_truthy ''a1''" "js_truthy ''a2''" by simp_all
  from failed_reply_breaks_alternation [OF this, of "''network error''"] show ?thesis
    by (simp add: session_init_def)
qed

text \<open>
  C10: answers are not serialised: from any state with an open
  conversation, when the candidate answers twice before the first reply
  arrives and the replies settle in reverse order, the transcript ends with
  the first answer and its reply: the second answer and its reply are lost.
\<close>

theorem concurrent_replies_lose_turns:
  "chatRef s = Some ch \<Longrightarrow> js_truthy m1 \<Longrightarrow> js_truthy m2 \<Longrightarrow>
   history (chat_settles (chat_settles (handleSendResponse (handleSendResponse s m1) m2)
       (Suc (length (pending s))) (Inr r2)) (length (pending s)) (Inr r1))
     = history s @ [candidate_turn m1, interviewer_turn r1]"
  by (simp add: send_answer chat_settles_reply settle_def reply_settled_def Let_def nth_append)

theorem concurrent_replies_lose_turns_witness:
  "history (chat_settles (chat_settles (handleSendResponse (handleSendResponse
      ((session_init True True [])\<lparr>chatRef := Some \<lparr>system_instruction = [], sent = []\<rparr>\<rparr>) ''a1'') ''a2'')
      1 (Inr ''r2'')) 0 (Inr ''r1''))
   = [candidate_turn ''a1'', interviewer_turn ''r1'']"
proof -
  let ?s = "(session_init True True [])\<lparr>chatRef := Some \<lparr>system_instruction = [], sent = []\<rparr>\<rparr>"
  have "chatRef ?s = Some \<lparr>system_instruction = [], sent = []\<rparr>" "js_truthy ''a1''" "js_truthy ''a2''" by simp_all
  from concurrent_replies_lose_turns [OF this, of "''r2''" "''r1''"] show ?thesis
    by (simp add: session_init_def)
qed

text \<open>
  C2: when the interviewer closes the interview, the report is requested
  over the transcript as it was before the candidate's last answer: from
  any state with an open conversation and speech synthesis, after an answer
  whose reply contains the closing phrase, the 2 s timer calls the
  \<open>generateAndSetReport\<close> closure of the render that sent the answer, so
  the last answer and the closing line, though in the transcript, are
  missing from the report request.
\<close>

theorem closing_report_misses_last_exchange:
  "chatRef s = Some ch \<Longrightarrow> js_truthy m \<Longrightarrow> concludes r \<Longrightarrow> syn_supported (syn s) \<Longrightarrow>
   history (timer_fires (chat_settles (handleSendResponse s m) (length (pending s)) (Inr r)) (length (pending s)))
     = history s @ [candidate_turn m, interviewer_turn r]
   \<and> pending (timer_fires (chat_settles (handleSendResponse s m) (length (pending s)) (Inr r)) (length (pending s)))
     = pending s @ [AwaitReport (history s) (current_context s)]"
  by (simp add: send_answer chat_settles_reply settle_def reply_settled_def Let_def timer_fires_at
      report_with_synthesis current_closure_def)

theorem closing_report_misses_last_exchange_witness:
  "pending (timer_fires (chat_settles (handleSendResponse
      ((session_init True True [])\<lparr>chatRef := Some \<lparr>system_instruction = [], sent = []\<rparr>,
         history := [interviewer_turn ''Q1'']\<rparr>) ''a1'') 0 (Inr closing_reply)) 0)
   = [AwaitReport [interviewer_turn ''Q1''] (current_context (session_init True True []))]"
proof -
  let ?s = "(session_init True True [])\<lparr>chatRef := Some \<lparr>system_instruction = [], sent = []\<rparr>,
         history := [interviewer_turn ''Q1'']\<rparr>"
  have c: "concludes closing_reply" by code_simp
  have "chatRef ?s = Some \<lparr>system_instruction = [], sent = []\<rparr>" "js_truthy ''a1''"
    "syn_supported (syn ?s)" by (simp_all add: session_init_def syn_init_def)
  from closing_report_misses_last_exchange [OF this(1,2) c this(3)] show ?thesis
    by (simp add: session_init_def current_context_def)
qed

text \<open>
  C14: New Interview does not cancel a pending report timer: from the
  finished view with a report timer still pending (the candidate clicked
  End within the 2 s after the closing line), New Interview opens the setup
  screen, and when the timer fires it leaves setup for report generation
  and requests a report over the transcript its closure captured.
\<close>

theorem stale_timer_leaves_setup:
  "interviewState s = Finished \<Longrightarrow> report s \<noteq> None \<Longrightarrow> syn_supported (syn s) \<Longrightarrow>
   j < length (pending s) \<Longrightarrow> pending s ! j = AwaitTimer c \<Longrightarrow>
   interviewState (handle s ClickNew) = Setup
   \<and> interviewState (handle (handle s ClickNew) (TimerFires j)) = GeneratingReport
   \<and> pending (handle (handle s ClickNew) (TimerFires j))
       = remove_nth j (pending s) @ [AwaitReport (rc_history c) (rc_context c)]"
  by (simp add: handleNewInterview_def timer_fires_at settle_def report_with_synthesis)

theorem stale_timer_leaves_setup_witness:
  "interviewState (handle (handle ((session_init True True [])\<lparr>interviewState := Finished,
      report := Some sample_report, pending := [AwaitTimer (current_closure (session_init True True []))]\<rparr>)
      ClickNew) (TimerFires 0)) = GeneratingReport"
proof -
  let ?s = "(session_init True True [])\<lparr>interviewState := Finished,
      report := Some sample_report, pending := [AwaitTimer (current_closure (session_init True True []))]\<rparr>"
  have "interviewState ?s = Finished" "report ?s \<noteq> None" "syn_supported (syn ?s)"
    "0 < length (pending ?s)" "pending ?s ! 0 = AwaitTimer (current_closure (session_init True True []))"
    by (simp_all add: session_init_def syn_init_def)
  from stale_timer_leaves_setup [OF this] show ?thesis by simp
qed

text \<open>
  C12: in a browser without speech synthesis, End Interview does not reach
  report generation: \<open>generateAndSetReport\<close> clears the loading flag and
  stops capture, then \<open>window.speechSynthesis.cancel()\<close> throws; the phase,
  the error and the pending work are left as they were, so no report is
  requested.
\<close>

theorem end_without_synthesis:
  "\<not> syn_supported (syn s) \<Longrightarrow>
   handleStopInterview s = s\<lparr>isLoading := False, rec := stopListening (rec s)\<rparr>"
  by (simp add: handleStopInterview_def generateAndSetReport_def current_closure_def stopListening_def Let_def)

theorem end_without_synthesis_witness:
  "interviewState (handleStopInterview ((session_init True False [])\<lparr>interviewState := Running\<rparr>)) = Running
   \<and> pending (handleStopInterview ((session_init True False [])\<lparr>interviewState := Running\<rparr>)) = []"
proof -
  have "\<not> syn_supported (syn ((session_init True False [])\<lparr>interviewState := Running\<rparr>))"
    by (simp add: session_init_def syn_init_def)
  from end_without_synthesis [OF this] show ?thesis by (simp add: session_init_def)
qed

end
