(* ===== verification/Gateway.thy ===== *)
theory Gateway
  imports Types
begin

text \<open>
  The AI gateway, \<open>src/services/geminiService.ts\<close>: four functions that
  build a prompt and a response schema, call the remote model once, trim the
  reply text and parse it as JSON. The remote model (\<open>ai.models.generateContent\<close>
  followed by \<open>response.text\<close>) and \<open>JSON.parse\<close> with the unchecked cast to
  the declared TypeScript type are parameters: \<open>ai\<close> maps a request to the
  reply text or a rejection, \<open>parse\<close> maps text to a value of the result type
  or a rejection. Nothing else is assumed about them, so every property
  below holds whatever the service answers.
\<close>

section \<open>Requests\<close>

datatype schema =
    SString "string option"          \<comment> \<open>\<open>{type: STRING, description?}\<close>\<close>
  | SNumber "string option"
  | SArray "string option" schema    \<comment> \<open>\<open>{type: ARRAY, description?, items}\<close>\<close>
  | SObject "(string \<times> schema) list" "string list" \<comment> \<open>properties, required\<close>

record gen_request =
  req_model :: string
  req_contents :: string
  req_mime :: string
  req_schema :: schema

definition flash_model :: string where
  "flash_model = ''gemini-2.5-flash''"

definition pro_model :: string where
  "pro_model = ''gemini-2.5-pro''"

definition json_mime :: string where
  "json_mime = ''application/json''"

fun nat_str :: "nat \<Rightarrow> string" where
  "nat_str n = (if n < 10 then [char_of (48 + n)] else nat_str (n div 10) @ [char_of (48 + n mod 10)])"

declare nat_str.simps [simp del]

text \<open>A line of a template literal: a line break, \<open>k\<close> columns of indentation, the text.\<close>

definition tl_line :: "nat \<Rightarrow> string \<Rightarrow> string" where
  "tl_line k t = nl @ replicate k (CHR '' '') @ t"

definition dq :: string where
  "dq = [CHR 0x22]"

subsection \<open>generateQuiz\<close>

definition quiz_prompt :: "string \<Rightarrow> nat \<Rightarrow> string \<Rightarrow> string" where
  "quiz_prompt topic count difficulty =
     ''Generate a '' @ nat_str count @ ''-question multiple-choice quiz on the topic '' @ dq @ topic @ dq
     @ '' with '' @ difficulty @ '' difficulty. For each question, provide one correct answer, three''
     @ '' plausible but incorrect distractors, and a brief explanation for the correct answer.''"

definition quiz_schema :: schema where
  "quiz_schema =
     SObject [(''questions'', SArray None
        (SObject [(''question'', SString None), (''options'', SArray None (SString None)),
                  (''answer'', SString None), (''explanation'', SString None)]
                 [''question'', ''options'', ''answer'', ''explanation'']))]
       [''questions'']"

definition quiz_request :: "string \<Rightarrow> nat \<Rightarrow> string \<Rightarrow> gen_request" where
  "quiz_request topic count difficulty =
     \<lparr>req_model = flash_model, req_contents = quiz_prompt topic count difficulty,
      req_mime = json_mime, req_schema = quiz_schema\<rparr>"

subsection \<open>generateRoadmap\<close>

definition roadmap_prompt :: "string \<Rightarrow> string" where
  "roadmap_prompt topic =
     ''Create a detailed learning roadmap for the topic '' @ dq @ topic @ dq
     @ ''. The roadmap should be structured into logical steps. For each step, provide a title, a short''
     @ '' description of what to learn, and a list of recommended online resources (articles, videos,''
     @ '' tutorials).''"

definition roadmap_schema :: schema where
  "roadmap_schema =
     SObject [(''title'', SString None), (''steps'', SArray None
        (SObject [(''step'', SNumber None), (''title'', SString None), (''description'', SString None),
                  (''resources'', SArray None (SString None))]
                 [''step'', ''title'', ''description'', ''resources'']))]
       [''title'', ''steps'']"

definition roadmap_request :: "string \<Rightarrow> gen_request" where
  "roadmap_request topic =
     \<lparr>req_model = flash_model, req_contents = roadmap_prompt topic, req_mime = json_mime,
      req_schema = roadmap_schema\<rparr>"

subsection \<open>scanAts\<close>

definition ats_match_prompt :: "string \<Rightarrow> string \<Rightarrow> string" where
  "ats_match_prompt resumeText jobDescription =
     ''Act as an expert ATS (Applicant Tracking System) scanner. Analyze the following resume against''
     @ '' the provided job description.'' @ tl_line 4 []
     @ tl_line 8 ''Resume:'' @ tl_line 8 ''---'' @ tl_line 8 resumeText @ tl_line 8 ''---'' @ tl_line 8 []
     @ tl_line 8 ''Job Description:'' @ tl_line 8 ''---'' @ tl_line 8 jobDescription @ tl_line 8 ''---''
     @ tl_line 8 [] @ tl_line 8 ''Provide a detailed analysis in JSON format.''"

definition ats_match_schema :: schema where
  "ats_match_schema =
     SObject [(''score'', SNumber (Some ''A score out of 100 representing the match.'')),
              (''matchRate'', SString (Some ''A percentage string for the match rate.'')),
              (''keywords'', SObject [(''missing'', SArray None (SString None)),
                                      (''found'', SArray None (SString None))] []),
              (''summary'', SString (Some ''A brief summary of the analysis.'')),
              (''suggestions'', SString (Some ''Actionable suggestions for improving the resume for this specific job.''))]
       [''score'', ''matchRate'', ''keywords'', ''summary'', ''suggestions'']"

definition ats_general_prompt :: "string \<Rightarrow> string" where
  "ats_general_prompt resumeText =
     ''Act as an expert career coach and resume writer. Critically analyze the following resume. Provide''
     @ '' a detailed analysis of its strengths and weaknesses. Give a concise summary and offer actionable''
     @ '' suggestions for improvement. Structure your response in JSON format.''
     @ tl_line 8 [] @ tl_line 8 ''Resume:'' @ tl_line 8 ''---'' @ tl_line 8 resumeText @ tl_line 8 ''---''
     @ tl_line 8 []"

definition ats_general_schema :: schema where
  "ats_general_schema =
     SObject [(''summary'', SString (Some (''A brief summary of the resume'' @ apos @ ''s overall quality and presentation.''))),
              (''suggestions'', SString (Some ''Actionable suggestions for improving the resume globally.'')),
              (''strengths'', SString (Some ''A paragraph detailing the key strengths of the resume.'')),
              (''weaknesses'', SString (Some ''A paragraph detailing the key weaknesses or areas for improvement.''))]
       [''summary'', ''suggestions'', ''strengths'', ''weaknesses'']"

text \<open>The branch of \<open>scanAts\<close>: \<open>if (jobDescription.trim())\<close>.\<close>

definition ats_request :: "string \<Rightarrow> string \<Rightarrow> gen_request" where
  "ats_request resumeText jobDescription =
     (if js_truthy (js_trim jobDescription)
      then \<lparr>req_model = pro_model, req_contents = ats_match_prompt resumeText jobDescription,
            req_mime = json_mime, req_schema = ats_match_schema\<rparr>
      else \<lparr>req_model = pro_model, req_contents = ats_general_prompt resumeText,
            req_mime = json_mime, req_schema = ats_general_schema\<rparr>)"

subsection \<open>generateInterviewReport\<close>

text \<open>The fields of the untyped \<open>context\<close> argument that the prompt reads.\<close>

record gateway_context =
  gc_type :: string
  gc_role :: string
  gc_resume :: string

definition turn_line :: "interview_turn \<Rightarrow> string" where
  "turn_line t = speaker_str (turn_speaker t) @ '': '' @ turn_text t"

definition transcript_text :: "interview_turn list \<Rightarrow> string" where
  "transcript_text transcript = js_join nl (map turn_line transcript)"

definition report_prompt :: "interview_turn list \<Rightarrow> gateway_context \<Rightarrow> string" where
  "report_prompt transcript context =
     tl_line 8 ''Act as an expert interview coach. Analyze the provided interview transcript and context.''
     @ tl_line 8 [] @ tl_line 8 ''**Interview Context:**''
     @ tl_line 8 (''- Type: '' @ gc_type context)
     @ tl_line 8 (''- Role/Topic: '' @ (if js_truthy (gc_role context) then gc_role context else ''General''))
     @ tl_line 8 (if js_truthy (gc_resume context) then ''- Candidate'' @ apos @ ''s Resume Provided.'' else [])
     @ tl_line 0 [] @ tl_line 8 ''**Interview Transcript:**'' @ tl_line 8 ''---''
     @ tl_line 8 (transcript_text transcript) @ tl_line 8 ''---'' @ tl_line 0 []
     @ tl_line 8 (''Based on the transcript and context, provide a comprehensive performance report for the''
                  @ '' candidate in a structured JSON format.'')
     @ tl_line 4 []"

definition report_schema :: schema where
  "report_schema =
     SObject [(''overallScore'', SNumber (Some ''A score out of 100 for overall performance.'')),
              (''summary'', SString (Some (''A brief, high-level overview of the candidate'' @ apos @ ''s performance.''))),
              (''competencies'', SArray (Some ''Assessment of 3-4 key competencies.'')
                 (SObject [(''name'', SString (Some (''Name of the competency (e.g., '' @ apos @ ''Clarity & Conciseness''
                              @ apos @ '', '' @ apos @ ''Technical Depth'' @ apos @ '', '' @ apos @ ''Problem-Solving''
                              @ apos @ '').''))),
                           (''score'', SNumber (Some ''Score from 1 to 10 for this competency.'')),
                           (''feedback'', SString (Some ''Brief feedback on this competency.''))]
                          [''name'', ''score'', ''feedback''])),
              (''strengths'', SArray (Some ''A list of specific strengths, with examples.'') (SString None)),
              (''areasForImprovement'', SArray (Some ''A list of specific areas for improvement, with constructive advice.'')
                 (SString None)),
              (''recommendation'', SString (Some (''A final recommendation (e.g., '' @ apos @ ''Strongly Recommend''
                 @ apos @ '', '' @ apos @ ''Recommend'' @ apos @ '').'')))]
       [''overallScore'', ''summary'', ''competencies'', ''strengths'', ''areasForImprovement'', ''recommendation'']"

definition report_request :: "interview_turn list \<Rightarrow> gateway_context \<Rightarrow> gen_request" where
  "report_request transcript context =
     \<lparr>req_model = pro_model, req_contents = report_prompt transcript context, req_mime = json_mime,
      req_schema = report_schema\<rparr>"

section \<open>Calls\<close>

text \<open>One call: request, \<open>response.text.trim()\<close>, \<open>JSON.parse\<close>. A rejection propagates.\<close>

definition call_json ::
  "(gen_request \<Rightarrow> failure + string) \<Rightarrow> (string \<Rightarrow> failure + 'a) \<Rightarrow> gen_request \<Rightarrow> failure + 'a" where
  "call_json ai parse req = res_bind (ai req) (\<lambda>text. parse (js_trim text))"

text \<open>The object \<open>generateQuiz\<close> parses: \<open>{questions: QuizQuestion[]}\<close>.\<close>

record quiz_response =
  result_questions :: "quiz_question list"

definition generateQuiz ::
  "(gen_request \<Rightarrow> failure + string) \<Rightarrow> (string \<Rightarrow> failure + quiz_response)
   \<Rightarrow> string \<Rightarrow> nat \<Rightarrow> string \<Rightarrow> failure + quiz_question list" where
  "generateQuiz ai parse topic count difficulty =
     res_bind (call_json ai parse (quiz_request topic count difficulty)) (\<lambda>result. Inr (result_questions result))"

definition generateRoadmap ::
  "(gen_request \<Rightarrow> failure + string) \<Rightarrow> (string \<Rightarrow> failure + roadmap) \<Rightarrow> string \<Rightarrow> failure + roadmap" where
  "generateRoadmap ai parse topic = call_json ai parse (roadmap_request topic)"

definition scanAts ::
  "(gen_request \<Rightarrow> failure + string) \<Rightarrow> (string \<Rightarrow> failure + ats_scan_result)
   \<Rightarrow> string \<Rightarrow> string \<Rightarrow> failure + ats_scan_result" where
  "scanAts ai parse resumeText jobDescription = call_json ai parse (ats_request resumeText jobDescription)"

definition generateInterviewReport ::
  "(gen_request \<Rightarrow> failure + string) \<Rightarrow> (string \<Rightarrow> failure + interview_report)
   \<Rightarrow> interview_turn list \<Rightarrow> gateway_context \<Rightarrow> failure + interview_report" where
  "generateInterviewReport ai parse transcript context = call_json ai parse (report_request transcript context)"

section \<open>Decoding, for the round trips\<close>

text \<open>Reading the printed forms back: decimal digits, and the lines of a transcript.\<close>

definition nat_of_str :: "string \<Rightarrow> nat" where
  "nat_of_str s = foldl (\<lambda>acc c. 10 * acc + (of_char c - 48)) 0 s"

abbreviation split_lines :: "string \<Rightarrow> string list" where
  "split_lines \<equiv> split_on (CHR 0x0A)"

definition parse_turn_line :: "string \<Rightarrow> interview_turn option" where
  "parse_turn_line l =
     (if prefix ''interviewer: '' l then Some (interviewer_turn (drop 13 l))
      else if prefix ''candidate: '' l then Some (candidate_turn (drop 11 l))
      else None)"

definition schema_required :: "schema \<Rightarrow> string list" where
  "schema_required sc = (case sc of SObject _ req \<Rightarrow> req | _ \<Rightarrow> [])"

section \<open>Lemmas\<close>

lemma call_json_Inl [simp]: "ai req = Inl e \<Longrightarrow> call_json ai parse req = Inl e"
  by (simp add: call_json_def)

lemma nl_free_turn_line: "CHR 0x0A \<notin> set (turn_text t) \<Longrightarrow> CHR 0x0A \<notin> set (turn_line t)"
  by (cases "turn_speaker t") (simp_all add: turn_line_def)

lemma parse_turn_line_inv: "parse_turn_line (turn_line t) = Some t"
  by (cases "turn_speaker t") (simp_all add: turn_line_def parse_turn_line_def)

lemma nat_of_str_append: "nat_of_str (xs @ ys) = foldl (\<lambda>acc c. 10 * acc + (of_char c - 48)) (nat_of_str xs) ys"
  by (simp add: nat_of_str_def)

lemma of_char_digit: "d < 10 \<Longrightarrow> (of_char (char_of (48 + d) :: char) :: nat) = 48 + d"
  by (simp add: of_char_of)

section \<open>Properties\<close>

text \<open>
  C21: \<open>scanAts\<close> chooses its request only by whether the job description has
  a character other than whitespace: a job-match request with a required
  \<open>score\<close> when it has one, a general review without \<open>score\<close> otherwise.
\<close>

theorem ats_branch_by_trim:
  "req_schema (ats_request resumeText jd) =
     (if \<exists>c \<in> set jd. \<not> is_js_space c then ats_match_schema else ats_general_schema)
   \<and> (''score'' \<in> set (schema_required (req_schema (ats_request resumeText jd)))
       \<longleftrightarrow> (\<exists>c \<in> set jd. \<not> is_js_space c))"
  by (simp add: ats_request_def js_trim_empty_iff schema_required_def ats_match_schema_def
      ats_general_schema_def)

theorem ats_branch_by_trim_witness:
  "req_schema (ats_request ''Resume'' [CHR 0x20, CHR 0x0A]) = ats_general_schema
   \<and> req_schema (ats_request ''Resume'' '' React '') = ats_match_schema"
  using ats_branch_by_trim [of "''Resume''" "[CHR 0x20, CHR 0x0A]"] ats_branch_by_trim [of "''Resume''" "'' React ''"]
  by (simp add: is_js_space_def)

text \<open>
  A job description of whitespace only is treated exactly as no job
  description: the same request is sent.
\<close>

theorem ats_blank_jd_is_general:
  "\<not> (\<exists>c \<in> set jd. \<not> is_js_space c) \<Longrightarrow> ats_request resumeText jd = ats_request resumeText []"
  by (simp add: ats_request_def js_trim_empty_iff)

theorem ats_blank_jd_is_general_witness:
  "ats_request ''Resume'' '' '' = ats_request ''Resume'' []"
  by (rule ats_blank_jd_is_general) (simp add: is_js_space_def)

text \<open>
  C32: the transcript section of the report prompt encodes the transcript
  without loss when no turn contains a line break: splitting it into lines
  and reading each line back gives the turns in order.
\<close>

theorem transcript_text_roundtrip:
  "ts \<noteq> [] \<Longrightarrow> \<forall>t \<in> set ts. CHR 0x0A \<notin> set (turn_text t) \<Longrightarrow>
   map parse_turn_line (split_lines (transcript_text ts)) = map Some ts"
proof -
  assume ne: "ts \<noteq> []" and nf: "\<forall>t \<in> set ts. CHR 0x0A \<notin> set (turn_text t)"
  have "split_lines (js_join nl (map turn_line ts)) = map turn_line ts"
    using ne nf unfolding nl_def by (intro split_on_join) (auto simp: nl_free_turn_line)
  then show ?thesis by (simp add: transcript_text_def parse_turn_line_inv)
qed

theorem transcript_text_roundtrip_witness:
  "map parse_turn_line (split_lines (transcript_text [interviewer_turn ''Q?'', candidate_turn ''A.'']))
   = [Some (interviewer_turn ''Q?''), Some (candidate_turn ''A.'')]"
  using transcript_text_roundtrip [of "[interviewer_turn ''Q?'', candidate_turn ''A.'']"] by simp

text \<open>
  C33: the transcript encoding is not injective: in any transcript, a turn
  whose text continues, after a line break, with the line of some other
  turn gives the same report-prompt text as the two turns separately, so
  the candidate can put words in the interviewer's mouth.
\<close>

theorem transcript_text_ambiguous:
  "transcript_text (ts @ \<lparr>turn_speaker = sp, turn_text = a @ nl @ turn_line u\<rparr> # us)
     = transcript_text (ts @ \<lparr>turn_speaker = sp, turn_text = a\<rparr> # u # us)
   \<and> ts @ \<lparr>turn_speaker = sp, turn_text = a @ nl @ turn_line u\<rparr> # us
     \<noteq> ts @ \<lparr>turn_speaker = sp, turn_text = a\<rparr> # u # us"
proof
  have "turn_line \<lparr>turn_speaker = sp, turn_text = a @ nl @ turn_line u\<rparr>
        = turn_line \<lparr>turn_speaker = sp, turn_text = a\<rparr> @ nl @ turn_line u"
    by (simp add: turn_line_def)
  then show "transcript_text (ts @ \<lparr>turn_speaker = sp, turn_text = a @ nl @ turn_line u\<rparr> # us)
     = transcript_text (ts @ \<lparr>turn_speaker = sp, turn_text = a\<rparr> # u # us)"
    by (simp add: transcript_text_def js_join_split)
  show "ts @ \<lparr>turn_speaker = sp, turn_text = a @ nl @ turn_line u\<rparr> # us
     \<noteq> ts @ \<lparr>turn_speaker = sp, turn_text = a\<rparr> # u # us"
    by (metis length_Cons length_append add_left_cancel n_not_Suc_n)
qed

text \<open>
  The report prompt carries the whole transcript text and names the
  role, or \<open>General\<close> when the role is empty.
\<close>

lemma report_prompt_includes:
  "js_includes (report_prompt ts ctx) (transcript_text ts)
   \<and> js_includes (report_prompt ts ctx)
       (''- Role/Topic: '' @ (if js_truthy (gc_role ctx) then gc_role ctx else ''General''))"
  unfolding report_prompt_def tl_line_def append_assoc by (simp only: js_includes_search simp_thms)

text \<open>
  The number of questions is printed in decimal so that reading it back
  gives the number asked for, and the quiz prompt quotes the topic.
\<close>

theorem quiz_prompt_count_roundtrip:
  "nat_of_str (nat_str n) = n
   \<and> js_includes (quiz_prompt topic n difficulty) (nat_str n @ ''-question'')
   \<and> js_includes (quiz_prompt topic n difficulty) (dq @ topic @ dq)"
proof -
  have "nat_of_str (nat_str n) = n"
  proof (induction n rule: nat_str.induct)
    case (1 n)
    show ?case
    proof (cases "n < 10")
      case True
      then show ?thesis by (simp add: nat_str.simps nat_of_str_def of_char_digit)
    next
      case False
      then have "nat_of_str (nat_str (n div 10)) = n div 10" using "1.IH" by simp
      with False show ?thesis
        by (simp add: nat_str.simps [of n] nat_of_str_append of_char_digit)
    qed
  qed
  moreover have "js_includes (quiz_prompt topic n difficulty) (nat_str n @ ''-question'')"
    unfolding quiz_prompt_def append_assoc
    by (rule js_includes_appendI2, rule js_includes_prefixI) simp
  moreover have "js_includes (quiz_prompt topic n difficulty) (dq @ topic @ dq)"
    unfolding quiz_prompt_def append_assoc by (simp only: js_includes_search)
  ultimately show ?thesis by blast
qed

text \<open>
  A gateway call fails exactly when the remote call rejects or its
  trimmed reply does not parse; the rejection is passed on unchanged, with
  no retry.
\<close>

theorem call_json_error:
  "call_json ai parse req = Inl e \<longleftrightarrow>
     ai req = Inl e \<or> (\<exists>text. ai req = Inr text \<and> parse (js_trim text) = Inl e)"
  by (cases "ai req") (simp_all add: call_json_def)

theorem call_json_error_witness:
  "call_json (\<lambda>_. Inr '' {'') (\<lambda>_. Inl ''SyntaxError'' :: failure + roadmap) (roadmap_request ''Go'') = Inl ''SyntaxError''"
  using call_json_error [of "\<lambda>_. Inr '' {''" "\<lambda>_. Inl ''SyntaxError'' :: failure + roadmap"] by simp

end
