(* ===== verification/FileReader.thy ===== *)
theory FileReader
  imports Prelude
begin

text \<open>
  The document extractor, \<open>readFileAsText\<close> in \<open>src/utils/fileReader.ts\<close>.
  The browser's \<open>FileReader\<close> and pdf.js are parameters: a file carries its
  declared type and the outcome of the read the code starts for that type
  (\<open>readAsArrayBuffer\<close> for a PDF, \<open>readAsText\<close> otherwise; \<open>Inl\<close> is
  \<open>onerror\<close>); pdf.js maps the bytes to a document or a failure, and a
  document gives the text items of each page or a failure. \<open>Promise.all\<close>
  keeps the order of the pages; which failure it reports when several pages
  fail depends on timing, so the model takes the first in page order, and
  the callers only test for failure.
\<close>

record file_input =
  file_type :: string \<comment> \<open>\<open>file.type\<close>\<close>
  file_read :: "failure + string" \<comment> \<open>\<open>reader.result\<close> in \<open>onload\<close>, or \<open>onerror\<close>\<close>

record pdf_document =
  numPages :: nat
  page_items :: "nat \<Rightarrow> failure + string list" \<comment> \<open>\<open>getPage(n)\<close>, \<open>getTextContent()\<close>, \<open>item.str\<close>\<close>

type_synonym pdfjs = "string \<Rightarrow> failure + pdf_document" \<comment> \<open>\<open>pdfjsLib.getDocument(typedarray).promise\<close>\<close>

definition pdf_mime :: string where
  "pdf_mime = ''application/pdf''"

fun promise_all :: "('e + 'a) list \<Rightarrow> 'e + 'a list" where
  "promise_all [] = Inr []"
| "promise_all (Inl e # rs) = Inl e"
| "promise_all (Inr a # rs) = (case promise_all rs of Inl e \<Rightarrow> Inl e | Inr as \<Rightarrow> Inr (a # as))"

text \<open>\<open>textContent.items.map(item => item.str).join(' ')\<close>, then \<open>pagesText.join('\n\n')\<close>.\<close>

definition page_text :: "string list \<Rightarrow> string" where
  "page_text items = js_join '' '' items"

definition pdf_text :: "string list list \<Rightarrow> string" where
  "pdf_text pages = js_join (nl @ nl) (map page_text pages)"

text \<open>The loop \<open>for (let i = 1; i <= pdf.numPages; i++) pages.push(i)\<close>.\<close>

definition page_numbers :: "pdf_document \<Rightarrow> nat list" where
  "page_numbers pdf = [1..<Suc (numPages pdf)]"

definition readFileAsText :: "pdfjs \<Rightarrow> file_input \<Rightarrow> failure + string" where
  "readFileAsText getDocument file =
     res_bind (file_read file) (\<lambda>result.
       if file_type file = pdf_mime
       then res_bind (getDocument result) (\<lambda>pdf.
              res_bind (promise_all (map (page_items pdf) (page_numbers pdf))) (\<lambda>pagesText.
                Inr (pdf_text pagesText)))
       else Inr result)"

section \<open>Lemmas\<close>

lemma promise_all_Inr: "promise_all (map (\<lambda>x. Inr (f x)) xs) = Inr (map f xs)"
  by (induction xs) simp_all

lemma promise_all_map_Inr:
  "\<forall>x \<in> set xs. g x = Inr (f x) \<Longrightarrow> promise_all (map g xs) = Inr (map f xs)"
  by (induction xs) simp_all

lemma promise_all_Inl: "\<exists>x \<in> set rs. isl x \<Longrightarrow> isl (promise_all rs)"
  by (induction rs rule: promise_all.induct) (auto split: sum.splits)

lemma page_text_ne: "items \<noteq> [] \<Longrightarrow> \<forall>i \<in> set items. i \<noteq> [] \<Longrightarrow> page_text items \<noteq> []"
  by (induction items rule: induct_list012) (simp_all add: page_text_def)

lemma page_text_free: "\<forall>i \<in> set items. c \<notin> set i \<Longrightarrow> c \<noteq> CHR 0x20 \<Longrightarrow> c \<notin> set (page_text items)"
  by (simp add: page_text_def js_join_free)

lemma split_page_text:
  "items \<noteq> [] \<Longrightarrow> \<forall>i \<in> set items. CHR 0x20 \<notin> set i \<Longrightarrow> split_on CHR 0x20 (page_text items) = items"
  unfolding page_text_def by (rule split_on_join) simp_all

lemma pdf_text_lines:
  assumes "pages \<noteq> []" "\<forall>p \<in> set pages. \<forall>i \<in> set p. CHR 0x0A \<notin> set i"
  shows "split_on CHR 0x0A (pdf_text pages) = blank_between (map page_text pages)"
proof -
  have "\<forall>x \<in> set (blank_between (map page_text pages)). CHR 0x0A \<notin> set x"
    using assms(2) page_text_free [of _ "CHR 0x0A"] by (intro blank_between_free) auto
  moreover have "blank_between (map page_text pages) \<noteq> []" using assms(1) by (simp add: blank_between_ne)
  ultimately show ?thesis unfolding pdf_text_def js_join_double nl_def by (rule split_on_join [rotated])
qed

definition sample_pdf :: pdf_document where
  "sample_pdf = \<lparr>numPages = 2, page_items = (\<lambda>n. if n = 1 then Inr [''Jane'', ''Doe''] else Inr [''Skills''])\<rparr>"

definition sample_pdf_file :: file_input where
  "sample_pdf_file = \<lparr>file_type = pdf_mime, file_read = Inr ''%PDF-1.7''\<rparr>"

definition sample_bad_pdf :: pdf_document where
  "sample_bad_pdf = \<lparr>numPages = 2, page_items = (\<lambda>n. if n = 2 then Inl ''Invalid page'' else Inr [''Jane''])\<rparr>"

definition sample_docx_file :: file_input where
  "sample_docx_file =
     \<lparr>file_type = ''application/vnd.openxmlformats-officedocument.wordprocessingml.document'',
      file_read = Inr ''PK''\<rparr>"

definition no_pdf_reader :: pdfjs where
  "no_pdf_reader b = Inl ''pdfjsLib is not defined''"

section \<open>Properties\<close>

text \<open>
  C30: a PDF whose document and pages all decode is read as the text of its
  pages in page order, items joined by single spaces within a page and pages
  separated by a blank line.
\<close>

theorem pdf_pages_in_order:
  "file_type f = pdf_mime \<Longrightarrow> file_read f = Inr b \<Longrightarrow> getDocument b = Inr pdf \<Longrightarrow>
   \<forall>n \<in> set (page_numbers pdf). page_items pdf n = Inr (items n) \<Longrightarrow>
   readFileAsText getDocument f = Inr (pdf_text (map items [1..<Suc (numPages pdf)]))"
proof -
  assume t: "file_type f = pdf_mime" and r: "file_read f = Inr b" and d: "getDocument b = Inr pdf"
    and p: "\<forall>n \<in> set (page_numbers pdf). page_items pdf n = Inr (items n)"
  from p have "promise_all (map (page_items pdf) (page_numbers pdf)) = Inr (map items (page_numbers pdf))"
    by (rule promise_all_map_Inr)
  with t r d show ?thesis by (simp add: readFileAsText_def page_numbers_def)
qed

theorem pdf_pages_in_order_witness:
  "readFileAsText (\<lambda>_. Inr sample_pdf) sample_pdf_file = Inr (''Jane Doe'' @ nl @ nl @ ''Skills'')"
proof -
  have "readFileAsText (\<lambda>_. Inr sample_pdf) sample_pdf_file
        = Inr (pdf_text (map (\<lambda>n. if n = 1 then [''Jane'', ''Doe''] else [''Skills'']) [1..<Suc (numPages sample_pdf)]))"
    by (rule pdf_pages_in_order) (simp_all add: sample_pdf_file_def sample_pdf_def page_numbers_def)
  also have "\<dots> = Inr (''Jane Doe'' @ nl @ nl @ ''Skills'')"
    by (simp add: sample_pdf_def pdf_text_def page_text_def upt_rec)
  finally show ?thesis .
qed

text \<open>
  C31: the page structure survives extraction: when no page is empty and no
  text item is empty or contains a space or a line break, splitting the
  extracted text at line breaks, dropping the blank lines and splitting each
  line at spaces gives back the pages and their items.
\<close>

theorem pdf_text_roundtrip:
  "pages \<noteq> [] \<Longrightarrow>
   \<forall>p \<in> set pages. p \<noteq> [] \<and> (\<forall>i \<in> set p. i \<noteq> [] \<and> CHR 0x20 \<notin> set i \<and> CHR 0x0A \<notin> set i) \<Longrightarrow>
   map (split_on CHR 0x20) (filter (\<lambda>x. x \<noteq> []) (split_on CHR 0x0A (pdf_text pages))) = pages"
proof -
  assume ne: "pages \<noteq> []"
    and ok: "\<forall>p \<in> set pages. p \<noteq> [] \<and> (\<forall>i \<in> set p. i \<noteq> [] \<and> CHR 0x20 \<notin> set i \<and> CHR 0x0A \<notin> set i)"
  have lines: "split_on CHR 0x0A (pdf_text pages) = blank_between (map page_text pages)"
    using ne ok by (intro pdf_text_lines) auto
  have "\<forall>p \<in> set pages. page_text p \<noteq> []" using ok by (simp add: page_text_ne)
  then have "[] \<notin> set (map page_text pages)" by auto
  then have "filter (\<lambda>x. x \<noteq> []) (blank_between (map page_text pages)) = map page_text pages"
    by (rule filter_blank_between)
  moreover have "\<forall>p \<in> set pages. split_on CHR 0x20 (page_text p) = p"
    using ok by (auto intro: split_page_text)
  ultimately show ?thesis unfolding lines by (simp add: map_idI)
qed

theorem pdf_text_roundtrip_witness:
  "map (split_on CHR 0x20) (filter (\<lambda>x. x \<noteq> []) (split_on CHR 0x0A (pdf_text [[''Jane'', ''Doe''], [''Skills'']])))
   = [[''Jane'', ''Doe''], [''Skills'']]"
  by (rule pdf_text_roundtrip) simp_all

text \<open>
  Any file not declared as PDF, a word-processor document included, is
  resolved with the raw result of \<open>readAsText\<close>, or rejected with the
  read error: there is no separate handling of \<open>.docx\<close>.
\<close>

theorem non_pdf_read_as_text:
  "file_type f \<noteq> pdf_mime \<Longrightarrow> readFileAsText getDocument f = file_read f"
  by (cases "file_read f") (simp_all add: readFileAsText_def)

theorem non_pdf_read_as_text_witness:
  "readFileAsText no_pdf_reader sample_docx_file = Inr ''PK''"
proof -
  have "file_type sample_docx_file \<noteq> pdf_mime" by (simp add: sample_docx_file_def pdf_mime_def)
  then have "readFileAsText no_pdf_reader sample_docx_file = file_read sample_docx_file"
    by (rule non_pdf_read_as_text)
  then show ?thesis by (simp add: sample_docx_file_def)
qed

text \<open>
  A PDF with one page that fails to decode is rejected as a whole: no
  partial text is returned.
\<close>

theorem pdf_page_failure_rejects:
  "file_type f = pdf_mime \<Longrightarrow> file_read f = Inr b \<Longrightarrow> getDocument b = Inr pdf \<Longrightarrow>
   \<exists>n \<in> set (page_numbers pdf). isl (page_items pdf n) \<Longrightarrow> isl (readFileAsText getDocument f)"
proof -
  assume t: "file_type f = pdf_mime" and r: "file_read f = Inr b" and d: "getDocument b = Inr pdf"
    and "\<exists>n \<in> set (page_numbers pdf). isl (page_items pdf n)"
  then have "\<exists>x \<in> set (map (page_items pdf) (page_numbers pdf)). isl x" by auto
  then have "isl (promise_all (map (page_items pdf) (page_numbers pdf)))" by (rule promise_all_Inl)
  with t r d show ?thesis by (auto simp: readFileAsText_def split: sum.splits)
qed

theorem pdf_page_failure_rejects_witness:
  "isl (readFileAsText (\<lambda>_. Inr sample_bad_pdf) sample_pdf_file)"
proof (rule pdf_page_failure_rejects [of sample_pdf_file "''%PDF-1.7''" "\<lambda>_. Inr sample_bad_pdf" sample_bad_pdf])
  show "\<exists>n \<in> set (page_numbers sample_bad_pdf). isl (page_items sample_bad_pdf n)"
  proof
    show "2 \<in> set (page_numbers sample_bad_pdf)" by (simp add: page_numbers_def sample_bad_pdf_def)
    show "isl (page_items sample_bad_pdf 2)" by (simp add: sample_bad_pdf_def)
  qed
qed (simp_all add: sample_pdf_file_def)

end
