(* ===== verification/AtsScanner.thy ===== *)
theory AtsScanner
  imports Gateway FileReader
begin

text \<open>
  The resume scanner, \<open>AtsScanner\<close> in \<open>src/components/AtsScanner.tsx\<close>.
  Its state is a record; \<open>handleScan\<close> and the drop handler \<open>onDrop\<close> await
  \<open>scanAts\<close> and \<open>readFileAsText\<close>, so each is split at its \<open>await\<close>: the
  part before appends a pending continuation, and an event settles the
  \<open>i\<close>-th pending continuation, in any order. A scan settles with the
  outcome of the gateway call for the request it recorded; a file read
  settles with \<open>readFileAsText\<close> applied to the file and a pdf.js.
  \<open>renderResult\<close> is the function \<open>ats_view\<close>; a render that throws
  (\<open>None\<close>) unmounts the scanner, and no event reaches it afterwards.
\<close>

section \<open>State and handlers\<close>

datatype ats_pending =
    is_scan: AwaitScan gen_request \<comment> \<open>\<open>await scanAts(resume, jobDescription)\<close>\<close>
  | AwaitRead file_input \<comment> \<open>\<open>await readFileAsText(file)\<close>\<close>

record ats_state =
  resume :: string
  ats_jd :: string \<comment> \<open>\<open>jobDescription\<close>\<close>
  ats_result :: "ats_scan_result option" \<comment> \<open>\<open>result\<close>\<close>
  ats_loading :: bool \<comment> \<open>\<open>isLoading\<close>\<close>
  ats_error :: "string option" \<comment> \<open>\<open>error\<close>\<close>
  ats_pending :: "ats_pending list"

definition ats_init :: ats_state where
  "ats_init = \<lparr>resume = [], ats_jd = [], ats_result = None, ats_loading = False, ats_error = None,
     ats_pending = []\<rparr>"

definition msg_no_resume :: string where
  "msg_no_resume = ''Please provide a resume to analyze.''"

definition msg_scan_failed :: string where
  "msg_scan_failed = ''Failed to scan. Please try again.''"

definition msg_read_failed :: string where
  "msg_read_failed = ''Error reading file. Please try again.''"

text \<open>\<open>const file = acceptedFiles[0]; if (file) ...\<close>\<close>

definition ats_onDrop :: "ats_state \<Rightarrow> file_input list \<Rightarrow> ats_state" where
  "ats_onDrop s acceptedFiles =
     (case acceptedFiles of
        [] \<Rightarrow> s
      | file # _ \<Rightarrow> s\<lparr>ats_pending := ats_pending s @ [AwaitRead file]\<rparr>)"

definition ats_read_settled :: "ats_state \<Rightarrow> nat \<Rightarrow> failure + string \<Rightarrow> ats_state" where
  "ats_read_settled s i r =
     (let s1 = s\<lparr>ats_pending := remove_nth i (ats_pending s)\<rparr> in
      case r of
        Inr text \<Rightarrow> s1\<lparr>resume := text\<rparr>
      | Inl _ \<Rightarrow> s1\<lparr>ats_error := Some msg_read_failed\<rparr>)"

definition handleScan :: "ats_state \<Rightarrow> ats_state" where
  "handleScan s =
     (if \<not> js_truthy (resume s) then s\<lparr>ats_error := Some msg_no_resume\<rparr>
      else s\<lparr>ats_loading := True, ats_error := None, ats_result := None,
             ats_pending := ats_pending s @ [AwaitScan (ats_request (resume s) (ats_jd s))]\<rparr>)"

definition scan_settled :: "ats_state \<Rightarrow> nat \<Rightarrow> failure + ats_scan_result \<Rightarrow> ats_state" where
  "scan_settled s i r =
     (let s1 = s\<lparr>ats_pending := remove_nth i (ats_pending s)\<rparr> in
      case r of
        Inr scanResult \<Rightarrow> s1\<lparr>ats_result := Some scanResult, ats_loading := False\<rparr>
      | Inl _ \<Rightarrow> s1\<lparr>ats_error := Some msg_scan_failed, ats_loading := False\<rparr>)"

text \<open>
  What the result area shows: the spinner while loading, else
  \<open>renderResult()\<close>. Under \<open>result.keywords && ...\<close> the match view maps
  over \<open>keywords.found\<close> (line 94) and \<open>keywords.missing\<close> (line 100); an
  absent list makes the render throw a \<open>TypeError\<close>, the \<open>None\<close> of
  \<open>keyword_view\<close> and \<open>ats_view\<close>.
\<close>

datatype ats_view =
    AtsSpinner
  | NoResult
  | MatchView int "string option" string string "(string list \<times> string list) option"
      \<comment> \<open>score, match rate, summary, suggestions, keywords found and missing\<close>
  | GeneralView string "string option" "string option" string
      \<comment> \<open>summary, strengths, weaknesses, suggestions\<close>

definition keyword_view :: "keyword_lists option \<Rightarrow> (string list \<times> string list) option option" where
  "keyword_view kw =
     (case kw of
        None \<Rightarrow> Some None
      | Some k \<Rightarrow>
          (case found k of
             None \<Rightarrow> None
           | Some f \<Rightarrow> (case missing k of None \<Rightarrow> None | Some m \<Rightarrow> Some (Some (f, m)))))"

definition ats_view :: "ats_state \<Rightarrow> ats_view option" where
  "ats_view s =
     (if ats_loading s then Some AtsSpinner
      else case ats_result s of
        None \<Rightarrow> Some NoResult
      | Some r \<Rightarrow>
          (case score r of
             Some sc \<Rightarrow> map_option (MatchView sc (matchRate r) (summary r) (suggestions r))
                          (keyword_view (ats_keywords r))
           | None \<Rightarrow> Some (GeneralView (summary r) (strengths r) (weaknesses r) (suggestions r))))"

text \<open>
  Events: the two text areas, a drop (the files the dropzone accepted), the
  scan button (disabled while loading), and the settling of the \<open>i\<close>-th
  pending continuation. \<open>ats_handle\<close> dispatches an event to its handler;
  \<open>ats_step\<close> delivers it to a mounted scanner, that is one whose last
  render did not throw.
\<close>

datatype ats_event =
    AtsSetResume string | AtsSetJD string | AtsDrop "file_input list" | ClickScan
  | ScanSettles nat "failure + ats_scan_result" | ReadSettles nat pdfjs

fun ats_handle :: "ats_state \<Rightarrow> ats_event \<Rightarrow> ats_state" where
  "ats_handle s (AtsSetResume t) = s\<lparr>resume := t\<rparr>"
| "ats_handle s (AtsSetJD t) = s\<lparr>ats_jd := t\<rparr>"
| "ats_handle s (AtsDrop fs) = ats_onDrop s fs"
| "ats_handle s ClickScan = (if ats_loading s then s else handleScan s)"
| "ats_handle s (ScanSettles i r) =
     (if i < length (ats_pending s) \<and> is_scan (ats_pending s ! i) then scan_settled s i r else s)"
| "ats_handle s (ReadSettles i getDocument) =
     (if i < length (ats_pending s)
      then (case ats_pending s ! i of
              AwaitRead file \<Rightarrow> ats_read_settled s i (readFileAsText getDocument file)
            | AwaitScan _ \<Rightarrow> s)
      else s)"

definition ats_step :: "ats_state \<Rightarrow> ats_event \<Rightarrow> ats_state option" where
  "ats_step s e = (case ats_view s of None \<Rightarrow> None | Some _ \<Rightarrow> Some (ats_handle s e))"

fun ats_run :: "ats_state \<Rightarrow> ats_event list \<Rightarrow> ats_state option" where
  "ats_run s [] = Some s"
| "ats_run s (e # es) = (case ats_step s e of None \<Rightarrow> None | Some t \<Rightarrow> ats_run t es)"

inductive ats_reachable :: "ats_state \<Rightarrow> bool" where
  init: "ats_reachable ats_init"
| step: "ats_reachable s \<Longrightarrow> ats_step s e = Some t \<Longrightarrow> ats_reachable t"

section \<open>Invariant\<close>

text \<open>At most one scan is outstanding, and exactly while the spinner shows.\<close>

definition ats_inv :: "ats_state \<Rightarrow> bool" where
  "ats_inv s \<longleftrightarrow>
     length (filter is_scan (ats_pending s)) \<le> 1
     \<and> (ats_loading s \<longleftrightarrow> filter is_scan (ats_pending s) \<noteq> [])"

lemma ats_inv_init: "ats_inv ats_init"
  by (simp add: ats_inv_def ats_init_def)

lemma ats_inv_scan: "ats_inv s \<Longrightarrow> \<not> ats_loading s \<Longrightarrow> ats_inv (handleScan s)"
  by (simp add: ats_inv_def handleScan_def)

lemma ats_inv_remove:
  assumes "ats_inv s" "i < length (ats_pending s)"
  shows "length (filter is_scan (remove_nth i (ats_pending s)))
         = length (filter is_scan (ats_pending s)) - (if is_scan (ats_pending s ! i) then 1 else 0)"
  using length_filter_remove_nth [OF assms(2), of is_scan] by simp

lemma ats_inv_scan_settled:
  "ats_inv s \<Longrightarrow> i < length (ats_pending s) \<Longrightarrow> is_scan (ats_pending s ! i) \<Longrightarrow> ats_inv (scan_settled s i r)"
  using ats_inv_remove [of s i] by (auto simp: ats_inv_def scan_settled_def Let_def split: sum.splits)

lemma ats_inv_read_settled:
  "ats_inv s \<Longrightarrow> i < length (ats_pending s) \<Longrightarrow> \<not> is_scan (ats_pending s ! i) \<Longrightarrow> ats_inv (ats_read_settled s i r)"
  using ats_inv_remove [of s i] by (auto simp: ats_inv_def ats_read_settled_def Let_def split: sum.splits)

lemma ats_inv_drop: "ats_inv s \<Longrightarrow> ats_inv (ats_onDrop s fs)"
  by (simp add: ats_inv_def ats_onDrop_def split: list.splits)

lemma ats_inv_setters:
  "ats_inv s \<Longrightarrow> ats_inv (s\<lparr>resume := t\<rparr>)" "ats_inv s \<Longrightarrow> ats_inv (s\<lparr>ats_jd := t\<rparr>)"
  by (simp_all add: ats_inv_def)

lemma ats_handle_inv: "ats_inv s \<Longrightarrow> ats_inv (ats_handle s e)"
  by (cases e) (auto intro: ats_inv_read_settled ats_inv_scan ats_inv_scan_settled ats_inv_drop ats_inv_setters
      split: ats_pending.splits)

lemma ats_step_Some: "ats_step s e = Some t \<longleftrightarrow> ats_view s \<noteq> None \<and> t = ats_handle s e"
  by (auto simp: ats_step_def split: option.splits)

lemma ats_reachable_inv: "ats_reachable s \<Longrightarrow> ats_inv s"
  by (induction rule: ats_reachable.induct) (auto simp: ats_inv_init ats_step_Some ats_handle_inv)

lemma ats_run_reachable: "ats_reachable s \<Longrightarrow> ats_run s es = Some t \<Longrightarrow> ats_reachable t"
proof (induction es arbitrary: s)
  case (Cons e es)
  then obtain u where u: "ats_step s e = Some u" and r: "ats_run u es = Some t"
    by (auto split: option.splits)
  from Cons.prems(1) u have "ats_reachable u" by (rule ats_reachable.step)
  then show ?case using r by (rule Cons.IH)
qed simp

lemma ats_reachable_run: "ats_run ats_init es \<noteq> None \<Longrightarrow> ats_reachable (the (ats_run ats_init es))"
  using ats_run_reachable [OF ats_reachable.init] by fastforce

lemma ats_run_append:
  "ats_run s (xs @ ys) = (case ats_run s xs of None \<Rightarrow> None | Some t \<Rightarrow> ats_run t ys)"
  by (induction xs arbitrary: s) (auto split: option.splits)

section \<open>Rendering\<close>

text \<open>A result renders when its keywords, if present, carry both lists.\<close>

definition keywords_complete :: "ats_scan_result \<Rightarrow> bool" where
  "keywords_complete r \<longleftrightarrow>
     (case ats_keywords r of None \<Rightarrow> True | Some k \<Rightarrow> found k \<noteq> None \<and> missing k \<noteq> None)"

definition result_renders :: "ats_state \<Rightarrow> bool" where
  "result_renders s \<longleftrightarrow> (case ats_result s of None \<Rightarrow> True | Some r \<Rightarrow> keywords_complete r)"

fun well_formed_event :: "ats_event \<Rightarrow> bool" where
  "well_formed_event (ScanSettles i (Inr r)) = keywords_complete r"
| "well_formed_event _ = True"

lemma result_renders_view: "result_renders s \<Longrightarrow> ats_view s \<noteq> None"
  by (auto simp: result_renders_def keywords_complete_def ats_view_def keyword_view_def
      split: option.splits)

lemma result_renders_handle: "result_renders s \<Longrightarrow> well_formed_event e \<Longrightarrow> result_renders (ats_handle s e)"
  by (cases e rule: well_formed_event.cases)
     (auto simp: result_renders_def handleScan_def scan_settled_def ats_read_settled_def ats_onDrop_def Let_def
      split: sum.splits list.splits ats_pending.splits)

lemma result_renders_init: "result_renders ats_init"
  by (simp add: result_renders_def ats_init_def)

definition resume_v1 :: file_input where
  "resume_v1 = \<lparr>file_type = ''text/plain'', file_read = Inr ''Resume v1''\<rparr>"

definition resume_v2 :: file_input where
  "resume_v2 = \<lparr>file_type = ''text/plain'', file_read = Inr ''Resume v2''\<rparr>"

definition no_pdfjs :: pdfjs where
  "no_pdfjs b = Inl ''pdf.js not loaded''"

definition keywords_missing_found :: ats_scan_result where
  "keywords_missing_found = \<lparr>score = Some 72, matchRate = Some ''72%'',
     ats_keywords = Some \<lparr>missing = Some [''Kubernetes''], found = None\<rparr>,
     summary = ''Good match.'', suggestions = ''Add Kubernetes.'', strengths = None, weaknesses = None\<rparr>"

section \<open>Properties\<close>

text \<open>
  C22: under any interleaving of edits, drops, clicks and settling calls, at
  most one scan is outstanding, and the spinner shows exactly while one is.
\<close>

theorem ats_single_scan:
  "ats_reachable s \<Longrightarrow>
   length (filter is_scan (ats_pending s)) \<le> 1 \<and> (ats_loading s \<longleftrightarrow> filter is_scan (ats_pending s) \<noteq> [])"
  using ats_reachable_inv [of s] by (simp add: ats_inv_def)

theorem ats_single_scan_witness:
  "length (filter is_scan (ats_pending (the (ats_run ats_init [AtsSetResume ''Jane'', ClickScan, ClickScan])))) \<le> 1
   \<and> (ats_loading (the (ats_run ats_init [AtsSetResume ''Jane'', ClickScan, ClickScan]))
       \<longleftrightarrow> filter is_scan (ats_pending (the (ats_run ats_init [AtsSetResume ''Jane'', ClickScan, ClickScan]))) \<noteq> [])"
proof -
  have "ats_run ats_init [AtsSetResume ''Jane'', ClickScan, ClickScan] \<noteq> None" by code_simp
  then show ?thesis by (rule ats_single_scan [OF ats_reachable_run])
qed

text \<open>
  Scanning with an empty resume only reports the error; otherwise the
  previous result is cleared, the spinner shows, and exactly one gateway
  request is issued: the one \<open>scanAts\<close> builds from the resume and job
  description at the time of the click.
\<close>

theorem scan_request:
  "(\<not> js_truthy (resume s) \<longrightarrow> handleScan s = s\<lparr>ats_error := Some msg_no_resume\<rparr>)
   \<and> (js_truthy (resume s) \<longrightarrow>
        ats_pending (handleScan s) = ats_pending s @ [AwaitScan (ats_request (resume s) (ats_jd s))]
        \<and> ats_result (handleScan s) = None \<and> ats_view (handleScan s) = Some AtsSpinner)"
  by (simp add: handleScan_def ats_view_def)

theorem scan_request_witness:
  "ats_pending (handleScan (ats_init\<lparr>resume := ''Jane''\<rparr>)) = [AwaitScan (ats_request ''Jane'' [])]"
  using scan_request [of "ats_init\<lparr>resume := ''Jane''\<rparr>"] by (simp add: ats_init_def)

text \<open>
  C23: the scanner throws only on an incomplete keywords object: in any run
  in which every scan reply that arrives carries, when it has keywords,
  both the found and the missing list, no render throws and every event is
  delivered.
\<close>

theorem ats_renders_complete_replies:
  "\<forall>e \<in> set es. well_formed_event e \<Longrightarrow> ats_run ats_init es \<noteq> None"
proof -
  have "result_renders s \<Longrightarrow> \<forall>e \<in> set es. well_formed_event e \<Longrightarrow> ats_run s es \<noteq> None" for s
  proof (induction es arbitrary: s)
    case (Cons e es)
    then have "ats_step s e = Some (ats_handle s e)" by (simp add: ats_step_Some result_renders_view)
    with Cons show ?case by (simp add: result_renders_handle)
  qed simp
  then show "\<forall>e \<in> set es. well_formed_event e \<Longrightarrow> ats_run ats_init es \<noteq> None"
    by (simp add: result_renders_init)
qed

theorem ats_renders_complete_replies_witness:
  "ats_run ats_init [AtsSetResume ''Jane'', AtsSetJD ''SRE'', ClickScan,
     ScanSettles 0 (Inr (keywords_missing_found\<lparr>ats_keywords := None\<rparr>))] \<noteq> None"
proof -
  have "\<forall>e \<in> set [AtsSetResume ''Jane'', AtsSetJD ''SRE'', ClickScan,
     ScanSettles 0 (Inr (keywords_missing_found\<lparr>ats_keywords := None\<rparr>))]. well_formed_event e"
    by (simp add: keywords_complete_def)
  then show ?thesis by (rule ats_renders_complete_replies)
qed

text \<open>
  C24: a job-match reply whose keywords object lacks a list crashes the
  scanner: from any reachable state with a scan outstanding, when it
  settles with a result that has a score and keywords without the found or
  the missing list, the result is stored, the next render throws, and no
  later event reaches the scanner.
\<close>

theorem ats_incomplete_keywords_throw:
  assumes r: "ats_reachable s" and i: "i < length (ats_pending s)" "is_scan (ats_pending s ! i)"
    and sc: "score res \<noteq> None" and kw: "ats_keywords res = Some k" and gap: "found k = None \<or> missing k = None"
  shows "\<exists>t. ats_step s (ScanSettles i (Inr res)) = Some t \<and> ats_result t = Some res \<and> (\<forall>e. ats_step t e = None)"
proof -
  from r have "ats_inv s" by (rule ats_reachable_inv)
  with i have "ats_loading s" by (auto simp: ats_inv_def filter_empty_conv)
  then have v: "ats_view s = Some AtsSpinner" by (simp add: ats_view_def)
  let ?t = "scan_settled s i (Inr res)"
  have "ats_view ?t = None"
    using sc kw gap by (auto simp: ats_view_def scan_settled_def keyword_view_def Let_def split: option.split)
  then have "\<forall>e. ats_step ?t e = None" by (simp add: ats_step_def)
  moreover have "ats_step s (ScanSettles i (Inr res)) = Some ?t" using v i by (simp add: ats_step_def)
  moreover have "ats_result ?t = Some res" by (simp add: scan_settled_def Let_def)
  ultimately show ?thesis by blast
qed

theorem ats_incomplete_keywords_throw_witness:
  "ats_run ats_init [AtsSetResume ''Jane'', AtsSetJD ''SRE'', ClickScan, ScanSettles 0 (Inr keywords_missing_found),
     AtsSetJD []] = None"
proof -
  let ?es = "[AtsSetResume ''Jane'', AtsSetJD ''SRE'', ClickScan]"
  let ?s = "ats_init\<lparr>resume := ''Jane'', ats_jd := ''SRE'', ats_loading := True,
     ats_pending := [AwaitScan (ats_request ''Jane'' ''SRE'')]\<rparr>"
  have s: "ats_run ats_init ?es = Some ?s" by code_simp
  have "\<exists>t. ats_step ?s (ScanSettles 0 (Inr keywords_missing_found)) = Some t
        \<and> ats_result t = Some keywords_missing_found \<and> (\<forall>e. ats_step t e = None)"
    by (rule ats_incomplete_keywords_throw [OF ats_run_reachable [OF ats_reachable.init s],
          where k = "\<lparr>missing = Some [''Kubernetes''], found = None\<rparr>"])
       (simp_all add: keywords_missing_found_def)
  then obtain t where t: "ats_step ?s (ScanSettles 0 (Inr keywords_missing_found)) = Some t"
    and none: "ats_step t (AtsSetJD []) = None" by blast
  have "ats_run ?s [ScanSettles 0 (Inr keywords_missing_found), AtsSetJD []] = None"
    using t none by simp
  then have "ats_run ats_init (?es @ [ScanSettles 0 (Inr keywords_missing_found), AtsSetJD []]) = None"
    by (simp only: ats_run_append s option.case)
  then show ?thesis by (simp only: append.simps)
qed

text \<open>
  C25: file reads are not ordered: from any state, when a second resume is
  dropped before the first has been read and the first read finishes last
  with some text, the resume field ends with that older text, whatever the
  outcome of the newer read.
\<close>

theorem ats_read_race:
  "readFileAsText g f1 = Inr x1 \<Longrightarrow>
   resume (ats_handle (ats_handle (ats_handle (ats_handle s (AtsDrop [f1])) (AtsDrop [f2]))
     (ReadSettles (Suc (length (ats_pending s))) g')) (ReadSettles (length (ats_pending s)) g)) = x1"
  by (simp add: ats_onDrop_def ats_read_settled_def Let_def nth_append split: sum.split)

theorem ats_read_race_witness:
  "resume (ats_handle (ats_handle (ats_handle (ats_handle ats_init (AtsDrop [resume_v1])) (AtsDrop [resume_v2]))
     (ReadSettles 1 no_pdfjs)) (ReadSettles 0 no_pdfjs)) = ''Resume v1''"
proof -
  have "readFileAsText no_pdfjs resume_v1 = Inr ''Resume v1''" by code_simp
  from ats_read_race [OF this, of ats_init resume_v2 no_pdfjs] show ?thesis by (simp add: ats_init_def)
qed

end
