(* ===== verification/Roadmap.thy ===== *)
theory Roadmap
  imports Gateway
begin

text \<open>
  The roadmap generator, \<open>RoadmapGenerator\<close> in
  \<open>src/components/RoadmapGenerator.tsx\<close>. One handler, \<open>handleGenerate\<close>,
  split at its \<open>await generateRoadmap(topic)\<close>: the part before records
  the gateway request, an event settles the \<open>i\<close>-th outstanding call.
\<close>

record roadmap_state =
  rm_topic :: string \<comment> \<open>\<open>topic\<close>\<close>
  rm_roadmap :: "roadmap option" \<comment> \<open>\<open>roadmap\<close>\<close>
  rm_loading :: bool \<comment> \<open>\<open>isLoading\<close>\<close>
  rm_error :: "string option" \<comment> \<open>\<open>error\<close>\<close>
  rm_pending :: "gen_request list" \<comment> \<open>\<open>generateRoadmap\<close> calls not yet settled\<close>

definition rm_init :: roadmap_state where
  "rm_init = \<lparr>rm_topic = [], rm_roadmap = None, rm_loading = False, rm_error = None, rm_pending = []\<rparr>"

definition msg_rm_topic :: string where
  "msg_rm_topic = ''Please enter a topic.''"

definition msg_rm_failed :: string where
  "msg_rm_failed = ''Failed to generate roadmap. Please try again.''"

definition rm_handleGenerate :: "roadmap_state \<Rightarrow> roadmap_state" where
  "rm_handleGenerate s =
     (if \<not> js_truthy (rm_topic s) then s\<lparr>rm_error := Some msg_rm_topic\<rparr>
      else s\<lparr>rm_loading := True, rm_error := None, rm_roadmap := None,
             rm_pending := rm_pending s @ [roadmap_request (rm_topic s)]\<rparr>)"

definition rm_settled :: "roadmap_state \<Rightarrow> nat \<Rightarrow> failure + roadmap \<Rightarrow> roadmap_state" where
  "rm_settled s i r =
     (let s1 = s\<lparr>rm_pending := remove_nth i (rm_pending s)\<rparr> in
      case r of
        Inr result \<Rightarrow> s1\<lparr>rm_roadmap := Some result, rm_loading := False\<rparr>
      | Inl _ \<Rightarrow> s1\<lparr>rm_error := Some msg_rm_failed, rm_loading := False\<rparr>)"

text \<open>The input, the generate button (disabled while loading), and a settling call.\<close>

datatype rm_event = RmSetTopic string | RmClickGenerate | RmSettles nat "failure + roadmap"

fun rm_step :: "roadmap_state \<Rightarrow> rm_event \<Rightarrow> roadmap_state" where
  "rm_step s (RmSetTopic t) = s\<lparr>rm_topic := t\<rparr>"
| "rm_step s RmClickGenerate = (if rm_loading s then s else rm_handleGenerate s)"
| "rm_step s (RmSettles i r) = (if i < length (rm_pending s) then rm_settled s i r else s)"

definition rm_run :: "roadmap_state \<Rightarrow> rm_event list \<Rightarrow> roadmap_state" where
  "rm_run s es = fold (\<lambda>e s. rm_step s e) es s"

inductive rm_reachable :: "roadmap_state \<Rightarrow> bool" where
  init: "rm_reachable rm_init"
| step: "rm_reachable s \<Longrightarrow> rm_reachable (rm_step s e)"

section \<open>Invariant\<close>

definition rm_inv :: "roadmap_state \<Rightarrow> bool" where
  "rm_inv s \<longleftrightarrow>
     length (rm_pending s) \<le> 1 \<and> (rm_loading s \<longleftrightarrow> rm_pending s \<noteq> [])
     \<and> (rm_loading s \<longrightarrow> rm_roadmap s = None)"

lemma rm_inv_init: "rm_inv rm_init"
  by (simp add: rm_inv_def rm_init_def)

lemma rm_inv_generate: "rm_inv s \<Longrightarrow> \<not> rm_loading s \<Longrightarrow> rm_inv (rm_handleGenerate s)"
  by (simp add: rm_inv_def rm_handleGenerate_def)

lemma rm_inv_settled: "rm_inv s \<Longrightarrow> i < length (rm_pending s) \<Longrightarrow> rm_inv (rm_settled s i r)"
  by (auto simp: rm_inv_def rm_settled_def remove_nth_def Let_def split: sum.splits)

lemma rm_inv_set_topic: "rm_inv s \<Longrightarrow> rm_inv (s\<lparr>rm_topic := t\<rparr>)"
  by (simp add: rm_inv_def)

lemma rm_step_inv: "rm_inv s \<Longrightarrow> rm_inv (rm_step s e)"
  by (cases e) (simp_all add: rm_inv_generate rm_inv_settled rm_inv_set_topic)

lemma rm_reachable_inv: "rm_reachable s \<Longrightarrow> rm_inv s"
  by (induction rule: rm_reachable.induct) (simp_all add: rm_inv_init rm_step_inv)

lemma rm_run_reachable: "rm_reachable s \<Longrightarrow> rm_reachable (rm_run s es)"
  by (induction es arbitrary: s) (simp_all add: rm_run_def rm_reachable.step)

section \<open>Properties\<close>

text \<open>
  C26: under any sequence of edits, clicks and settling calls, at most one
  \<open>generateRoadmap\<close> call is outstanding, exactly while the spinner shows,
  and no roadmap is shown under the spinner.
\<close>

theorem roadmap_single_request:
  "rm_reachable s \<Longrightarrow>
   length (rm_pending s) \<le> 1 \<and> (rm_loading s \<longleftrightarrow> rm_pending s \<noteq> []) \<and> (rm_loading s \<longrightarrow> rm_roadmap s = None)"
  using rm_reachable_inv [of s] by (simp add: rm_inv_def)

theorem roadmap_single_request_witness:
  "rm_loading (rm_run rm_init [RmSetTopic ''Rust'', RmClickGenerate, RmClickGenerate])
   \<and> length (rm_pending (rm_run rm_init [RmSetTopic ''Rust'', RmClickGenerate, RmClickGenerate])) = 1
   \<and> rm_roadmap (rm_run rm_init [RmSetTopic ''Rust'', RmClickGenerate, RmClickGenerate]) = None"
proof -
  let ?s = "rm_run rm_init [RmSetTopic ''Rust'', RmClickGenerate, RmClickGenerate]"
  have r: "rm_reachable ?s" by (rule rm_run_reachable [OF rm_reachable.init])
  have l: "rm_loading ?s" by code_simp
  from roadmap_single_request [OF r] l
  have "length (rm_pending ?s) \<le> 1 \<and> rm_pending ?s \<noteq> [] \<and> rm_roadmap ?s = None" by simp
  with l show ?thesis by (cases "rm_pending ?s") auto
qed

end
