(* ===== verification/Quiz.thy ===== *)
theory Quiz
  imports Gateway
begin

text \<open>
  The quiz flow, \<open>Quiz\<close> in \<open>src/components/Quiz.tsx\<close>. The component's
  state is a record; each handler is a function on it. \<open>handleGenerate\<close>
  awaits \<open>generateQuiz\<close>, so it is split into the part before the
  \<open>await\<close> and the continuation that runs when the call settles; the number
  of outstanding calls is kept in the state. \<open>handleAnswerSelect\<close> reads
  \<open>questions[currentQuestionIndex].answer\<close>, which throws a \<open>TypeError\<close>
  when the index is out of range: that handler returns \<open>None\<close> then.
  Events are the controls of the view the state renders (setup form, current
  question, results) and the settling of a pending call.
\<close>

section \<open>State and handlers\<close>

record quiz_state =
  topic :: string
  numQuestions :: nat
  difficulty :: string
  questions :: "quiz_question list"
  currentQuestionIndex :: nat
  selectedAnswer :: "string option"
  quiz_score :: nat \<comment> \<open>\<open>score\<close>\<close>
  showResults :: bool
  quiz_loading :: bool \<comment> \<open>\<open>isLoading\<close>\<close>
  quiz_error :: "string option" \<comment> \<open>\<open>error\<close>\<close>
  isAnswered :: bool
  quiz_pending :: "gen_request list" \<comment> \<open>\<open>generateQuiz\<close> calls not yet settled\<close>

definition quiz_init :: quiz_state where
  "quiz_init = \<lparr>topic = [], numQuestions = 5, difficulty = ''Medium'', questions = [],
     currentQuestionIndex = 0, selectedAnswer = None, quiz_score = 0, showResults = False,
     quiz_loading = False, quiz_error = None, isAnswered = False, quiz_pending = []\<rparr>"

definition msg_enter_topic :: string where
  "msg_enter_topic = ''Please enter a topic.''"

definition msg_quiz_failed :: string where
  "msg_quiz_failed = ''Failed to generate quiz. Please try again.''"

definition handleGenerate :: "quiz_state \<Rightarrow> quiz_state" where
  "handleGenerate s =
     (if \<not> js_truthy (topic s) then s\<lparr>quiz_error := Some msg_enter_topic\<rparr>
      else s\<lparr>quiz_loading := True, quiz_error := None, questions := [], showResults := False,
             quiz_score := 0, currentQuestionIndex := 0,
             quiz_pending := quiz_pending s @ [quiz_request (topic s) (numQuestions s) (difficulty s)]\<rparr>)"

definition generate_settled :: "quiz_state \<Rightarrow> failure + quiz_question list \<Rightarrow> quiz_state" where
  "generate_settled s r =
     (let s1 = s\<lparr>quiz_pending := tl (quiz_pending s)\<rparr> in
      case r of
        Inr result \<Rightarrow> s1\<lparr>questions := result, quiz_loading := False\<rparr>
      | Inl _ \<Rightarrow> s1\<lparr>quiz_error := Some msg_quiz_failed, quiz_loading := False\<rparr>)"

definition handleAnswerSelect :: "quiz_state \<Rightarrow> string \<Rightarrow> quiz_state option" where
  "handleAnswerSelect s option =
     (if isAnswered s then Some s
      else if currentQuestionIndex s < length (questions s)
      then Some (s\<lparr>selectedAnswer := Some option, isAnswered := True,
                   quiz_score := (if option = answer (questions s ! currentQuestionIndex s)
                                  then Suc (quiz_score s) else quiz_score s)\<rparr>)
      else None)"

text \<open>\<open>currentQuestionIndex < questions.length - 1\<close> compares JavaScript numbers: no truncation at 0.\<close>

definition handleNextQuestion :: "quiz_state \<Rightarrow> quiz_state" where
  "handleNextQuestion s =
     (let s1 = s\<lparr>isAnswered := False, selectedAnswer := None\<rparr> in
      if int (currentQuestionIndex s) < int (length (questions s)) - 1
      then s1\<lparr>currentQuestionIndex := Suc (currentQuestionIndex s)\<rparr>
      else s1\<lparr>showResults := True\<rparr>)"

definition handleRestart :: "quiz_state \<Rightarrow> quiz_state" where
  "handleRestart s =
     s\<lparr>questions := [], showResults := False, quiz_score := 0, currentQuestionIndex := 0, topic := []\<rparr>"

datatype quiz_event =
    SetTopic string | SetNum nat | SetDifficulty string | ClickGenerate
  | GenerateSettles "failure + quiz_question list"
  | SelectOption string | ClickNext | ClickRestart

text \<open>
  What the component renders: the setup form while \<open>questions\<close> is
  empty, otherwise \<open>renderQuiz\<close>, which shows the results card or the
  card of \<open>questions[currentQuestionIndex]\<close>. Reading
  \<open>currentQuestion.question\<close> of an index out of range throws a
  \<open>TypeError\<close>, so rendering is \<open>None\<close> there and the component is gone.
\<close>

datatype quiz_view =
    SetupForm
  | QuestionCard quiz_question bool \<comment> \<open>the current question and \<open>isAnswered\<close>\<close>
  | ResultsCard nat nat \<comment> \<open>\<open>score\<close> and \<open>questions.length\<close>\<close>

definition renderQuiz :: "quiz_state \<Rightarrow> quiz_view option" where
  "renderQuiz s =
     (if questions s = [] then Some SetupForm
      else if showResults s then Some (ResultsCard (quiz_score s) (length (questions s)))
      else if currentQuestionIndex s < length (questions s)
      then Some (QuestionCard (questions s ! currentQuestionIndex s) (isAnswered s))
      else None)"

text \<open>
  The controls of each view: option buttons exist for the options of the
  current question and are disabled once answered; the next button exists
  only once answered; the start button is disabled while loading; the
  number-of-questions select offers 5, 10 and 15.
\<close>

fun quiz_control :: "quiz_view \<Rightarrow> quiz_state \<Rightarrow> quiz_event \<Rightarrow> quiz_state option" where
  "quiz_control SetupForm s (SetTopic t) = Some (s\<lparr>topic := t\<rparr>)"
| "quiz_control SetupForm s (SetNum n) = Some (if n \<in> {5, 10, 15} then s\<lparr>numQuestions := n\<rparr> else s)"
| "quiz_control SetupForm s (SetDifficulty d) = Some (s\<lparr>difficulty := d\<rparr>)"
| "quiz_control SetupForm s ClickGenerate = Some (if \<not> quiz_loading s then handleGenerate s else s)"
| "quiz_control (QuestionCard q answered) s (SelectOption o') =
     (if \<not> answered \<and> o' \<in> set (options q) then handleAnswerSelect s o' else Some s)"
| "quiz_control (QuestionCard q answered) s ClickNext = Some (if answered then handleNextQuestion s else s)"
| "quiz_control (ResultsCard sc n) s ClickRestart = Some (handleRestart s)"
| "quiz_control v s e = Some s"

text \<open>A pending \<open>generateQuiz\<close> call settles independently of the view.\<close>

definition quiz_step :: "quiz_state \<Rightarrow> quiz_event \<Rightarrow> quiz_state option" where
  "quiz_step s e =
     (case renderQuiz s of
        None \<Rightarrow> None
      | Some v \<Rightarrow>
          (case e of
             GenerateSettles r \<Rightarrow> Some (if quiz_pending s \<noteq> [] then generate_settled s r else s)
           | _ \<Rightarrow> quiz_control v s e))"

fun quiz_run :: "quiz_state \<Rightarrow> quiz_event list \<Rightarrow> quiz_state option" where
  "quiz_run s [] = Some s"
| "quiz_run s (e # es) = (case quiz_step s e of None \<Rightarrow> None | Some t \<Rightarrow> quiz_run t es)"

definition optionless_question :: quiz_question where
  "optionless_question = \<lparr>question = ''Explain closures.'', options = [], answer = [], explanation = []\<rparr>"

definition sample_question :: quiz_question where
  "sample_question = \<lparr>question = ''2 + 2?'', options = [''3'', ''4'', ''5'', ''22''], answer = ''4'',
     explanation = ''Addition.''\<rparr>"

inductive quiz_reachable :: "quiz_state \<Rightarrow> bool" where
  init: "quiz_reachable quiz_init"
| step: "quiz_reachable s \<Longrightarrow> quiz_step s e = Some t \<Longrightarrow> quiz_reachable t"

section \<open>Invariant\<close>

definition quiz_inv :: "quiz_state \<Rightarrow> bool" where
  "quiz_inv s \<longleftrightarrow>
     (questions s \<noteq> [] \<longrightarrow> currentQuestionIndex s < length (questions s))
     \<and> quiz_score s \<le> currentQuestionIndex s + (if isAnswered s \<or> showResults s then 1 else 0)
     \<and> (showResults s \<longrightarrow> \<not> isAnswered s)
     \<and> (questions s = [] \<longrightarrow> \<not> isAnswered s \<and> \<not> showResults s \<and> currentQuestionIndex s = 0
                           \<and> quiz_score s = 0)
     \<and> length (quiz_pending s) \<le> 1
     \<and> (quiz_pending s \<noteq> [] \<longrightarrow> quiz_loading s \<and> questions s = [])
     \<and> numQuestions s \<in> {5, 10, 15}"

lemma quiz_inv_init: "quiz_inv quiz_init"
  by (simp add: quiz_inv_def quiz_init_def)

lemma quiz_inv_generate:
  "quiz_inv s \<Longrightarrow> questions s = [] \<Longrightarrow> \<not> quiz_loading s \<Longrightarrow> quiz_inv (handleGenerate s)"
  by (auto simp: quiz_inv_def handleGenerate_def)

lemma quiz_inv_settled: "quiz_inv s \<Longrightarrow> quiz_pending s \<noteq> [] \<Longrightarrow> quiz_inv (generate_settled s r)"
  by (cases "quiz_pending s") (auto simp: quiz_inv_def generate_settled_def Let_def split: sum.splits)

lemma quiz_inv_answer:
  "quiz_inv s \<Longrightarrow> \<not> isAnswered s \<Longrightarrow> \<not> showResults s \<Longrightarrow> handleAnswerSelect s o' = Some t \<Longrightarrow> quiz_inv t"
  by (auto simp: quiz_inv_def handleAnswerSelect_def split: if_splits)

lemma quiz_inv_next:
  "quiz_inv s \<Longrightarrow> questions s \<noteq> [] \<Longrightarrow> isAnswered s \<Longrightarrow> quiz_inv (handleNextQuestion s)"
  by (auto simp: quiz_inv_def handleNextQuestion_def Let_def)

lemma quiz_inv_restart: "quiz_inv s \<Longrightarrow> showResults s \<Longrightarrow> quiz_inv (handleRestart s)"
  by (auto simp: quiz_inv_def handleRestart_def)

lemma quiz_inv_setters:
  "quiz_inv s \<Longrightarrow> quiz_inv (s\<lparr>topic := x\<rparr>)" "quiz_inv s \<Longrightarrow> n \<in> {5, 10, 15} \<Longrightarrow> quiz_inv (s\<lparr>numQuestions := n\<rparr>)"
  "quiz_inv s \<Longrightarrow> quiz_inv (s\<lparr>difficulty := x\<rparr>)"
  by (simp_all add: quiz_inv_def)

lemma quiz_step_inv: "quiz_inv s \<Longrightarrow> quiz_step s e = Some t \<Longrightarrow> quiz_inv t"
  by (cases e) (auto simp: quiz_step_def renderQuiz_def split: if_splits intro: quiz_inv_generate quiz_inv_settled quiz_inv_answer
      quiz_inv_next quiz_inv_restart quiz_inv_setters)

lemma quiz_reachable_inv: "quiz_reachable s \<Longrightarrow> quiz_inv s"
  by (induction rule: quiz_reachable.induct) (auto simp: quiz_inv_init dest: quiz_step_inv)

lemma quiz_run_reachable: "quiz_reachable s \<Longrightarrow> quiz_run s es = Some t \<Longrightarrow> quiz_reachable t"
proof (induction es arbitrary: s)
  case (Cons e es)
  then obtain u where u: "quiz_step s e = Some u" and r: "quiz_run u es = Some t"
    by (auto split: option.splits)
  from Cons.prems(1) u have "quiz_reachable u" by (rule quiz_reachable.step)
  then show ?case using r by (rule Cons.IH)
qed simp

text \<open>A run from the initial state that does not throw ends in a reachable state.\<close>

lemma quiz_reachable_run: "quiz_run quiz_init es \<noteq> None \<Longrightarrow> quiz_reachable (the (quiz_run quiz_init es))"
  using quiz_run_reachable [OF quiz_reachable.init] by fastforce

section \<open>Completing a quiz\<close>

text \<open>
  The events of a user who answers each remaining question with its first
  option and moves on: for an answered current question only the next
  button, otherwise an option and then the next button.
\<close>

definition answer_events :: "quiz_question \<Rightarrow> quiz_event list" where
  "answer_events q = [SelectOption (hd (options q)), ClickNext]"

definition finish_plan :: "quiz_state \<Rightarrow> quiz_event list" where
  "finish_plan s =
     (if isAnswered s then [ClickNext] else answer_events (questions s ! currentQuestionIndex s))
     @ concat (map answer_events (drop (Suc (currentQuestionIndex s)) (questions s)))"

lemma quiz_run_append:
  "quiz_run s (xs @ ys) = (case quiz_run s xs of None \<Rightarrow> None | Some t \<Rightarrow> quiz_run t ys)"
  by (induction xs arbitrary: s) (simp_all split: option.split)

lemma quiz_select_step:
  assumes "questions s \<noteq> []" "\<not> showResults s" "\<not> isAnswered s"
    "currentQuestionIndex s < length (questions s)" "o' \<in> set (options (questions s ! currentQuestionIndex s))"
  shows "\<exists>t. quiz_step s (SelectOption o') = Some t \<and> isAnswered t \<and> \<not> showResults t
           \<and> questions t = questions s \<and> currentQuestionIndex t = currentQuestionIndex s"
  using assms by (simp add: quiz_step_def renderQuiz_def handleAnswerSelect_def)

lemma quiz_next_step:
  "questions s \<noteq> [] \<Longrightarrow> \<not> showResults s \<Longrightarrow> isAnswered s \<Longrightarrow> currentQuestionIndex s < length (questions s)
   \<Longrightarrow> quiz_step s ClickNext = Some (handleNextQuestion s)"
  by (simp add: quiz_step_def renderQuiz_def)

lemma quiz_finish_answered:
  "isAnswered s \<Longrightarrow> \<not> showResults s \<Longrightarrow> currentQuestionIndex s < length (questions s)
   \<Longrightarrow> \<forall>q \<in> set (questions s). options q \<noteq> []
   \<Longrightarrow> \<exists>t. quiz_run s (ClickNext # concat (map answer_events (drop (Suc (currentQuestionIndex s)) (questions s))))
            = Some t \<and> showResults t"
proof (induction "length (questions s) - currentQuestionIndex s" arbitrary: s rule: less_induct)
  case less
  let ?i = "currentQuestionIndex s" and ?qs = "questions s"
  have ne: "?qs \<noteq> []" using less.prems(3) by auto
  have nx: "quiz_step s ClickNext = Some (handleNextQuestion s)"
    using ne less.prems by (simp add: quiz_next_step)
  show ?case
  proof (cases "Suc ?i < length ?qs")
    case False
    then have "drop (Suc ?i) ?qs = []" by simp
    moreover have "showResults (handleNextQuestion s)" using False by (simp add: handleNextQuestion_def Let_def)
    ultimately show ?thesis using nx by simp
  next
    case True
    let ?s1 = "handleNextQuestion s"
    have s1: "questions ?s1 = ?qs" "currentQuestionIndex ?s1 = Suc ?i" "\<not> isAnswered ?s1" "\<not> showResults ?s1"
      using True less.prems(2) by (simp_all add: handleNextQuestion_def Let_def)
    have d: "drop (Suc ?i) ?qs = ?qs ! Suc ?i # drop (Suc (Suc ?i)) ?qs"
      using True by (simp add: Cons_nth_drop_Suc)
    have "options (?qs ! Suc ?i) \<noteq> []" using True less.prems(4) by simp
    then have "hd (options (?qs ! Suc ?i)) \<in> set (options (?qs ! Suc ?i))" by simp
    then obtain t where t: "quiz_step ?s1 (SelectOption (hd (options (?qs ! Suc ?i)))) = Some t"
      and ta: "isAnswered t" "\<not> showResults t" "questions t = ?qs" "currentQuestionIndex t = Suc ?i"
      using quiz_select_step [of ?s1] s1 ne True by auto
    have "\<exists>u. quiz_run t (ClickNext # concat (map answer_events (drop (Suc (currentQuestionIndex t)) (questions t))))
              = Some u \<and> showResults u"
      using less.prems(4) True ta by (intro less.hyps) simp_all
    then show ?thesis using nx t ta d by (simp add: answer_events_def)
  qed
qed

section \<open>Properties\<close>

text \<open>
  Whenever the results are shown, the score is at most the number of
  questions.
\<close>

theorem quiz_score_bounded:
  "quiz_reachable s \<Longrightarrow> showResults s \<Longrightarrow> quiz_score s \<le> length (questions s)"
proof -
  assume r: "quiz_reachable s" and sr: "showResults s"
  from r have i: "quiz_inv s" by (rule quiz_reachable_inv)
  with sr have "questions s \<noteq> []" by (auto simp: quiz_inv_def)
  with i sr show ?thesis by (auto simp: quiz_inv_def)
qed

theorem quiz_score_bounded_witness:
  "quiz_reachable (the (quiz_run quiz_init
      [SetTopic ''Arithmetic'', ClickGenerate, GenerateSettles (Inr [sample_question]),
       SelectOption ''4'', ClickNext]))
   \<and> showResults (the (quiz_run quiz_init
      [SetTopic ''Arithmetic'', ClickGenerate, GenerateSettles (Inr [sample_question]),
       SelectOption ''4'', ClickNext]))
   \<and> quiz_score (the (quiz_run quiz_init
      [SetTopic ''Arithmetic'', ClickGenerate, GenerateSettles (Inr [sample_question]),
       SelectOption ''4'', ClickNext])) \<le> 1"
proof -
  let ?es = "[SetTopic ''Arithmetic'', ClickGenerate, GenerateSettles (Inr [sample_question]),
       SelectOption ''4'', ClickNext]"
  have r: "quiz_reachable (the (quiz_run quiz_init ?es))" by (rule quiz_reachable_run) code_simp
  have sr: "showResults (the (quiz_run quiz_init ?es))" by code_simp
  have l: "length (questions (the (quiz_run quiz_init ?es))) = 1" by code_simp
  show ?thesis using r sr quiz_score_bounded [OF r sr] l by simp
qed

lemma quiz_inv_renders: "quiz_inv s \<Longrightarrow> renderQuiz s \<noteq> None"
  by (simp add: quiz_inv_def renderQuiz_def)

lemma quiz_control_total: "quiz_inv s \<Longrightarrow> renderQuiz s = Some v \<Longrightarrow> quiz_control v s e \<noteq> None"
  by (cases e) (auto simp: renderQuiz_def handleAnswerSelect_def split: if_splits)

lemma quiz_inv_step_total: "quiz_inv s \<Longrightarrow> quiz_step s e \<noteq> None"
proof -
  assume i: "quiz_inv s"
  then obtain v where v: "renderQuiz s = Some v" using quiz_inv_renders by blast
  have "quiz_control v s e \<noteq> None" by (rule quiz_control_total [OF i v])
  with v show ?thesis by (cases e) (simp_all add: quiz_step_def)
qed

text \<open>
  C18: in every reachable state the quiz renders without a \<open>TypeError\<close>
  (the current question exists whenever its card is shown), and no control
  of the rendered view and no settling call makes a handler throw.
\<close>

theorem quiz_never_throws: "quiz_reachable s \<Longrightarrow> renderQuiz s \<noteq> None \<and> quiz_step s e \<noteq> None"
proof -
  assume "quiz_reachable s"
  then have "quiz_inv s" by (rule quiz_reachable_inv)
  then show ?thesis by (simp add: quiz_inv_renders quiz_inv_step_total)
qed

theorem quiz_never_throws_witness:
  "renderQuiz (the (quiz_run quiz_init [SetTopic ''Arithmetic'', ClickGenerate, GenerateSettles (Inr [sample_question])])) \<noteq> None
   \<and> quiz_step (the (quiz_run quiz_init [SetTopic ''Arithmetic'', ClickGenerate, GenerateSettles (Inr [sample_question])]))
     (SelectOption ''3'') \<noteq> None"
proof -
  let ?es = "[SetTopic ''Arithmetic'', ClickGenerate, GenerateSettles (Inr [sample_question])]"
  have r: "quiz_reachable (the (quiz_run quiz_init ?es))" by (rule quiz_reachable_run) code_simp
  show ?thesis by (rule quiz_never_throws [OF r])
qed

text \<open>
  A question is answered at most once: once an answer is recorded,
  selecting another option changes nothing, so the score grows by at most
  one per question.
\<close>

theorem answer_once: "isAnswered s \<Longrightarrow> handleAnswerSelect s o' = Some s"
  by (simp add: handleAnswerSelect_def)

theorem answer_once_witness:
  "handleAnswerSelect (quiz_init\<lparr>isAnswered := True\<rparr>) ''4'' = Some (quiz_init\<lparr>isAnswered := True\<rparr>)"
  by (rule answer_once) simp

text \<open>
  C19: generating with an empty topic only reports the error; with a topic,
  the quiz state is reset and one \<open>generateQuiz\<close> request for the chosen
  topic, count and difficulty is issued.
\<close>

theorem generate_quiz_request:
  "(\<not> js_truthy (topic s) \<longrightarrow> handleGenerate s = s\<lparr>quiz_error := Some msg_enter_topic\<rparr>)
   \<and> (js_truthy (topic s) \<longrightarrow>
        quiz_pending (handleGenerate s) = quiz_pending s @ [quiz_request (topic s) (numQuestions s) (difficulty s)]
        \<and> questions (handleGenerate s) = [] \<and> quiz_score (handleGenerate s) = 0
        \<and> currentQuestionIndex (handleGenerate s) = 0 \<and> \<not> showResults (handleGenerate s))"
  by (simp add: handleGenerate_def)

theorem generate_quiz_request_witness:
  "quiz_pending (handleGenerate (quiz_init\<lparr>topic := ''Arrays''\<rparr>)) = [quiz_request ''Arrays'' 5 ''Medium'']"
  using generate_quiz_request [of "quiz_init\<lparr>topic := ''Arrays''\<rparr>"] by (simp add: quiz_init_def)

text \<open>
  C17: the quiz's counters stay within their bounds in every reachable
  state: the question count is one the select offers, the index points at
  an existing question, and the score exceeds neither the questions seen
  nor, once the results show, the number of questions.
\<close>

theorem quiz_bounds:
  "quiz_reachable s \<Longrightarrow>
   numQuestions s \<in> {5, 10, 15}
   \<and> (questions s \<noteq> [] \<longrightarrow> currentQuestionIndex s < length (questions s))
   \<and> quiz_score s \<le> Suc (currentQuestionIndex s)
   \<and> (showResults s \<longrightarrow> quiz_score s \<le> length (questions s))"
proof -
  assume "quiz_reachable s"
  then have i: "quiz_inv s" by (rule quiz_reachable_inv)
  then have "showResults s \<longrightarrow> questions s \<noteq> []" by (auto simp: quiz_inv_def)
  with i show ?thesis by (auto simp: quiz_inv_def split: if_splits)
qed

theorem quiz_bounds_witness:
  "numQuestions (the (quiz_run quiz_init
      [SetTopic ''Arithmetic'', ClickGenerate, GenerateSettles (Inr [sample_question]), SelectOption ''4'', ClickNext]))
     \<in> {5, 10, 15}
   \<and> quiz_score (the (quiz_run quiz_init
      [SetTopic ''Arithmetic'', ClickGenerate, GenerateSettles (Inr [sample_question]), SelectOption ''4'', ClickNext]))
     \<le> length (questions (the (quiz_run quiz_init
      [SetTopic ''Arithmetic'', ClickGenerate, GenerateSettles (Inr [sample_question]), SelectOption ''4'', ClickNext])))"
proof -
  let ?es = "[SetTopic ''Arithmetic'', ClickGenerate, GenerateSettles (Inr [sample_question]), SelectOption ''4'', ClickNext]"
  have r: "quiz_reachable (the (quiz_run quiz_init ?es))" by (rule quiz_reachable_run) code_simp
  have sr: "showResults (the (quiz_run quiz_init ?es))" by code_simp
  show ?thesis using quiz_bounds [OF r] sr by simp
qed

text \<open>
  C15: a loaded quiz can always be finished when every question has an
  option: from any reachable state showing a question, answering each
  remaining question with its first option and moving on reaches the
  results.
\<close>

theorem quiz_can_finish:
  "quiz_reachable s \<Longrightarrow> questions s \<noteq> [] \<Longrightarrow> \<not> showResults s \<Longrightarrow> \<forall>q \<in> set (questions s). options q \<noteq> []
   \<Longrightarrow> \<exists>t. quiz_run s (finish_plan s) = Some t \<and> showResults t"
proof -
  assume r: "quiz_reachable s" and ne: "questions s \<noteq> []" and sr: "\<not> showResults s"
    and opts: "\<forall>q \<in> set (questions s). options q \<noteq> []"
  from r have "quiz_inv s" by (rule quiz_reachable_inv)
  with ne have idx: "currentQuestionIndex s < length (questions s)" by (simp add: quiz_inv_def)
  show ?thesis
  proof (cases "isAnswered s")
    case True
    show ?thesis using quiz_finish_answered [OF True sr idx opts] True by (simp add: finish_plan_def)
  next
    case False
    let ?o = "hd (options (questions s ! currentQuestionIndex s))"
    have "?o \<in> set (options (questions s ! currentQuestionIndex s))" using opts idx by simp
    then obtain t where t: "quiz_step s (SelectOption ?o) = Some t"
      and ta: "isAnswered t" "\<not> showResults t" "questions t = questions s"
        "currentQuestionIndex t = currentQuestionIndex s"
      using quiz_select_step [of s] ne sr False idx by auto
    have "\<exists>u. quiz_run t (ClickNext # concat (map answer_events (drop (Suc (currentQuestionIndex t)) (questions t))))
              = Some u \<and> showResults u"
      using ta idx opts by (intro quiz_finish_answered) simp_all
    with t ta False show ?thesis by (simp add: finish_plan_def answer_events_def)
  qed
qed

theorem quiz_can_finish_witness:
  "\<exists>t. quiz_run (the (quiz_run quiz_init [SetTopic ''Arithmetic'', ClickGenerate, GenerateSettles (Inr [sample_question])]))
         (finish_plan (the (quiz_run quiz_init [SetTopic ''Arithmetic'', ClickGenerate, GenerateSettles (Inr [sample_question])])))
         = Some t \<and> showResults t"
proof -
  let ?s = "the (quiz_run quiz_init [SetTopic ''Arithmetic'', ClickGenerate, GenerateSettles (Inr [sample_question])])"
  have r: "quiz_reachable ?s" by (rule quiz_reachable_run) code_simp
  have q: "questions ?s = [sample_question]" by code_simp
  have sr: "\<not> showResults ?s" by code_simp
  have o: "\<forall>q \<in> set (questions ?s). options q \<noteq> []" unfolding q by (simp add: sample_question_def)
  have ne: "questions ?s \<noteq> []" unfolding q by simp
  show ?thesis by (rule quiz_can_finish [OF r ne sr o])
qed

text \<open>
  C16: a question with no options leaves the quiz stuck: no option button is
  rendered, the next button appears only once answered, and the results
  and restart are never reached; every sequence of events leaves the
  state as it is.
\<close>

lemma quiz_step_stuck:
  "questions s \<noteq> [] \<Longrightarrow> \<not> showResults s \<Longrightarrow> \<not> isAnswered s \<Longrightarrow> currentQuestionIndex s < length (questions s)
   \<Longrightarrow> options (questions s ! currentQuestionIndex s) = [] \<Longrightarrow> quiz_pending s = [] \<Longrightarrow> quiz_step s e = Some s"
  by (cases e) (simp_all add: quiz_step_def renderQuiz_def)

theorem quiz_stuck_without_options:
  "questions s \<noteq> [] \<Longrightarrow> \<not> showResults s \<Longrightarrow> \<not> isAnswered s \<Longrightarrow> currentQuestionIndex s < length (questions s)
   \<Longrightarrow> options (questions s ! currentQuestionIndex s) = [] \<Longrightarrow> quiz_pending s = [] \<Longrightarrow> quiz_run s es = Some s"
  by (induction es) (simp_all add: quiz_step_stuck)

theorem quiz_stuck_without_options_witness:
  "quiz_run (the (quiz_run quiz_init [SetTopic ''Closures'', ClickGenerate, GenerateSettles (Inr [optionless_question])]))
     [SelectOption ''a'', ClickNext, ClickRestart, ClickGenerate]
   = Some (the (quiz_run quiz_init [SetTopic ''Closures'', ClickGenerate, GenerateSettles (Inr [optionless_question])]))"
proof -
  let ?s = "the (quiz_run quiz_init [SetTopic ''Closures'', ClickGenerate, GenerateSettles (Inr [optionless_question])])"
  have a: "questions ?s \<noteq> []" by code_simp
  have b: "\<not> showResults ?s" by code_simp
  have c: "\<not> isAnswered ?s" by code_simp
  have d: "currentQuestionIndex ?s < length (questions ?s)" by code_simp
  have e: "options (questions ?s ! currentQuestionIndex ?s) = []" by code_simp
  have f: "quiz_pending ?s = []" by code_simp
  show ?thesis by (rule quiz_stuck_without_options [OF a b c d e f])
qed

end
