(* ===== verification/Practice.thy ===== *)
theory Practice
  imports SpeechRecognition Gateway
begin

text \<open>
  The practice loop, \<open>PracticeMode\<close> in \<open>src/components/PracticeMode.tsx\<close>.
  It owns an instance of the recognition hook (the record of
  \<open>SpeechRecognition\<close>, driven by that theory's operations) and issues
  plain-text requests on its own client, without a response schema.
  \<open>getNewQuestion\<close> and \<open>submitAnswer\<close> are split at their \<open>await\<close>; an event
  settles the \<open>i\<close>-th outstanding call. The recognition engine's callbacks
  are events too, so they interleave with everything else.
\<close>

section \<open>State and handlers\<close>

record text_request =
  tr_model :: string
  tr_contents :: string

datatype practice_pending =
    is_question: AwaitQuestion text_request \<comment> \<open>\<open>await\<close> in \<open>getNewQuestion\<close>\<close>
  | AwaitFeedback text_request \<comment> \<open>\<open>await\<close> in \<open>submitAnswer\<close>\<close>

record practice_state =
  pr_topic :: string \<comment> \<open>\<open>topic\<close>\<close>
  pr_question :: string \<comment> \<open>\<open>question\<close>\<close>
  pr_feedback :: string \<comment> \<open>\<open>feedback\<close>\<close>
  pr_loading :: bool \<comment> \<open>\<open>isLoading\<close>\<close>
  pr_error :: "string option" \<comment> \<open>\<open>error\<close>\<close>
  pr_rec :: recognition_state \<comment> \<open>\<open>useSpeechRecognition()\<close>\<close>
  pr_pending :: "practice_pending list"

definition pr_init :: "bool \<Rightarrow> practice_state" where
  "pr_init recSupported = \<lparr>pr_topic = [], pr_question = [], pr_feedback = [], pr_loading = False,
     pr_error = None, pr_rec = rec_init recSupported, pr_pending = []\<rparr>"

definition question_request :: "string \<Rightarrow> text_request" where
  "question_request topic =
     \<lparr>tr_model = flash_model,
      tr_contents = ''Generate a single, common technical interview question about '' @ dq @ topic @ dq
        @ ''. This can be a coding problem (provide a stub in Python), a system design question, or a''
        @ '' conceptual question.''\<rparr>"

definition feedback_instructions :: string where
  "feedback_instructions =
     ''Provide constructive feedback on the candidate'' @ apos @ ''s answer. Be specific about what was''
     @ '' good and what could be improved. Suggest a model answer for comparison. Structure your''
     @ '' feedback in Markdown with headings for Clarity, Correctness, and Completeness, followed by a''
     @ '' Model Answer. If it'' @ apos @ ''s a coding question, analyze the code for correctness,''
     @ '' efficiency, and style.''"

definition feedback_request :: "string \<Rightarrow> string \<Rightarrow> text_request" where
  "feedback_request qn ans =
     \<lparr>tr_model = flash_model,
      tr_contents = tl_line 16 (''Question: '' @ dq @ qn @ dq)
        @ tl_line 16 (''Candidate'' @ apos @ ''s Answer: '' @ dq @ ans @ dq)
        @ tl_line 16 [] @ tl_line 16 feedback_instructions @ tl_line 12 []\<rparr>"

definition msg_pr_topic :: string where
  "msg_pr_topic = ''Please enter a topic.''"

definition msg_question_failed :: string where
  "msg_question_failed = ''Failed to generate a question. Please try again.''"

definition msg_feedback_failed :: string where
  "msg_feedback_failed = ''Failed to get feedback. Please try again.''"

definition getNewQuestion :: "practice_state \<Rightarrow> practice_state" where
  "getNewQuestion s =
     (if \<not> js_truthy (pr_topic s) then s\<lparr>pr_error := Some msg_pr_topic\<rparr>
      else s\<lparr>pr_loading := True, pr_error := None, pr_question := [], pr_feedback := [],
             pr_rec := setTranscript (pr_rec s) [],
             pr_pending := pr_pending s @ [AwaitQuestion (question_request (pr_topic s))]\<rparr>)"

definition submitAnswer :: "practice_state \<Rightarrow> practice_state" where
  "submitAnswer s =
     (if \<not> js_truthy (transcript (pr_rec s)) then s
      else s\<lparr>pr_loading := True, pr_feedback := [], pr_error := None,
             pr_rec := stopListening (pr_rec s),
             pr_pending := pr_pending s @ [AwaitFeedback (feedback_request (pr_question s) (transcript (pr_rec s)))]\<rparr>)"

text \<open>The continuation after the \<open>await\<close>, with its \<open>catch\<close> and \<open>finally\<close>.\<close>

definition practice_settled :: "practice_state \<Rightarrow> nat \<Rightarrow> failure + string \<Rightarrow> practice_state" where
  "practice_settled s i r =
     (let s1 = s\<lparr>pr_pending := remove_nth i (pr_pending s), pr_loading := False\<rparr> in
      if is_question (pr_pending s ! i)
      then (case r of Inr text \<Rightarrow> s1\<lparr>pr_question := text\<rparr> | Inl _ \<Rightarrow> s1\<lparr>pr_error := Some msg_question_failed\<rparr>)
      else (case r of Inr text \<Rightarrow> s1\<lparr>pr_feedback := text\<rparr> | Inl _ \<Rightarrow> s1\<lparr>pr_error := Some msg_feedback_failed\<rparr>))"

text \<open>
  Controls: the topic input and the new-question button (disabled while
  loading) always; the answer box, the microphone button and the submit
  button (disabled while loading or with an empty answer) while a question
  is shown. Then the settling of a call and the recognition engine's callbacks.
\<close>

datatype practice_event =
    PrSetTopic string | PrClickNew | PrSetAnswer string | PrClickMic | PrClickSubmit
  | PrSettles nat "failure + string"
  | PrRecResult nat "speech_result list" | PrRecError string | PrRecEnd

fun practice_step :: "practice_state \<Rightarrow> practice_event \<Rightarrow> practice_state" where
  "practice_step s (PrSetTopic t) = s\<lparr>pr_topic := t\<rparr>"
| "practice_step s PrClickNew = (if pr_loading s then s else getNewQuestion s)"
| "practice_step s (PrSetAnswer t) =
     (if js_truthy (pr_question s) then s\<lparr>pr_rec := setTranscript (pr_rec s) t\<rparr> else s)"
| "practice_step s PrClickMic =
     (if js_truthy (pr_question s)
      then s\<lparr>pr_rec := (if isListening (pr_rec s) then stopListening (pr_rec s) else startListening (pr_rec s))\<rparr>
      else s)"
| "practice_step s PrClickSubmit =
     (if js_truthy (pr_question s) \<and> \<not> pr_loading s \<and> js_truthy (transcript (pr_rec s))
      then submitAnswer s else s)"
| "practice_step s (PrSettles i r) = (if i < length (pr_pending s) then practice_settled s i r else s)"
| "practice_step s (PrRecResult i rs) = s\<lparr>pr_rec := rec_step (pr_rec s) (Result i rs)\<rparr>"
| "practice_step s (PrRecError e) = s\<lparr>pr_rec := rec_step (pr_rec s) (Error e)\<rparr>"
| "practice_step s PrRecEnd = s\<lparr>pr_rec := rec_step (pr_rec s) End\<rparr>"

definition practice_run :: "practice_state \<Rightarrow> practice_event list \<Rightarrow> practice_state" where
  "practice_run s es = fold (\<lambda>e s. practice_step s e) es s"

inductive practice_reachable :: "bool \<Rightarrow> practice_state \<Rightarrow> bool" for recSupported :: bool where
  init: "practice_reachable recSupported (pr_init recSupported)"
| step: "practice_reachable recSupported s \<Longrightarrow> practice_reachable recSupported (practice_step s e)"

section \<open>Invariant\<close>

definition practice_inv :: "practice_state \<Rightarrow> bool" where
  "practice_inv s \<longleftrightarrow>
     length (pr_pending s) \<le> 1 \<and> (pr_loading s \<longleftrightarrow> pr_pending s \<noteq> []) \<and> rec_inv (pr_rec s)"

text \<open>The hook's operations as the practice loop calls them keep the hook's invariant.\<close>

lemma rec_inv_ops:
  "rec_inv r \<Longrightarrow> rec_inv (setTranscript r t)" "rec_inv r \<Longrightarrow> rec_inv (stopListening r)"
  "rec_inv r \<Longrightarrow> rec_inv (startListening r)"
  using rec_step_inv [of r "SetText t"] rec_step_inv [of r Stop] rec_step_inv [of r Start] by simp_all

lemma practice_inv_init: "practice_inv (pr_init b)"
  by (simp add: practice_inv_def pr_init_def rec_inv_init)

lemma practice_inv_new: "practice_inv s \<Longrightarrow> \<not> pr_loading s \<Longrightarrow> practice_inv (getNewQuestion s)"
  by (simp add: practice_inv_def getNewQuestion_def rec_inv_ops)

lemma practice_inv_submit: "practice_inv s \<Longrightarrow> \<not> pr_loading s \<Longrightarrow> practice_inv (submitAnswer s)"
  by (simp add: practice_inv_def submitAnswer_def rec_inv_ops)

lemma practice_inv_settled: "practice_inv s \<Longrightarrow> i < length (pr_pending s) \<Longrightarrow> practice_inv (practice_settled s i r)"
  by (auto simp: practice_inv_def practice_settled_def remove_nth_def Let_def split: sum.splits)

lemma practice_inv_rec: "practice_inv s \<Longrightarrow> practice_inv (s\<lparr>pr_rec := rec_step (pr_rec s) e\<rparr>)"
  by (simp add: practice_inv_def rec_step_inv)

lemma practice_inv_frame:
  "practice_inv s \<Longrightarrow> practice_inv (s\<lparr>pr_topic := t\<rparr>)"
  "practice_inv s \<Longrightarrow> rec_inv r \<Longrightarrow> practice_inv (s\<lparr>pr_rec := r\<rparr>)"
  by (simp_all add: practice_inv_def)

lemma practice_step_inv: "practice_inv s \<Longrightarrow> practice_inv (practice_step s e)"
proof (cases e)
  case PrClickMic
  assume i: "practice_inv s"
  then have "rec_inv (pr_rec s)" by (simp add: practice_inv_def)
  with i PrClickMic show ?thesis by (simp add: practice_inv_frame rec_inv_ops)
next
  case (PrSetAnswer t)
  assume i: "practice_inv s"
  then have "rec_inv (pr_rec s)" by (simp add: practice_inv_def)
  with i PrSetAnswer show ?thesis by (simp add: practice_inv_frame rec_inv_ops)
qed (simp_all add: practice_inv_new practice_inv_submit practice_inv_settled practice_inv_rec practice_inv_frame
    del: rec_step.simps)

lemma practice_reachable_inv: "practice_reachable b s \<Longrightarrow> practice_inv s"
  by (induction rule: practice_reachable.induct) (simp_all add: practice_inv_init practice_step_inv)

lemma practice_run_reachable: "practice_reachable b s \<Longrightarrow> practice_reachable b (practice_run s es)"
  by (induction es arbitrary: s) (simp_all add: practice_run_def practice_reachable.step)

definition final :: "string \<Rightarrow> speech_result" where
  "final t = \<lparr>isFinal = True, alt_transcript = t\<rparr>"

definition practice_trace :: "practice_event list" where
  "practice_trace = [PrSetTopic ''SQL'', PrClickNew, PrSettles 0 (Inr ''What is a JOIN?''), PrClickMic,
     PrRecResult 0 [final ''It combines rows''], PrClickSubmit, PrRecResult 0 [final ''from two tables'']]"

section \<open>Properties\<close>

text \<open>
  C27: under any interleaving of clicks, edits, settling calls and
  recognition callbacks, at most one request is outstanding, exactly while
  the loop is loading, and the embedded recognition hook keeps its
  invariant: capture is active only with a recognition object and no error.
\<close>

theorem practice_single_request:
  "practice_reachable b s \<Longrightarrow>
   length (pr_pending s) \<le> 1 \<and> (pr_loading s \<longleftrightarrow> pr_pending s \<noteq> [])
   \<and> (isListening (pr_rec s) \<longrightarrow> recognition (pr_rec s) \<and> rec_error (pr_rec s) = None)"
  using practice_reachable_inv [of b s] by (simp add: practice_inv_def rec_inv_def)

theorem practice_single_request_witness:
  "pr_loading (practice_run (pr_init True) practice_trace)
   \<and> length (pr_pending (practice_run (pr_init True) practice_trace)) = 1"
proof -
  let ?s = "practice_run (pr_init True) practice_trace"
  have r: "practice_reachable True ?s" by (rule practice_run_reachable [OF practice_reachable.init])
  have l: "pr_loading ?s" by code_simp
  from practice_single_request [OF r] l have "length (pr_pending ?s) \<le> 1 \<and> pr_pending ?s \<noteq> []" by simp
  with l show ?thesis by (cases "pr_pending ?s") auto
qed

text \<open>
  C28: submitting a non-empty answer stops capture and issues exactly one
  request, whose prompt quotes the question shown and the answer as it is at
  the click; an empty answer does nothing.
\<close>

theorem submit_feedback_request:
  "rec_inv (pr_rec s) \<Longrightarrow>
   (\<not> js_truthy (transcript (pr_rec s)) \<longrightarrow> submitAnswer s = s)
   \<and> (js_truthy (transcript (pr_rec s)) \<longrightarrow>
        pr_pending (submitAnswer s)
          = pr_pending s @ [AwaitFeedback (feedback_request (pr_question s) (transcript (pr_rec s)))]
        \<and> \<not> isListening (pr_rec (submitAnswer s)))
   \<and> js_includes (tr_contents (feedback_request qn ans)) (dq @ qn @ dq)
   \<and> js_includes (tr_contents (feedback_request qn ans)) (dq @ ans @ dq)"
proof -
  have "js_includes (tr_contents (feedback_request qn ans)) (dq @ qn @ dq)"
    unfolding feedback_request_def tl_line_def text_request.select_convs append_assoc
    by (simp only: js_includes_search)
  moreover have "js_includes (tr_contents (feedback_request qn ans)) (dq @ ans @ dq)"
    unfolding feedback_request_def tl_line_def text_request.select_convs append_assoc
    by (simp only: js_includes_search)
  moreover assume "rec_inv (pr_rec s)"
  ultimately show ?thesis by (auto simp: submitAnswer_def stopListening_def rec_inv_def)
qed

theorem submit_feedback_request_witness:
  "pr_pending (submitAnswer ((pr_init True)\<lparr>pr_rec := (rec_init True)\<lparr>transcript := ''Yes''\<rparr>\<rparr>))
   = [AwaitFeedback (feedback_request [] ''Yes'')]"
proof -
  have i: "rec_inv (pr_rec ((pr_init True)\<lparr>pr_rec := (rec_init True)\<lparr>transcript := ''Yes''\<rparr>\<rparr>))"
    by (simp add: rec_inv_def rec_init_def)
  show ?thesis using submit_feedback_request [OF i, THEN conjunct2, THEN conjunct1] by (simp add: pr_init_def)
qed

text \<open>
  C29: capture is stopped on submit, but the engine may still deliver the end
  of the utterance: from any state showing a question with a non-empty
  answer and no call outstanding, when a final result arrives after the
  submit click, the answer shown is extended with it while the feedback
  request carries the answer as submitted.
\<close>

theorem late_result_after_submit:
  assumes shown: "js_truthy (pr_question s)" and idle: "\<not> pr_loading s"
    and answer: "js_truthy (transcript (pr_rec s))" and engine: "recognition (pr_rec s)"
    and late: "js_truthy (final_transcript (drop i rs))"
  shows "pr_pending (practice_step (practice_step s PrClickSubmit) (PrRecResult i rs))
      = pr_pending s @ [AwaitFeedback (feedback_request (pr_question s) (transcript (pr_rec s)))]
    \<and> transcript (pr_rec (practice_step (practice_step s PrClickSubmit) (PrRecResult i rs)))
      = js_trim (transcript (pr_rec s) @ '' '' @ final_transcript (drop i rs))"
  using assms by (simp add: submitAnswer_def stopListening_def rec_on_result_def Let_def)

theorem late_result_after_submit_witness:
  "transcript (pr_rec (practice_step (practice_step
      ((pr_init True)\<lparr>pr_question := ''What is a JOIN?'', pr_rec := (rec_init True)\<lparr>transcript := ''It combines rows''\<rparr>\<rparr>)
      PrClickSubmit) (PrRecResult 0 [final ''from two tables''])))
   = ''It combines rows from two tables''"
proof -
  let ?s = "(pr_init True)\<lparr>pr_question := ''What is a JOIN?'', pr_rec := (rec_init True)\<lparr>transcript := ''It combines rows''\<rparr>\<rparr>"
  have h: "js_truthy (pr_question ?s)" "\<not> pr_loading ?s" "js_truthy (transcript (pr_rec ?s))"
    "recognition (pr_rec ?s)" by (simp_all add: pr_init_def rec_init_def)
  have l: "js_truthy (final_transcript (drop 0 [final ''from two tables'']))" by code_simp
  have "transcript (pr_rec (practice_step (practice_step ?s PrClickSubmit) (PrRecResult 0 [final ''from two tables''])))
      = js_trim (transcript (pr_rec ?s) @ '' '' @ final_transcript (drop 0 [final ''from two tables'']))"
    using late_result_after_submit [OF h l] by (rule conjunct2)
  also have "\<dots> = ''It combines rows from two tables''" by code_simp
  finally show ?thesis .
qed

end
