(* ===== verification/App.thy ===== *)
theory App
  imports InterviewProperties AtsScanner Roadmap Quiz Practice
begin

text \<open>
  The application shell, \<open>App\<close> in \<open>src/App.tsx\<close>. Its state is the
  \<open>view\<close> string; \<open>renderView\<close> mounts the tool the view names, and a tool's
  state lives only while it is mounted: a change of view unmounts it and a
  later return mounts it afresh from its initial state. The model keeps the
  mounted tool's state beside the view and routes each tool's events to
  that tool's step function. The browser's capabilities (speech
  recognition, speech synthesis, its voices) are fixed for a run.
\<close>

record browser =
  has_recognition :: bool
  has_synthesis :: bool
  browser_voices :: "voice list"

datatype app_view = ViewDashboard | ViewAts | ViewRoadmap | ViewQuiz | ViewInterview | ViewPractice

text \<open>The \<open>features\<close> array: the \<open>id\<close> and \<open>label\<close> of each dashboard button, in order.\<close>

definition features :: "(string \<times> string) list" where
  "features = [(''quiz'', ''Quiz Generator''), (''roadmap'', ''Roadmap Generator''),
     (''ats'', ''ATS Resume Scanner''), (''practice'', ''Prep Arena''), (''interview'', ''Mock Interview'')]"

text \<open>The \<open>switch (view)\<close> of \<open>renderView\<close>, with its \<open>default\<close> branch.\<close>

definition view_of :: "string \<Rightarrow> app_view" where
  "view_of v =
     (if v = ''ats'' then ViewAts else if v = ''roadmap'' then ViewRoadmap
      else if v = ''quiz'' then ViewQuiz else if v = ''interview'' then ViewInterview
      else if v = ''practice'' then ViewPractice else ViewDashboard)"

datatype app_screen =
    DashboardScreen
  | AtsScreen ats_state
  | RoadmapScreen roadmap_state
  | QuizScreen quiz_state
  | InterviewScreen session
  | PracticeScreen practice_state

fun screen_view :: "app_screen \<Rightarrow> app_view" where
  "screen_view DashboardScreen = ViewDashboard"
| "screen_view (AtsScreen _) = ViewAts"
| "screen_view (RoadmapScreen _) = ViewRoadmap"
| "screen_view (QuizScreen _) = ViewQuiz"
| "screen_view (InterviewScreen _) = ViewInterview"
| "screen_view (PracticeScreen _) = ViewPractice"

text \<open>Mounting a tool runs its \<open>useState\<close> initialisers and mount effects.\<close>

definition mount :: "browser \<Rightarrow> string \<Rightarrow> app_screen" where
  "mount b v =
     (case view_of v of
        ViewAts \<Rightarrow> AtsScreen ats_init
      | ViewRoadmap \<Rightarrow> RoadmapScreen rm_init
      | ViewQuiz \<Rightarrow> QuizScreen quiz_init
      | ViewInterview \<Rightarrow> InterviewScreen (session_init (has_recognition b) (has_synthesis b) (browser_voices b))
      | ViewPractice \<Rightarrow> PracticeScreen (pr_init (has_recognition b))
      | ViewDashboard \<Rightarrow> DashboardScreen)"

record app_state =
  current_view :: string \<comment> \<open>\<open>view\<close>\<close>
  mounted :: app_screen

definition app_init :: app_state where
  "app_init = \<lparr>current_view = ''dashboard'', mounted = DashboardScreen\<rparr>"

text \<open>\<open>setView\<close>: React keeps the tree when the new state equals the old one.\<close>

definition setView :: "browser \<Rightarrow> app_state \<Rightarrow> string \<Rightarrow> app_state" where
  "setView b s v = (if v = current_view s then s else \<lparr>current_view = v, mounted = mount b v\<rparr>)"

text \<open>
  The back button of each tool; the interview's is disabled while the
  interview is running (\<open>disabled={interviewState === 'running'}\<close>).
\<close>

fun back_enabled :: "app_screen \<Rightarrow> bool" where
  "back_enabled DashboardScreen = False"
| "back_enabled (InterviewScreen i) = (interviewState i \<noteq> Running)"
| "back_enabled _ = True"

datatype app_event =
    ClickFeature string | ClickBack
  | AtsE ats_event | RoadmapE rm_event | QuizE quiz_event | InterviewE interview_event | PracticeE practice_event

text \<open>
  The dashboard's buttons exist only on the dashboard, a tool's back button
  (\<open>onBack\<close>) only in the tool; a tool's events reach it only while it is
  mounted. A quiz handler or a scanner render that throws ends the run
  (\<open>None\<close>).
\<close>

fun app_step :: "browser \<Rightarrow> app_state \<Rightarrow> app_event \<Rightarrow> app_state option" where
  "app_step b s (ClickFeature f) =
     Some (if screen_view (mounted s) = ViewDashboard \<and> f \<in> set (map fst features) then setView b s f else s)"
| "app_step b s ClickBack = Some (if back_enabled (mounted s) then setView b s ''dashboard'' else s)"
| "app_step b s (AtsE e) =
     (case mounted s of
        AtsScreen a \<Rightarrow> map_option (\<lambda>a'. s\<lparr>mounted := AtsScreen a'\<rparr>) (ats_step a e)
      | _ \<Rightarrow> Some s)"
| "app_step b s (RoadmapE e) =
     Some (case mounted s of RoadmapScreen r \<Rightarrow> s\<lparr>mounted := RoadmapScreen (rm_step r e)\<rparr> | _ \<Rightarrow> s)"
| "app_step b s (QuizE e) =
     (case mounted s of
        QuizScreen q \<Rightarrow> map_option (\<lambda>q'. s\<lparr>mounted := QuizScreen q'\<rparr>) (quiz_step q e)
      | _ \<Rightarrow> Some s)"
| "app_step b s (InterviewE e) =
     Some (case mounted s of InterviewScreen i \<Rightarrow> s\<lparr>mounted := InterviewScreen (interview_step i e)\<rparr> | _ \<Rightarrow> s)"
| "app_step b s (PracticeE e) =
     Some (case mounted s of PracticeScreen p \<Rightarrow> s\<lparr>mounted := PracticeScreen (practice_step p e)\<rparr> | _ \<Rightarrow> s)"

fun app_run :: "browser \<Rightarrow> app_state \<Rightarrow> app_event list \<Rightarrow> app_state option" where
  "app_run b s [] = Some s"
| "app_run b s (e # es) = (case app_step b s e of None \<Rightarrow> None | Some t \<Rightarrow> app_run b t es)"

inductive app_reachable :: "browser \<Rightarrow> app_state \<Rightarrow> bool" for b :: browser where
  init: "app_reachable b app_init"
| step: "app_reachable b s \<Longrightarrow> app_step b s e = Some t \<Longrightarrow> app_reachable b t"

section \<open>Invariant\<close>

text \<open>
  The mounted screen is the one the view names, and the mounted tool's state
  is reachable in that tool's own model, so every property a tool's theory
  proves of its reachable states holds inside the application.
\<close>

fun tool_reachable :: "browser \<Rightarrow> app_screen \<Rightarrow> bool" where
  "tool_reachable b DashboardScreen = True"
| "tool_reachable b (AtsScreen a) = ats_reachable a"
| "tool_reachable b (RoadmapScreen r) = rm_reachable r"
| "tool_reachable b (QuizScreen q) = quiz_reachable q"
| "tool_reachable b (InterviewScreen i) = reachable i"
| "tool_reachable b (PracticeScreen p) = practice_reachable (has_recognition b) p"

definition app_inv :: "browser \<Rightarrow> app_state \<Rightarrow> bool" where
  "app_inv b s \<longleftrightarrow> screen_view (mounted s) = view_of (current_view s) \<and> tool_reachable b (mounted s)"

lemma screen_view_mount: "screen_view (mount b v) = view_of v"
  by (simp add: mount_def split: app_view.split)

lemma tool_reachable_mount: "tool_reachable b (mount b v)"
  by (simp add: mount_def ats_reachable.init rm_reachable.init quiz_reachable.init reachable.init
      practice_reachable.init split: app_view.split)

lemma app_inv_setView: "app_inv b s \<Longrightarrow> app_inv b (setView b s v)"
  by (simp add: app_inv_def setView_def screen_view_mount tool_reachable_mount)

lemma app_inv_init: "app_inv b app_init"
  by (simp add: app_inv_def app_init_def view_of_def)

lemma app_step_inv:
  assumes i: "app_inv b s" and st: "app_step b s e = Some t"
  shows "app_inv b t"
proof (cases e)
  case (ClickFeature f)
  with i st show ?thesis by (auto intro: app_inv_setView split: if_splits)
next
  case ClickBack
  with i st show ?thesis by (auto intro: app_inv_setView split: if_splits)
qed (use i st in \<open>auto simp: app_inv_def split: app_screen.splits
      intro: ats_reachable.step rm_reachable.step quiz_reachable.step reachable.step practice_reachable.step\<close>)

lemma app_reachable_inv: "app_reachable b s \<Longrightarrow> app_inv b s"
  by (induction rule: app_reachable.induct) (auto intro: app_inv_init app_step_inv)

lemma app_run_reachable: "app_reachable b s \<Longrightarrow> app_run b s es = Some t \<Longrightarrow> app_reachable b t"
proof (induction es arbitrary: s)
  case (Cons e es)
  then obtain u where u: "app_step b s e = Some u" and r: "app_run b u es = Some t"
    by (auto split: option.splits)
  from Cons.prems(1) u have "app_reachable b u" by (rule app_reachable.step)
  then show ?case using r by (rule Cons.IH)
qed simp

lemma app_reachable_run: "app_run b app_init es \<noteq> None \<Longrightarrow> app_reachable b (the (app_run b app_init es))"
  using app_run_reachable [OF app_reachable.init] by fastforce

end
