(* ===== verification/InterviewRefinement.thy ===== *)
theory InterviewRefinement
  imports InterviewProperties
begin

text \<open>
  The interview's state machine as the specification states it (section
  4.1 of the design: setup, running, generating the report, finished, with
  generation falling back to setup on failure), and the refinement of that
  machine by the detailed flow of \<open>Interview\<close>, with \<open>interviewState\<close> as the
  abstraction function. Every step of the flow is a step of the abstract
  machine or a stutter, except the settling of a stale continuation: a
  start reply, a report or the 2 s timer arriving when the flow is no
  longer in the phase that created it.
\<close>

section \<open>The abstract machine\<close>

fun spec_phase_step :: "interview_state \<Rightarrow> interview_state \<Rightarrow> bool" where
  "spec_phase_step Setup Running = True"
| "spec_phase_step Running GeneratingReport = True"
| "spec_phase_step GeneratingReport Finished = True"
| "spec_phase_step GeneratingReport Setup = True"
| "spec_phase_step Finished Setup = True"
| "spec_phase_step p q = (p = q)"

text \<open>The phase in which each kind of continuation is created, if it expects one.\<close>

fun expected_phase :: "pending \<Rightarrow> interview_state option" where
  "expected_phase (AwaitStart _) = Some Setup"
| "expected_phase (AwaitTimer _) = Some Running"
| "expected_phase (AwaitReport _ _) = Some GeneratingReport"
| "expected_phase _ = None"

fun settled_index :: "interview_event \<Rightarrow> nat option" where
  "settled_index (ChatSettles i _) = Some i"
| "settled_index (ReportSettles i _) = Some i"
| "settled_index (TimerFires i) = Some i"
| "settled_index (FileSettles i _) = Some i"
| "settled_index _ = None"

definition stale_settle :: "session \<Rightarrow> interview_event \<Rightarrow> bool" where
  "stale_settle s e =
     (case settled_index e of
        None \<Rightarrow> False
      | Some i \<Rightarrow> i < length (pending s)
                  \<and> (case expected_phase (pending s ! i) of None \<Rightarrow> False | Some p \<Rightarrow> p \<noteq> interviewState s))"

section \<open>The phase under each operation\<close>

named_theorems phase_simps "the phase after each operation of the flow"

lemma phase_ops [phase_simps]:
  "interviewState (handleStartInterview s) = interviewState s"
  "interviewState (start_settled s b r) = (case r of Inr _ \<Rightarrow> Running | Inl _ \<Rightarrow> interviewState s)"
  "interviewState (generateAndSetReport c s) =
     (if syn_supported (syn s) then GeneratingReport else interviewState s)"
  "interviewState (report_settled s r') = (case r' of Inr _ \<Rightarrow> Finished | Inl _ \<Rightarrow> Setup)"
  "interviewState (handleSendResponse s m) = interviewState s"
  "interviewState (reply_settled s h b c r) = interviewState s"
  "interviewState (handleNewInterview s) = Setup"
  "interviewState (handleStopInterview s) =
     (if syn_supported (syn s) then GeneratingReport else interviewState s)"
  "interviewState (onDrop s) = interviewState s"
  "interviewState (file_settled s r) = interviewState s"
  "interviewState (toggleMic s) = interviewState s"
  "interviewState (settle s i) = interviewState s"
  by (simp_all add: handleStartInterview_def start_settled_def generateAndSetReport_def report_settled_def
      handleSendResponse_def reply_settled_def handleNewInterview_def handleStopInterview_def onDrop_def file_settled_def
      toggleMic_def settle_def Let_def split: sum.split option.split)

lemma phase_effects [phase_simps]:
  "interviewState (speech_error_effect s0 s) = interviewState s"
  "interviewState (listening_effect s0 s) = interviewState s"
  by (simp_all add: speech_error_effect_def listening_effect_def phase_ops split: option.split)

lemma phase_step [phase_simps]: "interviewState (interview_step s e) = interviewState (handle s e)"
  by (simp add: interview_step_def Let_def phase_effects)

lemma phase_in_setup [phase_simps]:
  "interviewState (in_setup s f) = (if interviewState s = Setup then interviewState (f s) else interviewState s)"
  by (simp add: in_setup_def)

lemma spec_phase_refl [simp]: "spec_phase_step p p"
  by (cases p) simp_all

lemma spec_phase_into [simp]:
  "spec_phase_step p Running \<longleftrightarrow> p = Setup \<or> p = Running"
  "spec_phase_step p GeneratingReport \<longleftrightarrow> p = Running \<or> p = GeneratingReport"
  "spec_phase_step p Finished \<longleftrightarrow> p = GeneratingReport \<or> p = Finished"
  "spec_phase_step p Setup \<longleftrightarrow> p \<noteq> Running"
  by (cases p; simp)+

lemma phase_settles:
  "spec_phase_step (interviewState s) (interviewState (chat_settles s i r)) \<or> stale_settle s (ChatSettles i r)"
  "spec_phase_step (interviewState s) (interviewState (report_settles s i r')) \<or> stale_settle s (ReportSettles i r')"
  "spec_phase_step (interviewState s) (interviewState (timer_fires s i)) \<or> stale_settle s (TimerFires i)"
  "spec_phase_step (interviewState s) (interviewState (file_settles s i r))"
  by (auto simp: chat_settles_def report_settles_def timer_fires_def file_settles_def stale_settle_def
      phase_ops split: pending.splits sum.splits)

section \<open>Refinement\<close>

text \<open>
  C3: the flow refines the specification's state machine: under
  \<open>interviewState\<close>, every step of the flow, from any state and for any
  event, is a transition of the abstract machine or leaves the phase as it
  is, unless the event settles a continuation created in another phase
  than the current one.
\<close>

theorem phase_refines_spec:
  "spec_phase_step (interviewState s) (interviewState (interview_step s e)) \<or> stale_settle s e"
  by (cases e) (simp_all add: phase_step phase_in_setup phase_ops phase_settles)

theorem phase_refines_spec_witness:
  "spec_phase_step (interviewState (interview_run (session_init True True []) start_arrays))
     (interviewState (interview_step (interview_run (session_init True True []) start_arrays) ClickEnd))"
proof -
  have "\<not> stale_settle (interview_run (session_init True True []) start_arrays) ClickEnd"
    by (simp add: stale_settle_def)
  then show ?thesis using phase_refines_spec [of "interview_run (session_init True True []) start_arrays" ClickEnd]
    by blast
qed

text \<open>
  C4: the exception is reachable: End does not cancel the closing timer.
  From any running state with speech synthesis and a report timer pending,
  a click on End followed by the timer requests two reports, the current
  transcript's and the one the timer's closure captured; whichever settles
  second does so outside report generation, a step the abstract machine
  does not have.
\<close>

theorem quick_end_duplicates_report:
  "interviewState s = Running \<Longrightarrow> syn_supported (syn s) \<Longrightarrow>
   j < length (pending s) \<Longrightarrow> pending s ! j = AwaitTimer c \<Longrightarrow>
   pending (handle (handle s ClickEnd) (TimerFires j))
     = remove_nth j (pending s) @ [AwaitReport (history s) (current_context s), AwaitReport (rc_history c) (rc_context c)]
   \<and> interviewState (handle (handle s ClickEnd) (TimerFires j)) = GeneratingReport"
  by (simp add: handleStopInterview_def report_with_synthesis current_closure_def timer_fires_at
      nth_append settle_def)

theorem quick_end_duplicates_report_witness:
  "length (pending (handle (handle ((session_init True True [])\<lparr>interviewState := Running,
      pending := [AwaitTimer (current_closure (session_init True True []))]\<rparr>) ClickEnd) (TimerFires 0))) = 2"
proof -
  let ?s = "(session_init True True [])\<lparr>interviewState := Running,
      pending := [AwaitTimer (current_closure (session_init True True []))]\<rparr>"
  have "interviewState ?s = Running" "syn_supported (syn ?s)" "0 < length (pending ?s)"
    "pending ?s ! 0 = AwaitTimer (current_closure (session_init True True []))"
    by (simp_all add: session_init_def syn_init_def)
  from quick_end_duplicates_report [OF this] show ?thesis by (simp add: remove_nth_def)
qed

end
