(* ===== verification/Schemas.thy ===== *)
theory Schemas
  imports Gateway
begin

text \<open>
  The TypeScript interfaces of \<open>src/types/index.ts\<close> as data, and the
  agreement between each response schema the gateway declares and the type
  its caller reads the parsed reply as. A field of an interface is
  mandatory unless marked \<open>?\<close>; a schema agrees with a type when every
  mandatory field is a required property of the right shape, every
  optional field it declares has the right shape, and it declares no
  property the type lacks.
\<close>

datatype ts_type =
    TString | TNumber | TArray ts_type
  | TObject "(string \<times> bool \<times> ts_type) list" \<comment> \<open>field name, optional (\<open>?\<close>), type\<close>

definition ts_QuizQuestion :: ts_type where
  "ts_QuizQuestion = TObject [(''question'', False, TString), (''options'', False, TArray TString),
     (''answer'', False, TString), (''explanation'', False, TString)]"

definition ts_RoadmapStep :: ts_type where
  "ts_RoadmapStep = TObject [(''step'', False, TNumber), (''title'', False, TString),
     (''description'', False, TString), (''resources'', False, TArray TString)]"

definition ts_Roadmap :: ts_type where
  "ts_Roadmap = TObject [(''title'', False, TString), (''steps'', False, TArray ts_RoadmapStep)]"

definition ts_AtsScanResult :: ts_type where
  "ts_AtsScanResult = TObject [(''score'', True, TNumber), (''matchRate'', True, TString),
     (''keywords'', True, TObject [(''missing'', False, TArray TString), (''found'', False, TArray TString)]),
     (''summary'', False, TString), (''suggestions'', False, TString),
     (''strengths'', True, TString), (''weaknesses'', True, TString)]"

definition ts_InterviewReport :: ts_type where
  "ts_InterviewReport = TObject [(''overallScore'', False, TNumber), (''summary'', False, TString),
     (''competencies'', False, TArray (TObject [(''name'', False, TString), (''score'', False, TNumber),
        (''feedback'', False, TString)])),
     (''strengths'', False, TArray TString), (''areasForImprovement'', False, TArray TString),
     (''recommendation'', False, TString)]"

text \<open>\<open>generateQuiz\<close> reads \<open>result.questions\<close> as \<open>QuizQuestion[]\<close>.\<close>

definition ts_quiz_response :: ts_type where
  "ts_quiz_response = TObject [(''questions'', False, TArray ts_QuizQuestion)]"

section \<open>Agreement of a schema with a type\<close>

definition fields_conform ::
  "(string \<times> (ts_type \<Rightarrow> bool)) list \<Rightarrow> string list \<Rightarrow> (string \<times> bool \<times> ts_type) list \<Rightarrow> bool" where
  "fields_conform props req fs =
     (list_all (\<lambda>(n, opt, t). (opt \<or> n \<in> set req) \<and> (case map_of props n of None \<Rightarrow> opt | Some c \<Rightarrow> c t)) fs
      \<and> list_all (\<lambda>(n, c). n \<in> set (map fst fs)) props)"

primrec conforms :: "schema \<Rightarrow> ts_type \<Rightarrow> bool" where
  "conforms (SString d) = (\<lambda>t. t = TString)"
| "conforms (SNumber d) = (\<lambda>t. t = TNumber)"
| "conforms (SArray d s) = (\<lambda>t. case t of TArray t' \<Rightarrow> conforms s t' | _ \<Rightarrow> False)"
| "conforms (SObject ps req) = (\<lambda>t. case t of TObject fs \<Rightarrow> fields_conform (map (map_prod id conforms) ps) req fs | _ \<Rightarrow> False)"

section \<open>Properties\<close>

text \<open>
  C20: the response schemas of the quiz, the roadmap, the interview report
  and the general resume review agree with the types their callers read;
  the job-match schema does not: its \<open>keywords\<close> object requires neither
  \<open>missing\<close> nor \<open>found\<close>, which \<open>AtsScanResult\<close> declares mandatory and the
  result view maps over.
\<close>

theorem schemas_match_types:
  "conforms quiz_schema ts_quiz_response \<and> conforms roadmap_schema ts_Roadmap
   \<and> conforms report_schema ts_InterviewReport \<and> conforms ats_general_schema ts_AtsScanResult
   \<and> \<not> conforms ats_match_schema ts_AtsScanResult"
  by code_simp

end
