(* ===== verification/Spec2Isabelle.thy ===== *)
theory Spec2Isabelle
  imports App InterviewRefinement Schemas
begin

text \<open>
  A verification model of AI-Interview-Prep, a single-page React application
  with five tools (quiz, learning roadmap, resume scanner, practice
  questions, mock interview) that send prompts to a generative-language
  service through one gateway module, and two hooks around the browser's
  speech engines. Every theory is a shallow embedding of the TypeScript it
  names: a component's state is a record, each handler is a function on
  it, the remote model, pdf.js and the speech engines are parameters or
  events, and each \<open>await\<close> splits a handler into the part before it, which
  leaves a pending continuation holding what the closure captured, and the
  continuation, run by a later event. A run is a list of events in any
  order, so interleavings of user actions, settling calls, timers and
  engine callbacks are all covered; reachability is an inductive predicate
  and each invariant is proved by rule induction.

  \<^bold>\<open>Theories and the code they model.\<close>
  \<^item> \<open>Prelude\<close>: the JavaScript string operations the code uses
    (\<open>trim\<close>, \<open>toLowerCase\<close>, \<open>includes\<close>, \<open>join\<close>, \<open>split\<close>), promise
    results as \<open>failure + 'a\<close> with \<open>res_bind\<close> for \<open>await\<close>, and the list
    and string lemmas the components share.
  \<^item> \<open>Types\<close>: the interfaces of \<open>src/types/index.ts\<close>.
  \<^item> \<open>SpeechRecognition\<close>: \<open>src/hooks/useSpeechRecognition.ts\<close>; the hook's
    state, \<open>startListening\<close>, \<open>stopListening\<close>, \<open>setTranscript\<close>, the
    \<open>onresult\<close>, \<open>onerror\<close>, \<open>onend\<close> handlers and the unmount cleanup.
  \<^item> \<open>SpeechSynthesis\<close>: \<open>src/hooks/useSpeechSynthesis.ts\<close>; \<open>speak\<close> as a
    closure over the \<open>isSpeaking\<close> of its render, the voice preference,
    the engine's queue and its callbacks.
  \<^item> \<open>Gateway\<close>: \<open>src/services/geminiService.ts\<close>; each of the four calls
    as the request it sends (model, prompt text with the template's exact
    layout, MIME type, response schema) and the trim-and-parse of the reply;
    the model and \<open>JSON.parse\<close> are parameters.
  \<^item> \<open>Schemas\<close>: the interfaces of \<open>src/types/index.ts\<close> as data and the
    agreement of each response schema with the type its caller reads.
  \<^item> \<open>FileReader\<close>: \<open>src/utils/fileReader.ts\<close>; \<open>readFileAsText\<close> with the
    read outcome and pdf.js as parameters.
  \<^item> \<open>Interview\<close>, \<open>InterviewProperties\<close>: \<open>src/components/InterviewMode.tsx\<close>;
    the session state with both hooks inside it, every handler split at its
    awaits (\<open>handleStartInterview\<close>, \<open>handleSendResponse\<close>,
    \<open>generateAndSetReport\<close> with its captured closure and the
    \<open>TypeError\<close> of \<open>window.speechSynthesis.cancel()\<close> in a browser
    without speech synthesis, the 2 s timer, \<open>onDrop\<close>), the two effects,
    and the rendered controls as guards.
  \<^item> \<open>InterviewRefinement\<close>: the specification's interview state machine
    (setup, running, generating the report, finished) as an abstract step
    relation, and the refinement of it by the flow with \<open>interviewState\<close>
    as abstraction function, up to the settling of stale continuations.
  \<^item> \<open>Quiz\<close>, \<open>AtsScanner\<close>, \<open>Roadmap\<close>, \<open>Practice\<close>: the other four tools
    (\<open>Quiz.tsx\<close>, \<open>AtsScanner.tsx\<close>, \<open>RoadmapGenerator.tsx\<close>,
    \<open>PracticeMode.tsx\<close>); \<open>Practice\<close> embeds the recognition hook and uses
    its operations and invariant. A render that throws (the quiz card past
    the last question, the scanner's keyword lists when the parsed reply
    lacks one) is \<open>None\<close> and ends the tool's run.
  \<^item> \<open>App\<close>: \<open>src/App.tsx\<close>; the view switch, mounting a tool from its
    initial state, the back buttons (the interview's is disabled while it
    runs), and routing each tool's events to its step function; a tool
    whose render throws ends the application's run.
  \<^item> This theory: the properties that span components (navigation
    between tools, and the report request the interview flow hands to the
    gateway).

  \<^bold>\<open>What is proved.\<close> Invariants over all reachable states: the interview
  transcript never has two interviewer turns in a row; capture is active only
  without an error; the synthesis engine holds at most one utterance; each
  tool has at most one request outstanding, exactly while it shows loading;
  the quiz index stays in range and the score within the question count;
  the quiz never throws; the scanner never throws in a run whose replies
  carry both keyword lists. Refinement: each interview step is a step of
  the specification's machine unless it settles a stale continuation.
  Liveness: a loaded quiz whose questions all have an option can always be
  finished (the events are constructed), and a question without options
  leaves it stuck forever. Functional behaviour of each handler on every
  branch, validation errors included; the request each tool sends; the
  round trips of the transcript text and of the PDF page text. And, each
  stated for every state in which the handlers involved are enabled, the
  behaviours where the code departs from its specification: a stale
  closure reports a transcript without the last exchange, an uncancelled
  timer leaves a fresh setup screen, an End click within the timer's delay
  requests the report twice, End without speech synthesis throws before
  report generation, concurrent replies lose turns, a failed reply breaks
  alternation, a keywords object without a list crashes the scanner, reads
  of two dropped files settle out of order, a late recognition result
  changes the answer after it was submitted, a second \<open>speak\<close> before
  \<open>onstart\<close> replaces the first, and the transcript encoding is not
  injective. Concrete runs, evaluated by \<open>code_simp\<close>, appear only as
  the witnesses that discharge these theorems' hypotheses.

  \<^bold>\<open>Bounds and termination.\<close> There is no fuel: every recursion is
  structural (on lists, strings or the event list of a run) or, for
  \<open>nat_str\<close>, by the decreasing argument of \<open>fun\<close>; the only loop of the
  code, over PDF pages, is a map over \<open>[1..<Suc numPages]\<close>. JavaScript
  numbers in the state (\<open>score\<close>, indices) are \<open>nat\<close>, with the comparison
  \<open>currentQuestionIndex < questions.length - 1\<close> kept over \<open>int\<close>.

  \<^bold>\<open>Not modelled.\<close> The JSX markup and styling, \<open>Icons\<close> and \<open>Spinner\<close>;
  scrolling; the internals of react-dropzone (the accepted files are the
  event's argument), pdf.js, the speech engines and the remote model, which
  are parameters or events; the order in which \<open>Promise.all\<close> reports one
  of several page failures; the module-level construction of the API
  client.
\<close>

section \<open>Interview flow and gateway\<close>

text \<open>
  The \<open>context\<close> object of \<open>generateAndSetReport\<close> as \<open>generateInterviewReport\<close>
  reads it: only \<open>context.type\<close>, \<open>context.role\<close> and \<open>context.resume\<close> are used.
\<close>

definition gateway_ctx :: "report_context \<Rightarrow> gateway_context" where
  "gateway_ctx c = \<lparr>gc_type = type_str (ctx_type c), gc_role = ctx_role c, gc_resume = ctx_resume c\<rparr>"

text \<open>The gateway request behind a pending continuation of the interview flow, if it is a report.\<close>

fun report_call :: "pending \<Rightarrow> gen_request option" where
  "report_call (AwaitReport h c) = Some (report_request h (gateway_ctx c))"
| "report_call _ = None"

definition demo_browser :: browser where
  "demo_browser = \<lparr>has_recognition = True, has_synthesis = True, browser_voices = []\<rparr>"

section \<open>Properties spanning components\<close>

text \<open>
  C34: a tool's state is not kept across navigation: going back to the
  dashboard and opening a tool again mounts that tool from its initial
  state, whatever was entered or generated before.
\<close>

theorem tool_state_not_kept:
  "app_reachable b s \<Longrightarrow> back_enabled (mounted s) \<Longrightarrow> f \<in> set (map fst features) \<Longrightarrow>
   app_run b s [ClickBack, ClickFeature f] = Some \<lparr>current_view = f, mounted = mount b f\<rparr>"
proof -
  assume r: "app_reachable b s" and be: "back_enabled (mounted s)"
    and f: "f \<in> set (map fst features)"
  from be have t: "screen_view (mounted s) \<noteq> ViewDashboard" by (cases "mounted s") simp_all
  from r have "app_inv b s" by (rule app_reachable_inv)
  with t have "current_view s \<noteq> ''dashboard''" by (auto simp: app_inv_def view_of_def)
  then have to_dash: "app_step b s ClickBack = Some \<lparr>current_view = ''dashboard'', mounted = DashboardScreen\<rparr>"
    using be by (simp add: setView_def mount_def view_of_def)
  from f have "f \<noteq> ''dashboard''" by (auto simp: features_def)
  with f have "app_step b \<lparr>current_view = ''dashboard'', mounted = DashboardScreen\<rparr> (ClickFeature f)
               = Some \<lparr>current_view = f, mounted = mount b f\<rparr>"
    by (simp add: setView_def)
  with to_dash show ?thesis by simp
qed

theorem tool_state_not_kept_witness:
  "app_run demo_browser (the (app_run demo_browser app_init [ClickFeature ''quiz'', QuizE (SetTopic ''Git'')]))
     [ClickBack, ClickFeature ''quiz''] = Some \<lparr>current_view = ''quiz'', mounted = QuizScreen quiz_init\<rparr>"
proof -
  let ?es = "[ClickFeature ''quiz'', QuizE (SetTopic ''Git'')]"
  have r: "app_reachable demo_browser (the (app_run demo_browser app_init ?es))" by (rule app_reachable_run) code_simp
  have t: "back_enabled (mounted (the (app_run demo_browser app_init ?es)))" by code_simp
  have f: "''quiz'' \<in> set (map fst features)" by (simp add: features_def)
  have m: "mount demo_browser ''quiz'' = QuizScreen quiz_init" by (simp add: mount_def view_of_def)
  show ?thesis unfolding m [symmetric] by (rule tool_state_not_kept [OF r t f])
qed

text \<open>
  C11: in a browser with speech synthesis, ending the interview with the
  button requests the report for the transcript as it stands: the
  continuation it leaves is the gateway's report request over the current
  history and form values, and the prompt of that request contains the
  whole transcript text.
\<close>

theorem end_interview_report_request:
  assumes synthesis: "syn_supported (syn s)"
  shows "report_call (last (pending (handleStopInterview s)))
     = Some (report_request (history s) (gateway_ctx (current_context s)))
   \<and> js_includes (req_contents (report_request (history s) (gateway_ctx (current_context s))))
       (transcript_text (history s))"
proof
  show "report_call (last (pending (handleStopInterview s)))
        = Some (report_request (history s) (gateway_ctx (current_context s)))"
    using synthesis by (simp add: handleStopInterview_def generateAndSetReport_def current_closure_def Let_def)
  show "js_includes (req_contents (report_request (history s) (gateway_ctx (current_context s))))
          (transcript_text (history s))"
    using report_prompt_includes by (simp add: report_request_def)
qed

theorem end_interview_report_request_witness:
  "report_call (last (pending (handleStopInterview (session_init True True []))))
     = Some (report_request [] (gateway_ctx (current_context (session_init True True []))))"
proof -
  have u: "syn_supported (syn (session_init True True []))" by (simp add: session_init_def syn_init_def)
  from end_interview_report_request [OF u] show ?thesis by (simp add: session_init_def)
qed

text \<open>
  C35: the report request does not depend on the interview's duration or on
  its job description: the flow passes both in the context, but the gateway
  never reads them.
\<close>

theorem report_ignores_jd_duration:
  "report_call (AwaitReport h (c\<lparr>ctx_duration := d, ctx_jd := j\<rparr>)) = report_call (AwaitReport h c)"
  by (simp add: gateway_ctx_def)

end
